theory Spec2Isabelle
  imports Complex_Main "HOL-Library.AList"
begin

section \<open>Data model (web/src/types.ts)\<close>

text \<open>
  JavaScript numbers are modelled as \<^typ>\<open>real\<close>: the formulas of the orbit engine are
  read as exact arithmetic. A metric that is missing from the feed (\<open>undefined\<close>,
  \<open>null\<close> or \<open>NaN\<close>, the values that \<open>x || 0\<close> replaces besides \<open>0\<close> itself) is
  \<open>None\<close>. Only the fields of \<open>ContainerStats\<close> that the engine reads are kept; the
  identifier field \<open>id\<close> is called \<open>idC\<close>. JavaScript's insertion-ordered \<open>Map\<close> is an
  association list with distinct keys: \<open>map_of\<close> is \<open>get\<close>, \<open>AList.update\<close> is
  \<open>set\<close> (in place for a known key, at the end for a new one), \<open>AList.delete\<close> is
  \<open>delete\<close>, and \<open>forEach\<close> is a fold from the left.
\<close>

record ContainerStats =
  idC :: string
  state :: string
  cpuPercent :: "real option"
  memoryPercent :: "real option"
  group :: string

record Group =
  key :: string
  title :: string
  containers :: "ContainerStats list"
  dominantState :: string

section \<open>Theme constants (web/src/theme.ts)\<close>

definition minRadius :: real where "minRadius = 12"
definition maxRadius :: real where "maxRadius = 18"
definition largeMaxRadius :: real where "largeMaxRadius = 12"
definition focusScale :: real where "focusScale = 1.5"

section \<open>Grouping function (web/src/utils/grouping.ts)\<close>

definition getDominantState :: "ContainerStats list \<Rightarrow> string" where
  "getDominantState cs =
     (let states = map state cs in
      if list_ex (\<lambda>s. s = ''running'') states then ''running''
      else if list_ex (\<lambda>s. s = ''restarting'') states then ''restarting''
      else if list_ex (\<lambda>s. s = ''paused'') states then ''paused''
      else ''exited'')"

text \<open>
  \<open>key.split(/[-_]/)\<close>: the pieces between separators, \<open>['''']\<close> for the empty string.
\<close>

fun splitKey :: "string \<Rightarrow> string list" where
  "splitKey [] = [[]]"
| "splitKey (c # cs) =
     (if c = CHR ''-'' \<or> c = CHR ''_'' then [] # splitKey cs
      else (case splitKey cs of w # ws \<Rightarrow> (c # w) # ws | [] \<Rightarrow> [[c]]))"

text \<open>
  \<open>toUpperCase\<close> on one character, for the ASCII letters; other characters are left as
  they are (the Unicode case mapping is not modelled).
\<close>

definition toUpperCase :: "char \<Rightarrow> char" where
  "toUpperCase c =
     (let n = (of_char c :: nat)
      in if 97 \<le> n \<and> n \<le> 122 then char_of (n - 32) else c)"

definition capitalize :: "string \<Rightarrow> string" where
  "capitalize word = (case word of [] \<Rightarrow> [] | c # cs \<Rightarrow> toUpperCase c # cs)"

fun joinWords :: "string list \<Rightarrow> string" where
  "joinWords [] = []"
| "joinWords [w] = w"
| "joinWords (w # ws) = w @ '' '' @ joinWords ws"

definition formatGroupTitle :: "string \<Rightarrow> string" where
  "formatGroupTitle k = joinWords (map capitalize (splitKey k))"

text \<open>
  One step of the \<open>containers.forEach\<close> loop of \<open>groupContainers\<close>: create the entry of
  the key when the map does not have it, then push the container onto the entry's array.
  The \<open>None\<close> branch of the second lookup cannot be reached (the key was just set).
\<close>

definition pushContainer ::
  "(string \<times> ContainerStats list) list \<Rightarrow> ContainerStats \<Rightarrow> (string \<times> ContainerStats list) list"
where
  "pushContainer groupMap container =
     (let k = group container;
          groupMap' = (if map_of groupMap k = None then AList.update k [] groupMap
                       else groupMap)
      in case map_of groupMap' k of
           Some members \<Rightarrow> AList.update k (members @ [container]) groupMap'
         | None \<Rightarrow> groupMap')"

definition mkGroup :: "string \<times> ContainerStats list \<Rightarrow> Group" where
  "mkGroup e =
     \<lparr>key = fst e, title = formatGroupTitle (fst e), containers = snd e,
      dominantState = getDominantState (snd e)\<rparr>"

definition groupContainers :: "ContainerStats list \<Rightarrow> Group list" where
  "groupContainers cs = map mkGroup (foldl pushContainer [] cs)"

section \<open>Selection store (web/src/state/selection.ts)\<close>

datatype Selection =
    SelNone
  | SelPlanet string ContainerStats bool
  | SelGroup string Group

record Hover =
  planetId :: "string option"
  hoverContainer :: "ContainerStats option"

record SelectionState =
  selection :: Selection
  hover :: Hover

definition initialStore :: SelectionState where
  "initialStore = \<lparr>selection = SelNone, hover = \<lparr>planetId = None, hoverContainer = None\<rparr>\<rparr>"

definition setSelection :: "Selection \<Rightarrow> SelectionState \<Rightarrow> SelectionState" where
  "setSelection sel st = st\<lparr>selection := sel\<rparr>"

definition selectPlanet :: "string \<Rightarrow> ContainerStats \<Rightarrow> bool \<Rightarrow> SelectionState \<Rightarrow> SelectionState" where
  "selectPlanet i c persistent st = st\<lparr>selection := SelPlanet i c persistent\<rparr>"

definition selectGroup :: "string \<Rightarrow> Group \<Rightarrow> SelectionState \<Rightarrow> SelectionState" where
  "selectGroup k g st = st\<lparr>selection := SelGroup k g\<rparr>"

definition clearSelection :: "SelectionState \<Rightarrow> SelectionState" where
  "clearSelection st = st\<lparr>selection := SelNone\<rparr>"

definition setHover :: "string option \<Rightarrow> ContainerStats option \<Rightarrow> SelectionState \<Rightarrow> SelectionState" where
  "setHover p c st = st\<lparr>hover := \<lparr>planetId = p, hoverContainer = c\<rparr>\<rparr>"

definition clearHover :: "SelectionState \<Rightarrow> SelectionState" where
  "clearHover st = st\<lparr>hover := \<lparr>planetId = None, hoverContainer = None\<rparr>\<rparr>"

section \<open>Orbit radius policy (SolarSystem.tsx, calculateOrbitRadius)\<close>

text \<open>
  The first argument is \<open>appRef.current?.screen\<close> as (width, height): \<open>None\<close> before the
  application is mounted.
\<close>

definition calculateOrbitRadius :: "(real \<times> real) option \<Rightarrow> nat \<Rightarrow> nat \<Rightarrow> real" where
  "calculateOrbitRadius scr index totalGroups =
     (case scr of
        None \<Rightarrow> 120
      | Some (w, h) \<Rightarrow>
          (let viewportSize = min w h;
               BASE = viewportSize * 0.12;
               STEP0 = viewportSize * 0.075;
               MAX_ORBIT = viewportSize * 0.46;
               STEP = (if totalGroups > 6 then STEP0 * 0.85 else STEP0);
               radius = BASE + real index * STEP
           in min radius MAX_ORBIT))"

section \<open>The scene owned by the orbit engine (SolarSystem.tsx)\<close>

text \<open>
  Display objects (sprites, graphics, texts) are numbered in the order in which the
  component constructs them; \<open>nextObj\<close> is the next free number. A planet holds the
  numbers of its sprite, glow and rim glow and of its particles, and the width and
  height of its sprite. Drawing commands into a graphics object, tint and alpha are not
  part of the model.
\<close>

record Planet =
  container :: ContainerStats
  sprite :: nat
  glow :: nat
  rimGlow :: nat
  particles :: "nat list"
  angle :: real
  orbitSpeed :: real
  spriteWidth :: real
  spriteHeight :: real

record GroupOrbit =
  orbitGroup :: Group
  orbitRadius :: real
  orbitLine :: nat
  orbitGlow :: nat
  labelText :: "nat option"
  planets :: "(string \<times> Planet) list"
  randomStartAngle :: real
  hitArea :: nat

text \<open>
  The state of the mounted component: the refs of \<open>SolarSystem\<close>, the selection store,
  the three display lists, and the timers of the window.
  \<^item> \<open>screen\<close> is \<open>appRef.current?.screen\<close>; \<open>None\<close> stands for the component before its
    mount effect ran, when \<open>appRef\<close>, \<open>hoverOverlayRef\<close>, \<open>gradientTextureRef\<close>,
    \<open>baseLayerRef\<close> and \<open>focusLayerRef\<close> are all null (the mount effect sets them together).
  \<^item> \<open>stage\<close> holds the display objects that are direct children of \<open>app.stage\<close>, apart
    from its three fixed children (the overlay container, the base layer and the focus
    layer); \<open>baseLayer\<close> and \<open>focusLayer\<close> are the children of the two layers.
  \<^item> \<open>pendingTimers\<close> are the timeouts that are scheduled and neither fired nor cleared;
    \<open>nextTimer\<close> is the last timer id handed out (ids are positive).
  \<^item> \<open>randCount\<close> counts the calls of \<open>Math.random\<close>; the n-th call returns \<open>rand n\<close>
    for a function \<open>rand\<close> given to the reconciliation.
  The handlers are closures of a render of the component. What a handler reads from a
  ref or from the store it reads when it runs; the variable \<open>selection\<close> of its closure
  is an argument of its model. The listeners of a sprite call the handlers of the render
  whose effect created the body, so that this argument is the selection of the store at
  that render.
\<close>

record AppState =
  screen :: "(real \<times> real) option"
  groupOrbits :: "(string \<times> GroupOrbit) list"
  focusedPlanetId :: "string option"
  unfocusTimeout :: "nat option"
  pendingTimers :: "nat list"
  nextTimer :: nat
  store :: SelectionState
  stage :: "nat list"
  baseLayer :: "nat list"
  focusLayer :: "nat list"
  overlayVisible :: bool
  nextObj :: nat
  randCount :: nat

text \<open>
  The state after the mount effect on a screen of the given size: the sun glow (object 0)
  and the sun (object 1) are in the base layer.
\<close>

definition mount :: "real \<Rightarrow> real \<Rightarrow> AppState" where
  "mount w h =
     \<lparr>screen = Some (w, h), groupOrbits = [], focusedPlanetId = None, unfocusTimeout = None,
      pendingTimers = [], nextTimer = 0, store = initialStore, stage = [],
      baseLayer = [0, 1], focusLayer = [], overlayVisible = False, nextObj = 2,
      randCount = 0\<rparr>"

subsection \<open>Display lists\<close>

text \<open>
  The two operations of a PixiJS \<open>Container\<close> that the component calls, as the library
  defines them: \<open>removeChild\<close> looks the child up in the container's own \<open>children\<close>
  array and does nothing when it is not there; \<open>addChild\<close> first removes the child from
  its current parent, if it has one, and then appends it to \<open>children\<close>.
\<close>

datatype Layer = OnStage | OnBase | OnFocus

definition children :: "Layer \<Rightarrow> AppState \<Rightarrow> nat list" where
  "children l s = (case l of OnStage \<Rightarrow> stage s | OnBase \<Rightarrow> baseLayer s | OnFocus \<Rightarrow> focusLayer s)"

definition setChildren :: "Layer \<Rightarrow> nat list \<Rightarrow> AppState \<Rightarrow> AppState" where
  "setChildren l xs s =
     (case l of OnStage \<Rightarrow> s\<lparr>stage := xs\<rparr> | OnBase \<Rightarrow> s\<lparr>baseLayer := xs\<rparr>
      | OnFocus \<Rightarrow> s\<lparr>focusLayer := xs\<rparr>)"

definition parent :: "AppState \<Rightarrow> nat \<Rightarrow> Layer option" where
  "parent s x =
     (if x \<in> set (baseLayer s) then Some OnBase
      else if x \<in> set (focusLayer s) then Some OnFocus
      else if x \<in> set (stage s) then Some OnStage
      else None)"

definition removeChild :: "Layer \<Rightarrow> nat \<Rightarrow> AppState \<Rightarrow> AppState" where
  "removeChild l x s = setChildren l (remove1 x (children l s)) s"

definition addChild :: "Layer \<Rightarrow> nat \<Rightarrow> AppState \<Rightarrow> AppState" where
  "addChild l x s =
     (let s' = (case parent s x of Some p \<Rightarrow> removeChild p x s | None \<Rightarrow> s)
      in setChildren l (children l s' @ [x]) s')"

subsection \<open>Access to rings and planets\<close>

definition truthy :: "string option \<Rightarrow> bool" where
  "truthy r = (case r of None \<Rightarrow> False | Some x \<Rightarrow> x \<noteq> [])"

definition modifyOrbit :: "string \<Rightarrow> (GroupOrbit \<Rightarrow> GroupOrbit) \<Rightarrow> AppState \<Rightarrow> AppState" where
  "modifyOrbit k f s = s\<lparr>groupOrbits := AList.map_entry k f (groupOrbits s)\<rparr>"

definition modifyPlanet :: "string \<Rightarrow> string \<Rightarrow> (Planet \<Rightarrow> Planet) \<Rightarrow> AppState \<Rightarrow> AppState" where
  "modifyPlanet k pid f s =
     modifyOrbit k (\<lambda>go. go\<lparr>planets := AList.map_entry pid f (planets go)\<rparr>) s"

definition lookupPlanet :: "AppState \<Rightarrow> string \<Rightarrow> string \<Rightarrow> Planet option" where
  "lookupPlanet s k pid =
     (case map_of (groupOrbits s) k of None \<Rightarrow> None | Some go \<Rightarrow> map_of (planets go) pid)"

text \<open>
  The search loop of the handlers: \<open>groupOrbitsRef.current.forEach\<close> overwrites the
  target at every ring that has the planet, so the last such ring wins. The result is
  the ring's key and the planet.
\<close>

definition findPlanet :: "AppState \<Rightarrow> string \<Rightarrow> (string \<times> Planet) option" where
  "findPlanet s pid =
     foldl (\<lambda>acc e. case map_of (planets (snd e)) pid of
                       Some p \<Rightarrow> Some (fst e, p) | None \<Rightarrow> acc)
       None (groupOrbits s)"

definition scaleSprite :: "(real \<Rightarrow> real) \<Rightarrow> Planet \<Rightarrow> Planet" where
  "scaleSprite f p = p\<lparr>spriteWidth := f (spriteWidth p), spriteHeight := f (spriteHeight p)\<rparr>"

definition moveToFocusLayer :: "Planet \<Rightarrow> AppState \<Rightarrow> AppState" where
  "moveToFocusLayer p s =
     addChild OnFocus (rimGlow p) (addChild OnFocus (sprite p) (addChild OnFocus (glow p)
       (removeChild OnBase (rimGlow p) (removeChild OnBase (glow p)
         (removeChild OnBase (sprite p) s)))))"

definition moveToBaseLayer :: "Planet \<Rightarrow> AppState \<Rightarrow> AppState" where
  "moveToBaseLayer p s =
     addChild OnBase (rimGlow p) (addChild OnBase (sprite p) (addChild OnBase (glow p)
       (removeChild OnFocus (rimGlow p) (removeChild OnFocus (glow p)
         (removeChild OnFocus (sprite p) s)))))"

subsection \<open>Focus handlers\<close>

definition unfocusPlanet :: "AppState \<Rightarrow> AppState" where
  "unfocusPlanet s =
     (case focusedPlanetId s of
        None \<Rightarrow> s
      | Some pid \<Rightarrow>
          if pid = [] \<or> screen s = None then s
          else
            (let s1 = s\<lparr>focusedPlanetId := None,
                        store := clearHover (clearSelection (store s))\<rparr>;
                 s2 = (case findPlanet s1 pid of
                         None \<Rightarrow> s1
                       | Some (k, p) \<Rightarrow>
                           modifyPlanet k pid (scaleSprite (\<lambda>w. w / focusScale))
                             (moveToBaseLayer p s1))
             in s2\<lparr>overlayVisible := False\<rparr>))"

definition timerSet :: "AppState \<Rightarrow> bool" where
  "timerSet s = (case unfocusTimeout s of None \<Rightarrow> False | Some t \<Rightarrow> t \<noteq> 0)"

definition clearTimeout :: "nat option \<Rightarrow> AppState \<Rightarrow> AppState" where
  "clearTimeout r s =
     (case r of None \<Rightarrow> s | Some t \<Rightarrow> s\<lparr>pendingTimers := removeAll t (pendingTimers s)\<rparr>)"

text \<open>The block \<open>if (unfocusTimeoutRef.current) { clearTimeout(...); ... = null; }\<close>.\<close>

definition clearPendingUnfocus :: "AppState \<Rightarrow> AppState" where
  "clearPendingUnfocus s =
     (if timerSet s then (clearTimeout (unfocusTimeout s) s)\<lparr>unfocusTimeout := None\<rparr> else s)"

text \<open>
  \<open>handleHover\<close> is the only handler that reads the variable \<open>selection\<close> of its closure,
  here \<open>sel\<close>: for the listener of a sprite, the selection at the render that created the
  body, whatever the store holds when the pointer enters.
\<close>

definition handleHover :: "Selection \<Rightarrow> string \<Rightarrow> AppState \<Rightarrow> AppState" where
  "handleHover sel pid s =
     (if screen s = None then s
      else
        (let s1 = (case sel of
                     SelPlanet i c persistent \<Rightarrow>
                       if persistent \<and> i \<noteq> pid then unfocusPlanet s else s
                   | _ \<Rightarrow> s)
         in case sel of
              SelGroup k g \<Rightarrow> s1
            | _ \<Rightarrow>
               (let s2 = clearPendingUnfocus s1
                in if focusedPlanetId s2 = Some pid then s2
                   else
                     (case findPlanet s2 pid of
                        None \<Rightarrow> s2
                      | Some (k, p) \<Rightarrow>
                          (let s3 = s2\<lparr>focusedPlanetId := Some pid,
                                      store := setHover (Some pid) (Some (container p)) (store s2)\<rparr>;
                               s4 = modifyPlanet k pid (scaleSprite (\<lambda>w. w * focusScale))
                                      (moveToFocusLayer p s3)
                           in s4\<lparr>overlayVisible := True\<rparr>)))))"

definition handleClick :: "string \<Rightarrow> ContainerStats \<Rightarrow> AppState \<Rightarrow> AppState" where
  "handleClick pid c s =
     (if screen s = None then s
      else
        (let s1 = clearPendingUnfocus s
         in case findPlanet s1 pid of
              None \<Rightarrow> s1
            | Some (k, p) \<Rightarrow>
                (let s2 = (if truthy (focusedPlanetId s1) \<and> focusedPlanetId s1 \<noteq> Some pid
                           then unfocusPlanet s1 else s1);
                     s3 = s2\<lparr>focusedPlanetId := Some pid,
                            store := selectPlanet pid c True (store s2)\<rparr>;
                     s4 = (if parent s3 (sprite p) = Some OnBase
                           then modifyPlanet k pid (scaleSprite (\<lambda>w. w * focusScale))
                                  (moveToFocusLayer p s3)
                           else s3)
                 in s4\<lparr>overlayVisible := True\<rparr>)))"

text \<open>
  \<open>maybeUnfocus\<close> schedules the debounced unfocus; \<open>unfocusTimerCallback\<close> is the function
  it hands to \<open>setTimeout\<close>, which reads the store when it runs; \<open>fireTimer t\<close> is the
  window running the callback of the pending timer \<open>t\<close>.
\<close>

definition maybeUnfocus :: "AppState \<Rightarrow> AppState" where
  "maybeUnfocus s =
     (let s1 = (if timerSet s then clearTimeout (unfocusTimeout s) s else s);
          t = Suc (nextTimer s1)
      in s1\<lparr>unfocusTimeout := Some t, pendingTimers := pendingTimers s1 @ [t],
            nextTimer := t\<rparr>)"

definition unfocusTimerCallback :: "AppState \<Rightarrow> AppState" where
  "unfocusTimerCallback s =
     (case selection (store s) of
        SelPlanet i c persistent \<Rightarrow> if persistent then s else unfocusPlanet s
      | SelGroup k g \<Rightarrow> s
      | SelNone \<Rightarrow> unfocusPlanet s)"

definition fireTimer :: "nat \<Rightarrow> AppState \<Rightarrow> AppState" where
  "fireTimer t s =
     (if t \<in> set (pendingTimers s)
      then unfocusTimerCallback (s\<lparr>pendingTimers := removeAll t (pendingTimers s)\<rparr>)
      else s)"

text \<open>The pointer-down handler of a ring's hit area, for the group it was created with.\<close>

definition ringPointerDown :: "Group \<Rightarrow> AppState \<Rightarrow> AppState" where
  "ringPointerDown g s = s\<lparr>store := selectGroup (key g) g (store s)\<rparr>"

subsection \<open>Per-refresh reconciliation\<close>

text \<open>The four \<open>app.stage.removeChild\<close> lines that the removal paths run for a planet.\<close>

definition stageRemovePlanet :: "Planet \<Rightarrow> AppState \<Rightarrow> AppState" where
  "stageRemovePlanet p s =
     foldl (\<lambda>s' x. removeChild OnStage x s')
       (removeChild OnStage (rimGlow p) (removeChild OnStage (glow p)
          (removeChild OnStage (sprite p) s)))
       (particles p)"

definition removeGroupOrbit :: "string \<Rightarrow> GroupOrbit \<Rightarrow> AppState \<Rightarrow> AppState" where
  "removeGroupOrbit k go s =
     (let s1 = foldl (\<lambda>s' e. stageRemovePlanet (snd e) s') s (planets go);
          s2 = removeChild OnStage (orbitGlow go) (removeChild OnStage (orbitLine go) s1);
          s3 = (case labelText go of Some l \<Rightarrow> removeChild OnStage l s2 | None \<Rightarrow> s2)
      in s3\<lparr>groupOrbits := AList.delete k (groupOrbits s3)\<rparr>)"

text \<open>First loop of the effect: rings whose key is not among the current groups.\<close>

definition removeStaleGroupOrbits :: "Group list \<Rightarrow> AppState \<Rightarrow> AppState" where
  "removeStaleGroupOrbits groups s =
     foldl (\<lambda>s' e. if fst e \<in> set (map key groups) then s' else removeGroupOrbit (fst e) (snd e) s')
       s (groupOrbits s)"

definition createGroupOrbit ::
  "(nat \<Rightarrow> real) \<Rightarrow> nat \<Rightarrow> nat \<Rightarrow> Group \<Rightarrow> AppState \<Rightarrow> AppState"
where
  "createGroupOrbit rand totalGroups groupIndex g s =
     (let radius = calculateOrbitRadius (screen s) groupIndex totalGroups;
          line = nextObj s;
          glw = nextObj s + 1;
          label = nextObj s + 2;
          hit = nextObj s + 3;
          s1 = addChild OnBase hit (addChild OnBase label
                 (addChild OnBase glw (addChild OnBase line s)));
          go = \<lparr>orbitGroup = g, orbitRadius = radius, orbitLine = line, orbitGlow = glw,
                labelText = Some label, planets = [],
                randomStartAngle = rand (randCount s) * pi * 2, hitArea = hit\<rparr>
      in s1\<lparr>groupOrbits := AList.update (key g) go (groupOrbits s1),
            nextObj := nextObj s + 4, randCount := Suc (randCount s)\<rparr>)"

text \<open>
  One step of the loop that removes the planets of ring \<open>k\<close> whose id is not among the
  group's container ids.
\<close>

definition removeStalePlanet :: "string \<Rightarrow> string list \<Rightarrow> AppState \<Rightarrow> string \<times> Planet \<Rightarrow> AppState" where
  "removeStalePlanet k ids s e =
     (if fst e \<in> set ids then s
      else
        (let s1 = (if focusedPlanetId s = Some (fst e) then unfocusPlanet s else s);
             s2 = stageRemovePlanet (snd e) s1
         in modifyOrbit k (\<lambda>go. go\<lparr>planets := AList.delete (fst e) (planets go)\<rparr>) s2))"

definition removeStalePlanets :: "Group \<Rightarrow> AppState \<Rightarrow> AppState" where
  "removeStalePlanets g s =
     (case map_of (groupOrbits s) (key g) of
        None \<Rightarrow> s
      | Some go \<Rightarrow> foldl (removeStalePlanet (key g) (map idC (containers g))) s (planets go))"

definition createPlanet :: "Group \<Rightarrow> nat \<Rightarrow> ContainerStats \<Rightarrow> AppState \<Rightarrow> AppState" where
  "createPlanet g containerIndex c s =
     (case map_of (groupOrbits s) (key g) of
        None \<Rightarrow> s
      | Some go \<Rightarrow>
          (let spacing = (pi * 2) / real (max (length (containers g)) 1);
               a = randomStartAngle go + real containerIndex * spacing;
               spr = nextObj s;
               glw = nextObj s + 1;
               rim = nextObj s + 2;
               planet = \<lparr>container = c, sprite = spr, glow = glw, rimGlow = rim,
                         particles = [], angle = a, orbitSpeed = 0.1,
                         spriteWidth = 64, spriteHeight = 64\<rparr>;
               s1 = addChild OnBase rim (addChild OnBase spr (addChild OnBase glw s))
           in modifyOrbit (key g)
                (\<lambda>go'. go'\<lparr>planets := AList.update (idC c) planet (planets go')\<rparr>)
                (s1\<lparr>nextObj := nextObj s + 3\<rparr>)))"

text \<open>
  \<open>x || 0\<close> on an optional metric: a missing metric is \<open>None\<close> and reads as zero. Metrics
  are real numbers; \<open>Math.sqrt\<close> is the real square root, which it is on the non-negative
  percentages of the feed.
\<close>

definition orZero :: "real option \<Rightarrow> real" where
  "orZero x = (case x of None \<Rightarrow> 0 | Some v \<Rightarrow> v)"

text \<open>The local \<open>size\<close> of the update block (a radius; the sprite is twice as wide).\<close>

definition planetSize :: "ContainerStats \<Rightarrow> real" where
  "planetSize c =
     (let mem = orZero (memoryPercent c);
          baseSize = minRadius;
          maxSize = (if mem > 70 then largeMaxRadius else maxRadius)
      in baseSize + sqrt (mem / 100) * (maxSize - baseSize))"

definition planetSpeed :: "ContainerStats \<Rightarrow> real" where
  "planetSpeed c = 0.05 + (orZero (cpuPercent c) / 100) * 0.45"

definition shouldShowParticles :: "ContainerStats \<Rightarrow> bool" where
  "shouldShowParticles c = (orZero (cpuPercent c) > 50 \<or> state c = ''restarting'')"

definition setPlanetProps :: "bool \<Rightarrow> ContainerStats \<Rightarrow> Planet \<Rightarrow> Planet" where
  "setPlanetProps isFocused c p =
     (let targetSize = planetSize c * 2;
          w = (if isFocused then targetSize * focusScale else targetSize)
      in p\<lparr>container := c, spriteWidth := w, spriteHeight := w, orbitSpeed := planetSpeed c\<rparr>)"

definition updateParticles :: "string \<Rightarrow> ContainerStats \<Rightarrow> AppState \<Rightarrow> AppState" where
  "updateParticles k c s =
     (case lookupPlanet s k (idC c) of
        None \<Rightarrow> s
      | Some p \<Rightarrow>
          if shouldShowParticles c \<and> particles p = [] then
            (let ps = [nextObj s ..< nextObj s + 6];
                 s1 = foldl (\<lambda>s' x. addChild OnBase x s') s ps
             in modifyPlanet k (idC c) (\<lambda>q. q\<lparr>particles := ps\<rparr>) (s1\<lparr>nextObj := nextObj s + 6\<rparr>))
          else if \<not> shouldShowParticles c \<and> particles p \<noteq> [] then
            modifyPlanet k (idC c) (\<lambda>q. q\<lparr>particles := []\<rparr>)
              (foldl (\<lambda>s' x. removeChild OnStage x s') s (particles p))
          else s)"

text \<open>The body of \<open>group.containers.forEach\<close>: get or create the planet, then update it.\<close>

definition reconcileContainer :: "Group \<Rightarrow> nat \<Rightarrow> ContainerStats \<Rightarrow> AppState \<Rightarrow> AppState" where
  "reconcileContainer g containerIndex c s =
     (let s1 = (case lookupPlanet s (key g) (idC c) of
                  None \<Rightarrow> createPlanet g containerIndex c s
                | Some p \<Rightarrow> s);
          s2 = modifyPlanet (key g) (idC c)
                 (setPlanetProps (focusedPlanetId s1 = Some (idC c)) c) s1
      in updateParticles (key g) c s2)"

fun reconcileContainers :: "Group \<Rightarrow> nat \<Rightarrow> ContainerStats list \<Rightarrow> AppState \<Rightarrow> AppState" where
  "reconcileContainers g i [] s = s"
| "reconcileContainers g i (c # cs) s =
     reconcileContainers g (Suc i) cs (reconcileContainer g i c s)"

text \<open>The body of \<open>groups.forEach\<close>: get or create the ring, then diff its planets.\<close>

definition reconcileGroup ::
  "(nat \<Rightarrow> real) \<Rightarrow> nat \<Rightarrow> nat \<Rightarrow> Group \<Rightarrow> AppState \<Rightarrow> AppState"
where
  "reconcileGroup rand totalGroups groupIndex g s =
     (let s1 = (case map_of (groupOrbits s) (key g) of
                  None \<Rightarrow> createGroupOrbit rand totalGroups groupIndex g s
                | Some go \<Rightarrow> s);
          s2 = modifyOrbit (key g) (\<lambda>go. go\<lparr>orbitGroup := g\<rparr>) s1;
          s3 = removeStalePlanets g s2
      in reconcileContainers g 0 (containers g) s3)"

fun reconcileGroups ::
  "(nat \<Rightarrow> real) \<Rightarrow> nat \<Rightarrow> nat \<Rightarrow> Group list \<Rightarrow> AppState \<Rightarrow> AppState"
where
  "reconcileGroups rand totalGroups i [] s = s"
| "reconcileGroups rand totalGroups i (g # gs) s =
     reconcileGroups rand totalGroups (Suc i) gs (reconcileGroup rand totalGroups i g s)"

text \<open>The effect that runs when new containers arrive.\<close>

definition reconcile :: "(nat \<Rightarrow> real) \<Rightarrow> ContainerStats list \<Rightarrow> AppState \<Rightarrow> AppState" where
  "reconcile rand cs s =
     (if screen s = None then s
      else
        (let groups = groupContainers cs
         in reconcileGroups rand (length groups) 0 groups (removeStaleGroupOrbits groups s)))"

text \<open>
  The resize handler: the renderer takes the new size, and every ring's radius is
  computed again from its position in the map and the number of rings.
\<close>

definition handleResize :: "real \<Rightarrow> real \<Rightarrow> AppState \<Rightarrow> AppState" where
  "handleResize w h s =
     (let n = length (groupOrbits s)
      in s\<lparr>screen := Some (w, h),
           groupOrbits :=
             map (\<lambda>ie. (fst (snd ie),
                         (snd (snd ie))\<lparr>orbitRadius := calculateOrbitRadius (Some (w, h)) (fst ie) n\<rparr>))
               (enumerate 0 (groupOrbits s))\<rparr>)"

section \<open>Notions used in the statements\<close>

text \<open>
  The two notions of the grouping contract, written from its words: the distinct keys of
  a list in the order in which they are first encountered, and the members of a key.
\<close>

fun firstEncountered :: "'a list \<Rightarrow> 'a list" where
  "firstEncountered [] = []"
| "firstEncountered (x # xs) = x # filter (\<lambda>y. y \<noteq> x) (firstEncountered xs)"

definition members :: "ContainerStats list \<Rightarrow> string \<Rightarrow> ContainerStats list" where
  "members cs k = filter (\<lambda>c. group c = k) cs"

text \<open>
  The selections at which the debounced callback returns without unfocusing: a persistent
  planet selection and a group selection.
\<close>

definition keepsFocus :: "Selection \<Rightarrow> bool" where
  "keepsFocus sel = (case sel of SelPlanet i c persistent \<Rightarrow> persistent | SelGroup k g \<Rightarrow> True | SelNone \<Rightarrow> False)"

text \<open>
  For the proofs about reconciliation: the planet ids of a ring and the lookup of a planet
  on the association list of the rings, the set of ring keys of a state, and the body of
  the loop that removes rings without a group.
\<close>

definition pkeys :: "(string \<times> GroupOrbit) list \<Rightarrow> string \<Rightarrow> string set" where
  "pkeys al k = (case map_of al k of None \<Rightarrow> {} | Some go \<Rightarrow> fst ` set (planets go))"

definition plook :: "(string \<times> GroupOrbit) list \<Rightarrow> string \<Rightarrow> string \<Rightarrow> Planet option" where
  "plook al k i = (case map_of al k of None \<Rightarrow> None | Some go \<Rightarrow> map_of (planets go) i)"

abbreviation ringKeys :: "AppState \<Rightarrow> string set" where
  "ringKeys s \<equiv> fst ` set (groupOrbits s)"

abbreviation planetKeys :: "AppState \<Rightarrow> string \<Rightarrow> string set" where
  "planetKeys s k \<equiv> pkeys (groupOrbits s) k"

definition staleStep :: "Group list \<Rightarrow> AppState \<Rightarrow> string \<times> GroupOrbit \<Rightarrow> AppState" where
  "staleStep groups s' e =
     (if fst e \<in> set (map key groups) then s' else removeGroupOrbit (fst e) (snd e) s')"

text \<open>
  The part of the scene that is fixed when a ring or a body is created: for each ring, in
  map order, its key, start angle, radius and display objects, and for each of its planets,
  in map order, the id, the display objects and the angular position.
\<close>

definition planetCore :: "Planet \<Rightarrow> nat \<times> nat \<times> nat \<times> real" where
  "planetCore p = (sprite p, glow p, rimGlow p, angle p)"

definition ringCore ::
  "GroupOrbit \<Rightarrow> real \<times> real \<times> nat \<times> nat \<times> nat option \<times> nat \<times> (string \<times> nat \<times> nat \<times> nat \<times> real) list"
where
  "ringCore go =
     (randomStartAngle go, orbitRadius go, orbitLine go, orbitGlow go, labelText go, hitArea go,
      map (\<lambda>e. (fst e, planetCore (snd e))) (planets go))"

definition sceneCore ::
  "AppState \<Rightarrow> (string \<times> real \<times> real \<times> nat \<times> nat \<times> nat option \<times> nat
                  \<times> (string \<times> nat \<times> nat \<times> nat \<times> real) list) list"
where
  "sceneCore s = map (\<lambda>e. (fst e, ringCore (snd e))) (groupOrbits s)"

text \<open>
  A body is up to date with its entity when it carries the entity's id, its angular
  velocity and its particle ring follow the entity's load, and its sprite is a square of
  twice the entity's size, at the focus scale when it is the focused body \<open>f\<close>. A body
  that was focused before the refresh (\<open>f0\<close>) and is not focused any more may have either
  width. \<open>freshOn\<close> says so for the bodies of one ring whose ids are in \<open>I\<close>, \<open>focusOk\<close>
  that the focus is the one before the refresh or none, and \<open>adjustParticles\<close> is what
  \<open>updateParticles\<close> does to the planet record.
\<close>

definition fresh :: "string option \<Rightarrow> string option \<Rightarrow> string \<Rightarrow> Planet \<Rightarrow> bool" where
  "fresh f0 f i p \<longleftrightarrow>
     idC (container p) = i
     \<and> orbitSpeed p = planetSpeed (container p)
     \<and> spriteHeight p = spriteWidth p
     \<and> (particles p = [] \<longleftrightarrow> \<not> shouldShowParticles (container p))
     \<and> (if f = Some i then spriteWidth p = planetSize (container p) * 2 * focusScale
         else if f0 = Some i
              then spriteWidth p = planetSize (container p) * 2
                   \<or> spriteWidth p = planetSize (container p) * 2 * focusScale
              else spriteWidth p = planetSize (container p) * 2)"

definition freshOn :: "string option \<Rightarrow> AppState \<Rightarrow> Group \<Rightarrow> string set \<Rightarrow> bool" where
  "freshOn f0 s g I \<longleftrightarrow>
     (\<forall>i\<in>I. \<forall>p. lookupPlanet s (key g) i = Some p \<longrightarrow>
        fresh f0 (focusedPlanetId s) i p \<and> container p \<in> set (containers g))"

definition focusOk :: "string option \<Rightarrow> AppState \<Rightarrow> bool" where
  "focusOk f0 s \<longleftrightarrow> focusedPlanetId s = f0 \<or> focusedPlanetId s = None"

definition adjustParticles :: "ContainerStats \<Rightarrow> nat \<Rightarrow> Planet \<Rightarrow> Planet" where
  "adjustParticles c n p =
     (if shouldShowParticles c \<and> particles p = [] then p\<lparr>particles := [n ..< n + 6]\<rparr>
      else if \<not> shouldShowParticles c \<and> particles p \<noteq> [] then p\<lparr>particles := []\<rparr>
      else p)"

text \<open>
  A ring is settled on its group when it holds that group, its bodies are those of the
  group's members, and each body carries its member's record, speed, size (at the focus
  scale for the focused body) and particle ring. \<open>ringGroup\<close> is the group held by the ring
  of a key.
\<close>

definition ringGroup :: "AppState \<Rightarrow> string \<Rightarrow> Group option" where
  "ringGroup s k = map_option orbitGroup (map_of (groupOrbits s) k)"

definition settledPlanet :: "string option \<Rightarrow> ContainerStats \<Rightarrow> Planet \<Rightarrow> bool" where
  "settledPlanet f c p \<longleftrightarrow>
     container p = c \<and> orbitSpeed p = planetSpeed c
     \<and> spriteWidth p = (if f = Some (idC c) then planetSize c * 2 * focusScale
                         else planetSize c * 2)
     \<and> spriteHeight p = spriteWidth p
     \<and> (particles p = [] \<longleftrightarrow> \<not> shouldShowParticles c)"

definition settled :: "AppState \<Rightarrow> Group \<Rightarrow> bool" where
  "settled s g \<longleftrightarrow>
     ringGroup s (key g) = Some g
     \<and> planetKeys s (key g) \<subseteq> idC ` set (containers g)
     \<and> (\<forall>c\<in>set (containers g).
           \<exists>p. lookupPlanet s (key g) (idC c) = Some p \<and> settledPlanet (focusedPlanetId s) c p)"

section \<open>Example feeds and scenes\<close>

text \<open>Four entities in two groups, for the grouping function.\<close>

definition exWebExited :: ContainerStats where
  "exWebExited = \<lparr>idC = ''w1'', state = ''exited'', cpuPercent = Some 0,
                  memoryPercent = Some 10, group = ''web''\<rparr>"

definition exDbPaused :: ContainerStats where
  "exDbPaused = \<lparr>idC = ''d1'', state = ''paused'', cpuPercent = Some 0,
                 memoryPercent = Some 10, group = ''db''\<rparr>"

definition exWebRunning :: ContainerStats where
  "exWebRunning = \<lparr>idC = ''w2'', state = ''running'', cpuPercent = Some 80,
                   memoryPercent = Some 50, group = ''web''\<rparr>"

definition exDbExited :: ContainerStats where
  "exDbExited = \<lparr>idC = ''d2'', state = ''exited'', cpuPercent = None,
                 memoryPercent = None, group = ''db''\<rparr>"


text \<open>
  A feed of two entities in two groups, on a 1000 by 800 screen; every call of
  \<open>Math.random\<close> returns one half. Entity \<open>a\<close> has a load of 80, entity \<open>b\<close> has no
  memory metric. \<open>cA'\<close> is entity \<open>a\<close> after its load fell to 10; \<open>cC\<close> and \<open>cD\<close> are two
  more entities in groups of their own.
\<close>

definition exRand :: "nat \<Rightarrow> real" where
  "exRand n = 1 / 2"

definition cA :: ContainerStats where
  "cA = \<lparr>idC = ''a'', state = ''running'', cpuPercent = Some 80,
          memoryPercent = Some 100, group = ''web''\<rparr>"

definition cB :: ContainerStats where
  "cB = \<lparr>idC = ''b'', state = ''exited'', cpuPercent = Some 0,
          memoryPercent = None, group = ''db''\<rparr>"

definition cA' :: ContainerStats where
  "cA' = \<lparr>idC = ''a'', state = ''running'', cpuPercent = Some 10,
           memoryPercent = Some 100, group = ''web''\<rparr>"

definition cC :: ContainerStats where
  "cC = \<lparr>idC = ''c'', state = ''paused'', cpuPercent = None,
          memoryPercent = Some 0, group = ''cache''\<rparr>"

definition cD :: ContainerStats where
  "cD = \<lparr>idC = ''d'', state = ''restarting'', cpuPercent = Some 0,
          memoryPercent = Some 0, group = ''queue''\<rparr>"

definition gWeb :: Group where
  "gWeb = \<lparr>key = ''web'', title = ''Web'', containers = [cA], dominantState = ''running''\<rparr>"

definition gWeb' :: Group where
  "gWeb' = \<lparr>key = ''web'', title = ''Web'', containers = [cA'], dominantState = ''running''\<rparr>"

definition gDb :: Group where
  "gDb = \<lparr>key = ''db'', title = ''Db'', containers = [cB], dominantState = ''exited''\<rparr>"

definition gCache :: Group where
  "gCache = \<lparr>key = ''cache'', title = ''Cache'', containers = [cC],
              dominantState = ''paused''\<rparr>"

definition gQueue :: Group where
  "gQueue = \<lparr>key = ''queue'', title = ''Queue'', containers = [cD],
              dominantState = ''restarting''\<rparr>"

text \<open>
  The scenes that the engine reaches from the mounted state: \<open>sceneAB\<close> after the feed
  \<open>[cA, cB]\<close>; \<open>hoverA\<close> and \<open>hoverAB\<close> after the pointer entered body \<open>a\<close> and then body
  \<open>b\<close>; \<open>pinnedA\<close> after a pointer-down on body \<open>a\<close> in \<open>sceneAB\<close>; \<open>afterRemoval\<close>
  after the feed \<open>[cB]\<close> arrived in \<open>pinnedA\<close>; \<open>sceneCool\<close> after the feed
  \<open>[cA', cB]\<close> arrived in \<open>sceneAB\<close>; \<open>sceneABC\<close> after the feed \<open>[cA, cB, cC]\<close> and
  \<open>sceneCD\<close> after the feed \<open>[cC, cD]\<close> arrived in \<open>sceneABC\<close>.
\<close>

definition sceneAB :: AppState where
  "sceneAB =
   \<lparr>screen = Some (1000, 800),
      groupOrbits =
        [(''web'',
          \<lparr>orbitGroup = gWeb, orbitRadius = 96, orbitLine = 2, orbitGlow = 3,
             labelText = Some 4,
             planets =
               [(''a'',
                 \<lparr>container = cA, sprite = 6, glow = 7, rimGlow = 8,
                    particles = [9, 10, 11, 12, 13, 14], angle = pi,
                    orbitSpeed = 41 / 100, spriteWidth = 24,
                    spriteHeight = 24\<rparr>)],
             randomStartAngle = pi, hitArea = 5\<rparr>),
         (''db'',
          \<lparr>orbitGroup = gDb, orbitRadius = 156, orbitLine = 15, orbitGlow = 16,
             labelText = Some 17,
             planets =
               [(''b'',
                 \<lparr>container = cB, sprite = 19, glow = 20, rimGlow = 21,
                    particles = [], angle = pi, orbitSpeed = 1 / 20,
                    spriteWidth = 24, spriteHeight = 24\<rparr>)],
             randomStartAngle = pi, hitArea = 18\<rparr>)],
      focusedPlanetId = None, unfocusTimeout = None, pendingTimers = [],
      nextTimer = 0, store = initialStore, stage = [],
      baseLayer =
        [0, 1, 2, 3, 4, 5, 7, 6, 8, 9, 10, 11, 12, 13, 14, 15, 16, 17, 18,
         20, 19, 21],
      focusLayer = [], overlayVisible = False, nextObj = 22,
      randCount = 2\<rparr>"

definition hoverA :: AppState where
  "hoverA =
   \<lparr>screen = Some (1000, 800),
      groupOrbits =
        [(''web'',
          \<lparr>orbitGroup = gWeb, orbitRadius = 96, orbitLine = 2, orbitGlow = 3,
             labelText = Some 4,
             planets =
               [(''a'',
                 \<lparr>container = cA, sprite = 6, glow = 7, rimGlow = 8,
                    particles = [9, 10, 11, 12, 13, 14], angle = pi,
                    orbitSpeed = 41 / 100, spriteWidth = 36,
                    spriteHeight = 36\<rparr>)],
             randomStartAngle = pi, hitArea = 5\<rparr>),
         (''db'',
          \<lparr>orbitGroup = gDb, orbitRadius = 156, orbitLine = 15, orbitGlow = 16,
             labelText = Some 17,
             planets =
               [(''b'',
                 \<lparr>container = cB, sprite = 19, glow = 20, rimGlow = 21,
                    particles = [], angle = pi, orbitSpeed = 1 / 20,
                    spriteWidth = 24, spriteHeight = 24\<rparr>)],
             randomStartAngle = pi, hitArea = 18\<rparr>)],
      focusedPlanetId = Some ''a'', unfocusTimeout = None, pendingTimers = [],
      nextTimer = 0,
      store =
        \<lparr>selection = SelNone,
           hover = \<lparr>planetId = Some ''a'', hoverContainer = Some cA\<rparr>\<rparr>,
      stage = [],
      baseLayer =
        [0, 1, 2, 3, 4, 5, 9, 10, 11, 12, 13, 14, 15, 16, 17, 18, 20, 19,
         21],
      focusLayer = [7, 6, 8], overlayVisible = True, nextObj = 22,
      randCount = 2\<rparr>"

definition hoverAB :: AppState where
  "hoverAB =
   \<lparr>screen = Some (1000, 800),
      groupOrbits =
        [(''web'',
          \<lparr>orbitGroup = gWeb, orbitRadius = 96, orbitLine = 2, orbitGlow = 3,
             labelText = Some 4,
             planets =
               [(''a'',
                 \<lparr>container = cA, sprite = 6, glow = 7, rimGlow = 8,
                    particles = [9, 10, 11, 12, 13, 14], angle = pi,
                    orbitSpeed = 41 / 100, spriteWidth = 36,
                    spriteHeight = 36\<rparr>)],
             randomStartAngle = pi, hitArea = 5\<rparr>),
         (''db'',
          \<lparr>orbitGroup = gDb, orbitRadius = 156, orbitLine = 15, orbitGlow = 16,
             labelText = Some 17,
             planets =
               [(''b'',
                 \<lparr>container = cB, sprite = 19, glow = 20, rimGlow = 21,
                    particles = [], angle = pi, orbitSpeed = 1 / 20,
                    spriteWidth = 36, spriteHeight = 36\<rparr>)],
             randomStartAngle = pi, hitArea = 18\<rparr>)],
      focusedPlanetId = Some ''b'', unfocusTimeout = None, pendingTimers = [],
      nextTimer = 0,
      store =
        \<lparr>selection = SelNone,
           hover = \<lparr>planetId = Some ''b'', hoverContainer = Some cB\<rparr>\<rparr>,
      stage = [],
      baseLayer =
        [0, 1, 2, 3, 4, 5, 9, 10, 11, 12, 13, 14, 15, 16, 17, 18],
      focusLayer = [7, 6, 8, 20, 19, 21], overlayVisible = True, nextObj = 22,
      randCount = 2\<rparr>"

definition pinnedA :: AppState where
  "pinnedA =
   \<lparr>screen = Some (1000, 800),
      groupOrbits =
        [(''web'',
          \<lparr>orbitGroup = gWeb, orbitRadius = 96, orbitLine = 2, orbitGlow = 3,
             labelText = Some 4,
             planets =
               [(''a'',
                 \<lparr>container = cA, sprite = 6, glow = 7, rimGlow = 8,
                    particles = [9, 10, 11, 12, 13, 14], angle = pi,
                    orbitSpeed = 41 / 100, spriteWidth = 36,
                    spriteHeight = 36\<rparr>)],
             randomStartAngle = pi, hitArea = 5\<rparr>),
         (''db'',
          \<lparr>orbitGroup = gDb, orbitRadius = 156, orbitLine = 15, orbitGlow = 16,
             labelText = Some 17,
             planets =
               [(''b'',
                 \<lparr>container = cB, sprite = 19, glow = 20, rimGlow = 21,
                    particles = [], angle = pi, orbitSpeed = 1 / 20,
                    spriteWidth = 24, spriteHeight = 24\<rparr>)],
             randomStartAngle = pi, hitArea = 18\<rparr>)],
      focusedPlanetId = Some ''a'', unfocusTimeout = None, pendingTimers = [],
      nextTimer = 0,
      store =
        \<lparr>selection = SelPlanet ''a'' cA True,
           hover = \<lparr>planetId = None, hoverContainer = None\<rparr>\<rparr>,
      stage = [],
      baseLayer =
        [0, 1, 2, 3, 4, 5, 9, 10, 11, 12, 13, 14, 15, 16, 17, 18, 20, 19,
         21],
      focusLayer = [7, 6, 8], overlayVisible = True, nextObj = 22,
      randCount = 2\<rparr>"

definition afterRemoval :: AppState where
  "afterRemoval =
   \<lparr>screen = Some (1000, 800),
      groupOrbits =
        [(''db'',
          \<lparr>orbitGroup = gDb, orbitRadius = 156, orbitLine = 15, orbitGlow = 16,
             labelText = Some 17,
             planets =
               [(''b'',
                 \<lparr>container = cB, sprite = 19, glow = 20, rimGlow = 21,
                    particles = [], angle = pi, orbitSpeed = 1 / 20,
                    spriteWidth = 24, spriteHeight = 24\<rparr>)],
             randomStartAngle = pi, hitArea = 18\<rparr>)],
      focusedPlanetId = Some ''a'', unfocusTimeout = None, pendingTimers = [],
      nextTimer = 0,
      store =
        \<lparr>selection = SelPlanet ''a'' cA True,
           hover = \<lparr>planetId = None, hoverContainer = None\<rparr>\<rparr>,
      stage = [],
      baseLayer =
        [0, 1, 2, 3, 4, 5, 9, 10, 11, 12, 13, 14, 15, 16, 17, 18, 20, 19,
         21],
      focusLayer = [7, 6, 8], overlayVisible = True, nextObj = 22,
      randCount = 2\<rparr>"

definition sceneCool :: AppState where
  "sceneCool =
   \<lparr>screen = Some (1000, 800),
      groupOrbits =
        [(''web'',
          \<lparr>orbitGroup = gWeb', orbitRadius = 96, orbitLine = 2, orbitGlow = 3,
             labelText = Some 4,
             planets =
               [(''a'',
                 \<lparr>container = cA', sprite = 6, glow = 7, rimGlow = 8,
                    particles = [], angle = pi, orbitSpeed = 19 / 200,
                    spriteWidth = 24, spriteHeight = 24\<rparr>)],
             randomStartAngle = pi, hitArea = 5\<rparr>),
         (''db'',
          \<lparr>orbitGroup = gDb, orbitRadius = 156, orbitLine = 15, orbitGlow = 16,
             labelText = Some 17,
             planets =
               [(''b'',
                 \<lparr>container = cB, sprite = 19, glow = 20, rimGlow = 21,
                    particles = [], angle = pi, orbitSpeed = 1 / 20,
                    spriteWidth = 24, spriteHeight = 24\<rparr>)],
             randomStartAngle = pi, hitArea = 18\<rparr>)],
      focusedPlanetId = None, unfocusTimeout = None, pendingTimers = [],
      nextTimer = 0, store = initialStore, stage = [],
      baseLayer =
        [0, 1, 2, 3, 4, 5, 7, 6, 8, 9, 10, 11, 12, 13, 14, 15, 16, 17, 18,
         20, 19, 21],
      focusLayer = [], overlayVisible = False, nextObj = 22,
      randCount = 2\<rparr>"

definition sceneABC :: AppState where
  "sceneABC =
   \<lparr>screen = Some (1000, 800),
      groupOrbits =
        [(''web'',
          \<lparr>orbitGroup = gWeb, orbitRadius = 96, orbitLine = 2, orbitGlow = 3,
             labelText = Some 4,
             planets =
               [(''a'',
                 \<lparr>container = cA, sprite = 6, glow = 7, rimGlow = 8,
                    particles = [9, 10, 11, 12, 13, 14], angle = pi,
                    orbitSpeed = 41 / 100, spriteWidth = 24,
                    spriteHeight = 24\<rparr>)],
             randomStartAngle = pi, hitArea = 5\<rparr>),
         (''db'',
          \<lparr>orbitGroup = gDb, orbitRadius = 156, orbitLine = 15, orbitGlow = 16,
             labelText = Some 17,
             planets =
               [(''b'',
                 \<lparr>container = cB, sprite = 19, glow = 20, rimGlow = 21,
                    particles = [], angle = pi, orbitSpeed = 1 / 20,
                    spriteWidth = 24, spriteHeight = 24\<rparr>)],
             randomStartAngle = pi, hitArea = 18\<rparr>),
         (''cache'',
          \<lparr>orbitGroup = gCache, orbitRadius = 216, orbitLine = 22,
             orbitGlow = 23, labelText = Some 24,
             planets =
               [(''c'',
                 \<lparr>container = cC, sprite = 26, glow = 27, rimGlow = 28,
                    particles = [], angle = pi, orbitSpeed = 1 / 20,
                    spriteWidth = 24, spriteHeight = 24\<rparr>)],
             randomStartAngle = pi, hitArea = 25\<rparr>)],
      focusedPlanetId = None, unfocusTimeout = None, pendingTimers = [],
      nextTimer = 0, store = initialStore, stage = [],
      baseLayer =
        [0, 1, 2, 3, 4, 5, 7, 6, 8, 9, 10, 11, 12, 13, 14, 15, 16, 17, 18,
         20, 19, 21, 22, 23, 24, 25, 27, 26, 28],
      focusLayer = [], overlayVisible = False, nextObj = 29,
      randCount = 3\<rparr>"

definition sceneCD :: AppState where
  "sceneCD =
   \<lparr>screen = Some (1000, 800),
      groupOrbits =
        [(''cache'',
          \<lparr>orbitGroup = gCache, orbitRadius = 216, orbitLine = 22,
             orbitGlow = 23, labelText = Some 24,
             planets =
               [(''c'',
                 \<lparr>container = cC, sprite = 26, glow = 27, rimGlow = 28,
                    particles = [], angle = pi, orbitSpeed = 1 / 20,
                    spriteWidth = 24, spriteHeight = 24\<rparr>)],
             randomStartAngle = pi, hitArea = 25\<rparr>),
         (''queue'',
          \<lparr>orbitGroup = gQueue, orbitRadius = 156, orbitLine = 29,
             orbitGlow = 30, labelText = Some 31,
             planets =
               [(''d'',
                 \<lparr>container = cD, sprite = 33, glow = 34, rimGlow = 35,
                    particles = [36, 37, 38, 39, 40, 41], angle = pi,
                    orbitSpeed = 1 / 20, spriteWidth = 24,
                    spriteHeight = 24\<rparr>)],
             randomStartAngle = pi, hitArea = 32\<rparr>)],
      focusedPlanetId = None, unfocusTimeout = None, pendingTimers = [],
      nextTimer = 0, store = initialStore, stage = [],
      baseLayer =
        [0, 1, 2, 3, 4, 5, 7, 6, 8, 9, 10, 11, 12, 13, 14, 15, 16, 17, 18,
         20, 19, 21, 22, 23, 24, 25, 27, 26, 28, 29, 30, 31, 32, 34, 33, 35,
         36, 37, 38, 39, 40, 41],
      focusLayer = [], overlayVisible = False, nextObj = 42,
      randCount = 4\<rparr>"

text \<open>
  A group of two: entity \<open>e\<close> shares the group \<open>web\<close> with \<open>a\<close>. \<open>sceneAE\<close> is the scene
  after the feed \<open>[cA, cE]\<close>, \<open>pinnedAE\<close> after a pointer-down on body \<open>a\<close> there, and
  \<open>afterLeave\<close> after the feed \<open>[cE]\<close> arrived in \<open>pinnedAE\<close>.
\<close>

definition cE :: ContainerStats where
  "cE = \<lparr>idC = ''e'', state = ''exited'', cpuPercent = Some 0,
          memoryPercent = Some 0, group = ''web''\<rparr>"

definition gWebAE :: Group where
  "gWebAE = \<lparr>key = ''web'', title = ''Web'', containers = [cA, cE],
              dominantState = ''running''\<rparr>"

definition gWebE :: Group where
  "gWebE = \<lparr>key = ''web'', title = ''Web'', containers = [cE], dominantState = ''exited''\<rparr>"

definition sceneAE :: AppState where
  "sceneAE =
   \<lparr>screen = Some (1000, 800),
      groupOrbits =
        [(''web'',
          \<lparr>orbitGroup = gWebAE, orbitRadius = 96, orbitLine = 2, orbitGlow = 3,
             labelText = Some 4,
             planets =
               [(''a'',
                 \<lparr>container = cA, sprite = 6, glow = 7, rimGlow = 8,
                    particles = [9, 10, 11, 12, 13, 14], angle = pi,
                    orbitSpeed = 41 / 100, spriteWidth = 24,
                    spriteHeight = 24\<rparr>),
                (''e'',
                 \<lparr>container = cE, sprite = 15, glow = 16, rimGlow = 17,
                    particles = [], angle = 2 * pi, orbitSpeed = 1 / 20,
                    spriteWidth = 24, spriteHeight = 24\<rparr>)],
             randomStartAngle = pi, hitArea = 5\<rparr>)],
      focusedPlanetId = None, unfocusTimeout = None, pendingTimers = [],
      nextTimer = 0, store = initialStore, stage = [],
      baseLayer =
        [0, 1, 2, 3, 4, 5, 7, 6, 8, 9, 10, 11, 12, 13, 14, 16, 15, 17],
      focusLayer = [], overlayVisible = False, nextObj = 18, randCount = 1\<rparr>"

definition pinnedAE :: AppState where
  "pinnedAE =
   \<lparr>screen = Some (1000, 800),
      groupOrbits =
        [(''web'',
          \<lparr>orbitGroup = gWebAE, orbitRadius = 96, orbitLine = 2, orbitGlow = 3,
             labelText = Some 4,
             planets =
               [(''a'',
                 \<lparr>container = cA, sprite = 6, glow = 7, rimGlow = 8,
                    particles = [9, 10, 11, 12, 13, 14], angle = pi,
                    orbitSpeed = 41 / 100, spriteWidth = 36,
                    spriteHeight = 36\<rparr>),
                (''e'',
                 \<lparr>container = cE, sprite = 15, glow = 16, rimGlow = 17,
                    particles = [], angle = 2 * pi, orbitSpeed = 1 / 20,
                    spriteWidth = 24, spriteHeight = 24\<rparr>)],
             randomStartAngle = pi, hitArea = 5\<rparr>)],
      focusedPlanetId = Some ''a'', unfocusTimeout = None, pendingTimers = [],
      nextTimer = 0,
      store =
        \<lparr>selection = SelPlanet ''a'' cA True,
           hover = \<lparr>planetId = None, hoverContainer = None\<rparr>\<rparr>,
      stage = [],
      baseLayer = [0, 1, 2, 3, 4, 5, 9, 10, 11, 12, 13, 14, 16, 15, 17],
      focusLayer = [7, 6, 8], overlayVisible = True, nextObj = 18,
      randCount = 1\<rparr>"

definition afterLeave :: AppState where
  "afterLeave =
   \<lparr>screen = Some (1000, 800),
      groupOrbits =
        [(''web'',
          \<lparr>orbitGroup = gWebE, orbitRadius = 96, orbitLine = 2, orbitGlow = 3,
             labelText = Some 4,
             planets =
               [(''e'',
                 \<lparr>container = cE, sprite = 15, glow = 16, rimGlow = 17,
                    particles = [], angle = 2 * pi, orbitSpeed = 1 / 20,
                    spriteWidth = 24, spriteHeight = 24\<rparr>)],
             randomStartAngle = pi, hitArea = 5\<rparr>)],
      focusedPlanetId = None, unfocusTimeout = None, pendingTimers = [],
      nextTimer = 0,
      store =
        \<lparr>selection = SelNone,
           hover = \<lparr>planetId = None, hoverContainer = None\<rparr>\<rparr>,
      stage = [],
      baseLayer =
        [0, 1, 2, 3, 4, 5, 9, 10, 11, 12, 13, 14, 16, 15, 17, 7, 6, 8],
      focusLayer = [], overlayVisible = False, nextObj = 18, randCount = 1\<rparr>"

text \<open>
  An entity that changes its group: \<open>cAdb\<close> is entity \<open>a\<close> in the group \<open>db\<close>.
  \<open>sceneBAE\<close> is the scene after the feed \<open>[cB, cA, cE]\<close>, \<open>pinnedBAE\<close> after a
  pointer-down on body \<open>a\<close> there, and \<open>movedOnce\<close> and \<open>movedTwice\<close> after the feed
  \<open>[cB, cAdb, cE]\<close> arrived once and twice.
\<close>

definition cAdb :: ContainerStats where
  "cAdb = \<lparr>idC = ''a'', state = ''running'', cpuPercent = Some 80,
            memoryPercent = Some 100, group = ''db''\<rparr>"

definition gDbBA :: Group where
  "gDbBA = \<lparr>key = ''db'', title = ''Db'', containers = [cB, cAdb],
             dominantState = ''running''\<rparr>"

definition sceneBAE :: AppState where
  "sceneBAE =
   \<lparr>screen = Some (1000, 800),
      groupOrbits =
        [(''db'',
          \<lparr>orbitGroup = gDb, orbitRadius = 96, orbitLine = 2, orbitGlow = 3,
             labelText = Some 4,
             planets =
               [(''b'',
                 \<lparr>container = cB, sprite = 6, glow = 7, rimGlow = 8,
                    particles = [], angle = pi, orbitSpeed = 1 / 20,
                    spriteWidth = 24, spriteHeight = 24\<rparr>)],
             randomStartAngle = pi, hitArea = 5\<rparr>),
         (''web'',
          \<lparr>orbitGroup = gWebAE, orbitRadius = 156, orbitLine = 9,
             orbitGlow = 10, labelText = Some 11,
             planets =
               [(''a'',
                 \<lparr>container = cA, sprite = 13, glow = 14, rimGlow = 15,
                    particles = [16, 17, 18, 19, 20, 21], angle = pi,
                    orbitSpeed = 41 / 100, spriteWidth = 24,
                    spriteHeight = 24\<rparr>),
                (''e'',
                 \<lparr>container = cE, sprite = 22, glow = 23, rimGlow = 24,
                    particles = [], angle = 2 * pi, orbitSpeed = 1 / 20,
                    spriteWidth = 24, spriteHeight = 24\<rparr>)],
             randomStartAngle = pi, hitArea = 12\<rparr>)],
      focusedPlanetId = None, unfocusTimeout = None, pendingTimers = [],
      nextTimer = 0, store = initialStore, stage = [],
      baseLayer =
        [0, 1, 2, 3, 4, 5, 7, 6, 8, 9, 10, 11, 12, 14, 13, 15, 16, 17, 18,
         19, 20, 21, 23, 22, 24],
      focusLayer = [], overlayVisible = False, nextObj = 25,
      randCount = 2\<rparr>"

definition pinnedBAE :: AppState where
  "pinnedBAE =
   \<lparr>screen = Some (1000, 800),
      groupOrbits =
        [(''db'',
          \<lparr>orbitGroup = gDb, orbitRadius = 96, orbitLine = 2, orbitGlow = 3,
             labelText = Some 4,
             planets =
               [(''b'',
                 \<lparr>container = cB, sprite = 6, glow = 7, rimGlow = 8,
                    particles = [], angle = pi, orbitSpeed = 1 / 20,
                    spriteWidth = 24, spriteHeight = 24\<rparr>)],
             randomStartAngle = pi, hitArea = 5\<rparr>),
         (''web'',
          \<lparr>orbitGroup = gWebAE, orbitRadius = 156, orbitLine = 9,
             orbitGlow = 10, labelText = Some 11,
             planets =
               [(''a'',
                 \<lparr>container = cA, sprite = 13, glow = 14, rimGlow = 15,
                    particles = [16, 17, 18, 19, 20, 21], angle = pi,
                    orbitSpeed = 41 / 100, spriteWidth = 36,
                    spriteHeight = 36\<rparr>),
                (''e'',
                 \<lparr>container = cE, sprite = 22, glow = 23, rimGlow = 24,
                    particles = [], angle = 2 * pi, orbitSpeed = 1 / 20,
                    spriteWidth = 24, spriteHeight = 24\<rparr>)],
             randomStartAngle = pi, hitArea = 12\<rparr>)],
      focusedPlanetId = Some ''a'', unfocusTimeout = None, pendingTimers = [],
      nextTimer = 0,
      store =
        \<lparr>selection = SelPlanet ''a'' cA True,
           hover = \<lparr>planetId = None, hoverContainer = None\<rparr>\<rparr>,
      stage = [],
      baseLayer =
        [0, 1, 2, 3, 4, 5, 7, 6, 8, 9, 10, 11, 12, 16, 17, 18, 19, 20, 21,
         23, 22, 24],
      focusLayer = [14, 13, 15], overlayVisible = True, nextObj = 25,
      randCount = 2\<rparr>"

definition movedOnce :: AppState where
  "movedOnce =
   \<lparr>screen = Some (1000, 800),
      groupOrbits =
        [(''db'',
          \<lparr>orbitGroup = gDbBA, orbitRadius = 96, orbitLine = 2, orbitGlow = 3,
             labelText = Some 4,
             planets =
               [(''b'',
                 \<lparr>container = cB, sprite = 6, glow = 7, rimGlow = 8,
                    particles = [], angle = pi, orbitSpeed = 1 / 20,
                    spriteWidth = 24, spriteHeight = 24\<rparr>),
                (''a'',
                 \<lparr>container = cAdb, sprite = 25, glow = 26, rimGlow = 27,
                    particles = [28, 29, 30, 31, 32, 33], angle = 2 * pi,
                    orbitSpeed = 41 / 100, spriteWidth = 36,
                    spriteHeight = 36\<rparr>)],
             randomStartAngle = pi, hitArea = 5\<rparr>),
         (''web'',
          \<lparr>orbitGroup = gWebE, orbitRadius = 156, orbitLine = 9,
             orbitGlow = 10, labelText = Some 11,
             planets =
               [(''e'',
                 \<lparr>container = cE, sprite = 22, glow = 23, rimGlow = 24,
                    particles = [], angle = 2 * pi, orbitSpeed = 1 / 20,
                    spriteWidth = 24, spriteHeight = 24\<rparr>)],
             randomStartAngle = pi, hitArea = 12\<rparr>)],
      focusedPlanetId = None, unfocusTimeout = None, pendingTimers = [],
      nextTimer = 0,
      store =
        \<lparr>selection = SelNone,
           hover = \<lparr>planetId = None, hoverContainer = None\<rparr>\<rparr>,
      stage = [],
      baseLayer =
        [0, 1, 2, 3, 4, 5, 7, 6, 8, 9, 10, 11, 12, 16, 17, 18, 19, 20, 21,
         23, 22, 24, 26, 25, 27, 28, 29, 30, 31, 32, 33, 14, 13, 15],
      focusLayer = [], overlayVisible = False, nextObj = 34,
      randCount = 2\<rparr>"

definition movedTwice :: AppState where
  "movedTwice =
   \<lparr>screen = Some (1000, 800),
      groupOrbits =
        [(''db'',
          \<lparr>orbitGroup = gDbBA, orbitRadius = 96, orbitLine = 2, orbitGlow = 3,
             labelText = Some 4,
             planets =
               [(''b'',
                 \<lparr>container = cB, sprite = 6, glow = 7, rimGlow = 8,
                    particles = [], angle = pi, orbitSpeed = 1 / 20,
                    spriteWidth = 24, spriteHeight = 24\<rparr>),
                (''a'',
                 \<lparr>container = cAdb, sprite = 25, glow = 26, rimGlow = 27,
                    particles = [28, 29, 30, 31, 32, 33], angle = 2 * pi,
                    orbitSpeed = 41 / 100, spriteWidth = 24,
                    spriteHeight = 24\<rparr>)],
             randomStartAngle = pi, hitArea = 5\<rparr>),
         (''web'',
          \<lparr>orbitGroup = gWebE, orbitRadius = 156, orbitLine = 9,
             orbitGlow = 10, labelText = Some 11,
             planets =
               [(''e'',
                 \<lparr>container = cE, sprite = 22, glow = 23, rimGlow = 24,
                    particles = [], angle = 2 * pi, orbitSpeed = 1 / 20,
                    spriteWidth = 24, spriteHeight = 24\<rparr>)],
             randomStartAngle = pi, hitArea = 12\<rparr>)],
      focusedPlanetId = None, unfocusTimeout = None, pendingTimers = [],
      nextTimer = 0,
      store =
        \<lparr>selection = SelNone,
           hover = \<lparr>planetId = None, hoverContainer = None\<rparr>\<rparr>,
      stage = [],
      baseLayer =
        [0, 1, 2, 3, 4, 5, 7, 6, 8, 9, 10, 11, 12, 16, 17, 18, 19, 20, 21,
         23, 22, 24, 26, 25, 27, 28, 29, 30, 31, 32, 33, 14, 13, 15],
      focusLayer = [], overlayVisible = False, nextObj = 34,
      randCount = 2\<rparr>"

section \<open>Properties of the selection store\<close>

text \<open>
  Claim C10. Selection and hover are independent fields of the store: \<open>setHover\<close> and
  \<open>clearHover\<close> leave the selection as it is, and \<open>selectPlanet\<close>, \<open>selectGroup\<close> and
  \<open>clearSelection\<close> leave the hover as it is, in every state of the store.
\<close>

theorem selection_hover_frame:
  "selection (setHover p c st) = selection st
   \<and> selection (clearHover st) = selection st
   \<and> hover (selectPlanet i c' persistent st) = hover st
   \<and> hover (selectGroup k g st) = hover st
   \<and> hover (clearSelection st) = hover st"
  by (simp add: setHover_def clearHover_def selectPlanet_def selectGroup_def clearSelection_def)

section \<open>Properties of the orbit radius policy\<close>

text \<open>
  Claim C3. On a mounted application with viewport dimension \<open>V = min w h\<close>, the radius
  of the ring with index \<open>i\<close> among \<open>N\<close> groups is \<open>min (0.12 V + i step) (0.46 V)\<close>,
  where \<open>step\<close> is \<open>0.075 V\<close>, multiplied by \<open>0.85\<close> exactly when \<open>N > 6\<close>. The radius
  never exceeds \<open>0.46 V\<close>, and for a viewport dimension \<open>V \<ge> 0\<close> it does not decrease when
  the index grows. (The statement holds for all \<open>i\<close> and \<open>N\<close>, in particular for
  \<open>N \<ge> 1\<close> and \<open>i < N\<close>.)
\<close>

theorem calculateOrbitRadius_policy:
  "calculateOrbitRadius (Some (w, h)) i N =
      min (0.12 * min w h + real i * (if N > 6 then 0.075 * min w h * 0.85 else 0.075 * min w h))
          (0.46 * min w h)
   \<and> calculateOrbitRadius (Some (w, h)) i N \<le> 0.46 * min w h
   \<and> (0 \<le> min w h \<longrightarrow> i \<le> j \<longrightarrow>
         calculateOrbitRadius (Some (w, h)) i N \<le> calculateOrbitRadius (Some (w, h)) j N)"
proof -
  define V where "V = min w h"
  define step where "step = (if N > 6 then 0.075 * V * 0.85 else 0.075 * V)"
  have eq: "calculateOrbitRadius (Some (w, h)) k N = min (0.12 * V + real k * step) (0.46 * V)"
    for k
    by (simp add: calculateOrbitRadius_def Let_def V_def step_def mult.commute)
  have mono: "0.12 * V + real i * step \<le> 0.12 * V + real j * step" if "0 \<le> V" "i \<le> j"
  proof -
    have "0 \<le> step" using that by (simp add: step_def)
    moreover have "real i \<le> real j" using that by simp
    ultimately have "real i * step \<le> real j * step" by (rule mult_right_mono[rotated])
    then show ?thesis by simp
  qed
  have le: "min (0.12 * V + real i * step) (0.46 * V) \<le> min (0.12 * V + real j * step) (0.46 * V)"
    if "0 \<le> V" "i \<le> j"
    using mono[OF that] by (meson min.mono order_refl)
  have "calculateOrbitRadius (Some (w, h)) i N = min (0.12 * V + real i * step) (0.46 * V)
    \<and> calculateOrbitRadius (Some (w, h)) i N \<le> 0.46 * V
    \<and> (0 \<le> V \<longrightarrow> i \<le> j \<longrightarrow>
         calculateOrbitRadius (Some (w, h)) i N \<le> calculateOrbitRadius (Some (w, h)) j N)"
    unfolding eq using le by (intro conjI impI) (rule refl, rule min.cobounded2, assumption)
  then show ?thesis unfolding step_def V_def .
qed

text \<open>
  Eight groups on a 1000 by 800 screen: the ring of index 2 is at
  \<open>96 + 2 * 51 = 198\<close> (compressed step), the ring of index 7 is clamped to \<open>368\<close>.
\<close>

theorem calculateOrbitRadius_policy_witness:
  "(0::real) \<le> min 1000 800 \<and> (2::nat) \<le> 7
   \<and> calculateOrbitRadius (Some (1000, 800)) 2 8 = 198
   \<and> calculateOrbitRadius (Some (1000, 800)) 7 8 = 368
   \<and> calculateOrbitRadius (Some (1000, 800)) 2 8 \<le> calculateOrbitRadius (Some (1000, 800)) 7 8"
  using calculateOrbitRadius_policy [of 1000 800 2 8 7]
        calculateOrbitRadius_policy [of 1000 800 7 8 7]
  by simp

section \<open>Properties of the grouping function\<close>

lemma set_firstEncountered: "set (firstEncountered xs) = set xs"
  by (induction xs) auto

lemma distinct_firstEncountered: "distinct (firstEncountered xs)"
  by (induction xs) auto

lemma firstEncountered_snoc:
  "firstEncountered (xs @ [x]) =
     (if x \<in> set xs then firstEncountered xs else firstEncountered xs @ [x])"
  by (induction xs) (auto simp: set_firstEncountered)

lemma map_of_keyed:
  "map_of (map (\<lambda>k. (k, f k)) ks) k = (if k \<in> set ks then Some (f k) else None)"
  by (induction ks) auto

lemma update_keyed:
  "distinct ks \<Longrightarrow> AList.update k v (map (\<lambda>k'. (k', f k')) ks) =
     (if k \<in> set ks then map (\<lambda>k'. (k', if k' = k then v else f k')) ks
      else map (\<lambda>k'. (k', f k')) ks @ [(k, v)])"
  by (induction ks) auto

lemma update_snoc_same:
  "k \<notin> fst ` set al \<Longrightarrow> AList.update k v (al @ [(k, w)]) = al @ [(k, v)]"
  by (induction al) auto

lemma pushContainer_keyed:
  assumes "ks = firstEncountered (map group cs)"
  shows "pushContainer (map (\<lambda>k. (k, members cs k)) ks) c =
         map (\<lambda>k. (k, members (cs @ [c]) k)) (firstEncountered (map group (cs @ [c])))"
proof -
  have d: "distinct ks" using assms by (simp add: distinct_firstEncountered)
  have s: "set ks = group ` set cs" using assms by (simp add: set_firstEncountered)
  show ?thesis
  proof (cases "group c \<in> set ks")
    case True
    have A: "pushContainer (map (\<lambda>k. (k, members cs k)) ks) c =
          map (\<lambda>k. (k, if k = group c then members cs (group c) @ [c] else members cs k)) ks"
      using True d by (simp add: pushContainer_def map_of_keyed update_keyed Let_def)
    have B: "map (\<lambda>k. (k, if k = group c then members cs (group c) @ [c] else members cs k)) ks
           = map (\<lambda>k. (k, members (cs @ [c]) k)) ks"
      by (rule map_cong) (auto simp: members_def)
    have D: "firstEncountered (map group (cs @ [c])) = ks"
      using True s assms by (simp add: firstEncountered_snoc)
    show ?thesis unfolding D by (simp only: A B)
  next
    case False
    then have nin: "\<forall>x\<in>set cs. group x \<noteq> group c"
      using s by (metis imageI)
    then have emp: "members cs (group c) = []"
      by (simp add: members_def filter_empty_conv)
    have A: "pushContainer (map (\<lambda>k. (k, members cs k)) ks) c =
          map (\<lambda>k. (k, members cs k)) ks @ [(group c, [c])]"
      using False d
      by (simp add: pushContainer_def map_of_keyed update_keyed Let_def map_add_def
            update_snoc_same image_image)
    have B: "map (\<lambda>k. (k, members (cs @ [c]) k)) ks = map (\<lambda>k. (k, members cs k)) ks"
      by (rule map_cong) (use False in \<open>auto simp: members_def\<close>)
    have C: "members (cs @ [c]) (group c) = [c]"
      using emp by (simp add: members_def)
    have D: "firstEncountered (map group (cs @ [c])) = ks @ [group c]"
      using False s assms by (simp add: firstEncountered_snoc)
    show ?thesis unfolding D by (simp add: A B C)
  qed
qed

lemma foldl_pushContainer:
  "foldl pushContainer [] cs = map (\<lambda>k. (k, members cs k)) (firstEncountered (map group cs))"
proof (induction cs rule: rev_induct)
  case Nil
  show ?case by simp
next
  case (snoc c cs)
  show ?case using pushContainer_keyed[OF refl, of cs c] snoc by simp
qed

lemma groupContainers_eq:
  "groupContainers cs = map (\<lambda>k. mkGroup (k, members cs k)) (firstEncountered (map group cs))"
  by (simp add: groupContainers_def foldl_pushContainer comp_def)

lemma getDominantState_priority:
  "getDominantState ms =
     (if \<exists>c\<in>set ms. state c = ''running'' then ''running''
      else if \<exists>c\<in>set ms. state c = ''restarting'' then ''restarting''
      else if \<exists>c\<in>set ms. state c = ''paused'' then ''paused''
      else ''exited'')"
proof -
  have h: "list_ex (\<lambda>s. s = x) (map state ms) = (\<exists>c\<in>set ms. state c = x)" for x
    by (auto simp: list_ex_iff)
  show ?thesis by (simp add: getDominantState_def Let_def h)
qed

text \<open>
  Claim C5. For every entity list, \<open>groupContainers\<close> returns one group for each
  distinct group key of the list, in the order in which the keys are first encountered;
  the members of a group are the entities with its key, in input order; and the dominant
  state of a group is the first of running, restarting, paused that one of its members
  has, and exited when none has any of them.
\<close>

theorem groupContainers_contract:
  "map key (groupContainers cs) = firstEncountered (map group cs)
   \<and> distinct (map key (groupContainers cs))
   \<and> set (map key (groupContainers cs)) = group ` set cs
   \<and> (\<forall>g\<in>set (groupContainers cs).
         containers g = members cs (key g)
         \<and> containers g \<noteq> []
         \<and> title g = formatGroupTitle (key g)
         \<and> dominantState g =
             (if \<exists>c\<in>set (containers g). state c = ''running'' then ''running''
              else if \<exists>c\<in>set (containers g). state c = ''restarting'' then ''restarting''
              else if \<exists>c\<in>set (containers g). state c = ''paused'' then ''paused''
              else ''exited''))"
proof -
  have k: "map key (groupContainers cs) = firstEncountered (map group cs)"
    by (simp add: groupContainers_eq mkGroup_def comp_def)
  have g: "containers g = members cs (key g) \<and> containers g \<noteq> []
         \<and> title g = formatGroupTitle (key g)
         \<and> dominantState g = getDominantState (containers g)"
    if "g \<in> set (groupContainers cs)" for g
  proof -
    from that obtain k where kin: "k \<in> group ` set cs" and geq: "g = mkGroup (k, members cs k)"
      by (auto simp: groupContainers_eq set_firstEncountered)
    from kin have "members cs k \<noteq> []"
      by (auto simp: members_def filter_empty_conv)
    with geq show ?thesis by (simp add: mkGroup_def)
  qed
  have q: "\<forall>g\<in>set (groupContainers cs).
         containers g = members cs (key g)
         \<and> containers g \<noteq> []
         \<and> title g = formatGroupTitle (key g)
         \<and> dominantState g = getDominantState (containers g)"
    using g by blast
  show ?thesis
    unfolding getDominantState_priority [symmetric]
  proof (intro conjI)
    show "map key (groupContainers cs) = firstEncountered (map group cs)"
      by (rule k)
    show "distinct (map key (groupContainers cs))"
      unfolding k by (rule distinct_firstEncountered)
    show "set (map key (groupContainers cs)) = group ` set cs"
      unfolding k by (simp add: set_firstEncountered)
  qed (rule q)
qed

text \<open>
  The priority on an example: the group \<open>web\<close> has an exited and a running member, the
  group \<open>db\<close> a paused and an exited one, and \<open>web\<close> is encountered first.
\<close>

lemma ex_simps:
  "group exWebExited = ''web''" "group exDbPaused = ''db''"
  "group exWebRunning = ''web''" "group exDbExited = ''db''"
  "state exWebExited = ''exited''" "state exDbPaused = ''paused''"
  "state exWebRunning = ''running''" "state exDbExited = ''exited''"
  by (simp_all add: exWebExited_def exDbPaused_def exWebRunning_def exDbExited_def)

theorem groupContainers_contract_witness:
  "map key (groupContainers [exWebExited, exDbPaused, exWebRunning, exDbExited])
     = [''web'', ''db'']
   \<and> map containers (groupContainers [exWebExited, exDbPaused, exWebRunning, exDbExited])
     = [[exWebExited, exWebRunning], [exDbPaused, exDbExited]]
   \<and> map dominantState (groupContainers [exWebExited, exDbPaused, exWebRunning, exDbExited])
     = [''running'', ''paused'']"
proof -
  let ?cs = "[exWebExited, exDbPaused, exWebRunning, exDbExited]"
  have e: "groupContainers ?cs =
             [mkGroup (''web'', [exWebExited, exWebRunning]),
              mkGroup (''db'', [exDbPaused, exDbExited])]"
    by (simp add: groupContainers_eq members_def ex_simps)
  have m: "members ?cs ''web'' = [exWebExited, exWebRunning]"
          "members ?cs ''db'' = [exDbPaused, exDbExited]"
    by (simp_all add: members_def ex_simps)
  show ?thesis
    using groupContainers_contract [of ?cs]
    by (simp add: e mkGroup_def m ex_simps)
qed

section \<open>Frame lemmas and the debounced unfocus\<close>

lemmas layer_defs = addChild_def parent_def setChildren_def children_def removeChild_def

lemma removeChild_frame [simp]:
  "screen (removeChild l x s) = screen s"
  "groupOrbits (removeChild l x s) = groupOrbits s"
  "focusedPlanetId (removeChild l x s) = focusedPlanetId s"
  "unfocusTimeout (removeChild l x s) = unfocusTimeout s"
  "pendingTimers (removeChild l x s) = pendingTimers s"
  "nextTimer (removeChild l x s) = nextTimer s"
  "store (removeChild l x s) = store s"
  "overlayVisible (removeChild l x s) = overlayVisible s"
  "nextObj (removeChild l x s) = nextObj s"
  "randCount (removeChild l x s) = randCount s"
  by (simp_all add: layer_defs split: Layer.splits)

lemma addChild_frame [simp]:
  "screen (addChild l x s) = screen s"
  "groupOrbits (addChild l x s) = groupOrbits s"
  "focusedPlanetId (addChild l x s) = focusedPlanetId s"
  "unfocusTimeout (addChild l x s) = unfocusTimeout s"
  "pendingTimers (addChild l x s) = pendingTimers s"
  "nextTimer (addChild l x s) = nextTimer s"
  "store (addChild l x s) = store s"
  "overlayVisible (addChild l x s) = overlayVisible s"
  "nextObj (addChild l x s) = nextObj s"
  "randCount (addChild l x s) = randCount s"
  by (simp_all add: layer_defs Let_def split: Layer.splits option.splits)

lemma moveToFocusLayer_frame [simp]:
  "screen (moveToFocusLayer p s) = screen s"
  "groupOrbits (moveToFocusLayer p s) = groupOrbits s"
  "focusedPlanetId (moveToFocusLayer p s) = focusedPlanetId s"
  "unfocusTimeout (moveToFocusLayer p s) = unfocusTimeout s"
  "pendingTimers (moveToFocusLayer p s) = pendingTimers s"
  "nextTimer (moveToFocusLayer p s) = nextTimer s"
  "store (moveToFocusLayer p s) = store s"
  "overlayVisible (moveToFocusLayer p s) = overlayVisible s"
  "nextObj (moveToFocusLayer p s) = nextObj s"
  "randCount (moveToFocusLayer p s) = randCount s"
  by (simp_all add: moveToFocusLayer_def)

lemma moveToBaseLayer_frame [simp]:
  "screen (moveToBaseLayer p s) = screen s"
  "groupOrbits (moveToBaseLayer p s) = groupOrbits s"
  "focusedPlanetId (moveToBaseLayer p s) = focusedPlanetId s"
  "unfocusTimeout (moveToBaseLayer p s) = unfocusTimeout s"
  "pendingTimers (moveToBaseLayer p s) = pendingTimers s"
  "nextTimer (moveToBaseLayer p s) = nextTimer s"
  "store (moveToBaseLayer p s) = store s"
  "overlayVisible (moveToBaseLayer p s) = overlayVisible s"
  "nextObj (moveToBaseLayer p s) = nextObj s"
  "randCount (moveToBaseLayer p s) = randCount s"
  by (simp_all add: moveToBaseLayer_def)

lemma modifyOrbit_frame [simp]:
  "screen (modifyOrbit k f s) = screen s"
  "focusedPlanetId (modifyOrbit k f s) = focusedPlanetId s"
  "unfocusTimeout (modifyOrbit k f s) = unfocusTimeout s"
  "pendingTimers (modifyOrbit k f s) = pendingTimers s"
  "nextTimer (modifyOrbit k f s) = nextTimer s"
  "store (modifyOrbit k f s) = store s"
  "stage (modifyOrbit k f s) = stage s"
  "baseLayer (modifyOrbit k f s) = baseLayer s"
  "focusLayer (modifyOrbit k f s) = focusLayer s"
  "overlayVisible (modifyOrbit k f s) = overlayVisible s"
  "nextObj (modifyOrbit k f s) = nextObj s"
  "randCount (modifyOrbit k f s) = randCount s"
  by (simp_all add: modifyOrbit_def)

lemma modifyPlanet_frame [simp]:
  "screen (modifyPlanet k i f s) = screen s"
  "focusedPlanetId (modifyPlanet k i f s) = focusedPlanetId s"
  "unfocusTimeout (modifyPlanet k i f s) = unfocusTimeout s"
  "pendingTimers (modifyPlanet k i f s) = pendingTimers s"
  "nextTimer (modifyPlanet k i f s) = nextTimer s"
  "store (modifyPlanet k i f s) = store s"
  "stage (modifyPlanet k i f s) = stage s"
  "baseLayer (modifyPlanet k i f s) = baseLayer s"
  "focusLayer (modifyPlanet k i f s) = focusLayer s"
  "overlayVisible (modifyPlanet k i f s) = overlayVisible s"
  "nextObj (modifyPlanet k i f s) = nextObj s"
  "randCount (modifyPlanet k i f s) = randCount s"
  by (simp_all add: modifyPlanet_def)

lemma unfocusPlanet_frame [simp]:
  "screen (unfocusPlanet s) = screen s"
  "unfocusTimeout (unfocusPlanet s) = unfocusTimeout s"
  "pendingTimers (unfocusPlanet s) = pendingTimers s"
  "nextTimer (unfocusPlanet s) = nextTimer s"
  "nextObj (unfocusPlanet s) = nextObj s"
  "randCount (unfocusPlanet s) = randCount s"
  by (simp_all add: unfocusPlanet_def Let_def split: option.splits prod.splits)

lemma findPlanet_cong:
  "groupOrbits s = groupOrbits s' \<Longrightarrow> findPlanet s pid = findPlanet s' pid"
  by (simp add: findPlanet_def)

lemma clearPendingUnfocus_frame [simp]:
  "screen (clearPendingUnfocus s) = screen s"
  "groupOrbits (clearPendingUnfocus s) = groupOrbits s"
  "focusedPlanetId (clearPendingUnfocus s) = focusedPlanetId s"
  "store (clearPendingUnfocus s) = store s"
  "stage (clearPendingUnfocus s) = stage s"
  "baseLayer (clearPendingUnfocus s) = baseLayer s"
  "focusLayer (clearPendingUnfocus s) = focusLayer s"
  "overlayVisible (clearPendingUnfocus s) = overlayVisible s"
  "nextObj (clearPendingUnfocus s) = nextObj s"
  "randCount (clearPendingUnfocus s) = randCount s"
  by (simp_all add: clearPendingUnfocus_def clearTimeout_def split: option.splits)

lemma maybeUnfocus_frame [simp]:
  "screen (maybeUnfocus s) = screen s"
  "groupOrbits (maybeUnfocus s) = groupOrbits s"
  "focusedPlanetId (maybeUnfocus s) = focusedPlanetId s"
  "store (maybeUnfocus s) = store s"
  "stage (maybeUnfocus s) = stage s"
  "baseLayer (maybeUnfocus s) = baseLayer s"
  "focusLayer (maybeUnfocus s) = focusLayer s"
  "overlayVisible (maybeUnfocus s) = overlayVisible s"
  "nextObj (maybeUnfocus s) = nextObj s"
  "randCount (maybeUnfocus s) = randCount s"
  by (simp_all add: maybeUnfocus_def clearTimeout_def Let_def split: option.splits)

lemma maybeUnfocus_timer:
  "unfocusTimeout (maybeUnfocus s) = Some (Suc (nextTimer s))"
  "Suc (nextTimer s) \<in> set (pendingTimers (maybeUnfocus s))"
  by (simp_all add: maybeUnfocus_def clearTimeout_def Let_def split: option.splits)

lemma clearPendingUnfocus_timer:
  "unfocusTimeout s = Some t \<Longrightarrow> t \<noteq> 0 \<Longrightarrow>
     unfocusTimeout (clearPendingUnfocus s) = None \<and> t \<notin> set (pendingTimers (clearPendingUnfocus s))"
  by (simp add: clearPendingUnfocus_def clearTimeout_def timerSet_def)

lemma handleClick_timers:
  "screen s = Some wh \<Longrightarrow>
     unfocusTimeout (handleClick pid c s) = unfocusTimeout (clearPendingUnfocus s)
     \<and> pendingTimers (handleClick pid c s) = pendingTimers (clearPendingUnfocus s)"
  by (simp add: handleClick_def Let_def split: option.splits prod.splits)

lemma handleClick_pins:
  assumes "screen s = Some wh" "findPlanet s pid \<noteq> None"
  shows "selection (store (handleClick pid c s)) = SelPlanet pid c True
         \<and> focusedPlanetId (handleClick pid c s) = Some pid"
proof -
  have "findPlanet (clearPendingUnfocus s) pid = findPlanet s pid"
    by (rule findPlanet_cong) simp
  with assms obtain k p where "findPlanet (clearPendingUnfocus s) pid = Some (k, p)"
    by (cases "findPlanet s pid") auto
  with assms(1) show ?thesis
    by (simp add: handleClick_def Let_def selectPlanet_def)
qed

lemma fireTimer_keeps:
  "keepsFocus (selection (store s)) \<Longrightarrow>
     fireTimer t s = s\<lparr>pendingTimers := removeAll t (pendingTimers s)\<rparr>"
  by (auto simp: fireTimer_def unfocusTimerCallback_def keepsFocus_def split: Selection.splits)

text \<open>
  Claim C6. On a mounted application, let a pointer-leave schedule the debounced unfocus
  (\<open>maybeUnfocus\<close>) and let a pointer-down on a body of the scene follow before the
  timer fires (\<open>handleClick\<close>). Then the scheduled timer is pending after the first
  step and cancelled by the second, the selection is the persistent selection of the
  clicked body and that body is the focused one, and whichever timer fires afterwards
  changes nothing but the list of pending timers. In general, in every state whose
  selection at fire time is a persistent planet selection or a group selection, a firing
  timer performs no unfocus: it only leaves the list of pending timers.
\<close>

theorem debounce_race_safe:
  "(screen s \<noteq> None \<and> findPlanet s pid \<noteq> None \<longrightarrow>
      (let s1 = maybeUnfocus s; s2 = handleClick pid c s1
       in Suc (nextTimer s) \<in> set (pendingTimers s1)
          \<and> Suc (nextTimer s) \<notin> set (pendingTimers s2)
          \<and> unfocusTimeout s2 = None
          \<and> selection (store s2) = SelPlanet pid c True
          \<and> focusedPlanetId s2 = Some pid
          \<and> (\<forall>t. fireTimer t s2 = s2\<lparr>pendingTimers := removeAll t (pendingTimers s2)\<rparr>)))
   \<and> (keepsFocus (selection (store s')) \<longrightarrow>
        fireTimer t' s' = s'\<lparr>pendingTimers := removeAll t' (pendingTimers s')\<rparr>)"
proof (intro conjI impI)
  assume a: "screen s \<noteq> None \<and> findPlanet s pid \<noteq> None"
  define s1 where "s1 = maybeUnfocus s"
  define s2 where "s2 = handleClick pid c s1"
  from a obtain wh where "screen s = Some wh" by auto
  then have m: "screen s1 = Some wh" by (simp add: s1_def)
  have f: "findPlanet s1 pid \<noteq> None"
    using a findPlanet_cong[of s1 s pid] by (simp add: s1_def)
  have t1: "unfocusTimeout s1 = Some (Suc (nextTimer s))" "Suc (nextTimer s) \<in> set (pendingTimers s1)"
    by (simp_all add: s1_def maybeUnfocus_timer)
  have t2: "unfocusTimeout s2 = None \<and> Suc (nextTimer s) \<notin> set (pendingTimers s2)"
    using clearPendingUnfocus_timer[OF t1(1)] handleClick_timers[OF m, of pid c]
    by (simp add: s2_def)
  have p: "selection (store s2) = SelPlanet pid c True \<and> focusedPlanetId s2 = Some pid"
    unfolding s2_def by (rule handleClick_pins[OF m f])
  have k: "fireTimer t s2 = s2\<lparr>pendingTimers := removeAll t (pendingTimers s2)\<rparr>" for t
    by (rule fireTimer_keeps) (simp add: p keepsFocus_def)
  show "let s1 = maybeUnfocus s; s2 = handleClick pid c s1
       in Suc (nextTimer s) \<in> set (pendingTimers s1)
          \<and> Suc (nextTimer s) \<notin> set (pendingTimers s2)
          \<and> unfocusTimeout s2 = None
          \<and> selection (store s2) = SelPlanet pid c True
          \<and> focusedPlanetId s2 = Some pid
          \<and> (\<forall>t. fireTimer t s2 = s2\<lparr>pendingTimers := removeAll t (pendingTimers s2)\<rparr>)"
    using t1 t2 p k unfolding Let_def s1_def[symmetric] s2_def[symmetric] by blast
next
  assume "keepsFocus (selection (store s'))"
  then show "fireTimer t' s' = s'\<lparr>pendingTimers := removeAll t' (pendingTimers s')\<rparr>"
    by (rule fireTimer_keeps)
qed

text \<open>
  The pointer is on body \<open>a\<close> (scene \<open>hoverA\<close>), leaves it, and goes down on body
  \<open>b\<close> before the timer fires; and a timer that fires on the pinned scene \<open>pinnedA\<close>.
\<close>

theorem debounce_race_safe_witness:
  "screen hoverA \<noteq> None \<and> findPlanet hoverA ''b'' \<noteq> None
   \<and> Suc (nextTimer hoverA) \<in> set (pendingTimers (maybeUnfocus hoverA))
   \<and> Suc (nextTimer hoverA) \<notin> set (pendingTimers (handleClick ''b'' cB (maybeUnfocus hoverA)))
   \<and> selection (store (handleClick ''b'' cB (maybeUnfocus hoverA))) = SelPlanet ''b'' cB True
   \<and> focusedPlanetId (handleClick ''b'' cB (maybeUnfocus hoverA)) = Some ''b''
   \<and> keepsFocus (selection (store pinnedA))
   \<and> fireTimer 5 pinnedA = pinnedA\<lparr>pendingTimers := removeAll 5 (pendingTimers pinnedA)\<rparr>"
proof -
  have h: "screen hoverA \<noteq> None \<and> findPlanet hoverA ''b'' \<noteq> None"
    by (simp add: hoverA_def findPlanet_def)
  have k: "keepsFocus (selection (store pinnedA))"
    by (simp add: pinnedA_def keepsFocus_def)
  show ?thesis
    using debounce_race_safe [of hoverA "''b''" cB pinnedA 5] h k
    by (simp add: Let_def)
qed

section \<open>Evaluation of the example scenes\<close>

lemma ex_containers [simp]:
  "idC cA = ''a''" "state cA = ''running''" "cpuPercent cA = Some 80"
  "memoryPercent cA = Some 100" "group cA = ''web''"
  "idC cB = ''b''" "state cB = ''exited''" "cpuPercent cB = Some 0"
  "memoryPercent cB = None" "group cB = ''db''"
  "idC cA' = ''a''" "state cA' = ''running''" "cpuPercent cA' = Some 10"
  "memoryPercent cA' = Some 100" "group cA' = ''web''"
  "idC cC = ''c''" "state cC = ''paused''" "cpuPercent cC = None"
  "memoryPercent cC = Some 0" "group cC = ''cache''"
  "idC cD = ''d''" "state cD = ''restarting''" "cpuPercent cD = Some 0"
  "memoryPercent cD = Some 0" "group cD = ''queue''"
  by (simp_all add: cA_def cB_def cA'_def cC_def cD_def)

lemma ex_groups [simp]:
  "key gWeb = ''web''" "containers gWeb = [cA]"
  "key gWeb' = ''web''" "containers gWeb' = [cA']"
  "key gDb = ''db''" "containers gDb = [cB]"
  "key gCache = ''cache''" "containers gCache = [cC]"
  "key gQueue = ''queue''" "containers gQueue = [cD]"
  by (simp_all add: gWeb_def gDb_def gWeb'_def gCache_def gQueue_def)

lemma ex_titles:
  "formatGroupTitle ''web'' = ''Web''" "formatGroupTitle ''db'' = ''Db''"
  "formatGroupTitle ''cache'' = ''Cache''" "formatGroupTitle ''queue'' = ''Queue''"
  by code_simp+

lemma ex_feeds:
  "groupContainers [cA, cB] = [gWeb, gDb]"
  "groupContainers [cA', cB] = [gWeb', gDb]"
  "groupContainers [cB] = [gDb]"
  "groupContainers [cA, cB, cC] = [gWeb, gDb, gCache]"
  "groupContainers [cC, cD] = [gCache, gQueue]"
  by (simp_all add: groupContainers_eq members_def mkGroup_def ex_titles getDominantState_def
        gWeb_def gWeb'_def gDb_def gCache_def gQueue_def)

lemmas reconcile_defs =
  reconcile_def removeStaleGroupOrbits_def removeGroupOrbit_def stageRemovePlanet_def
  reconcileGroup_def createGroupOrbit_def modifyOrbit_def removeStalePlanets_def
  removeStalePlanet_def lookupPlanet_def createPlanet_def modifyPlanet_def
  setPlanetProps_def updateParticles_def planetSize_def planetSpeed_def
  shouldShowParticles_def orZero_def minRadius_def maxRadius_def largeMaxRadius_def
  focusScale_def calculateOrbitRadius_def reconcileContainer_def exRand_def

lemmas focus_defs =
  handleHover_def handleClick_def unfocusPlanet_def clearPendingUnfocus_def timerSet_def
  clearTimeout_def findPlanet_def modifyPlanet_def modifyOrbit_def scaleSprite_def
  setHover_def clearHover_def clearSelection_def selectPlanet_def focusScale_def truthy_def
  initialStore_def

lemmas move_defs = moveToFocusLayer_def moveToBaseLayer_def layer_defs

lemma reconcile_mount_AB: "reconcile exRand [cA, cB] (mount 1000 800) = sceneAB"
  by (simp add: sceneAB_def mount_def ex_feeds reconcile_defs layer_defs Let_def upt_rec
        cong: let_weak_cong)

lemma hover_a: "handleHover SelNone ''a'' sceneAB = hoverA"
  by (simp add: sceneAB_def hoverA_def focus_defs Let_def cong: let_weak_cong)
     (simp add: move_defs Let_def cong: let_weak_cong)

lemma hover_b: "handleHover SelNone ''b'' hoverA = hoverAB"
  by (simp add: hoverA_def hoverAB_def focus_defs Let_def cong: let_weak_cong)
     (simp add: move_defs Let_def cong: let_weak_cong)

lemma out_a:
  "maybeUnfocus hoverA
     = hoverA\<lparr>unfocusTimeout := Some 1, pendingTimers := [1], nextTimer := 1\<rparr>"
  by (simp add: hoverA_def maybeUnfocus_def timerSet_def Let_def)

lemma hover_b_after_out:
  "handleHover SelNone ''b'' (hoverA\<lparr>unfocusTimeout := Some 1, pendingTimers := [1], nextTimer := 1\<rparr>)
     = hoverAB\<lparr>nextTimer := 1\<rparr>"
  by (simp add: hoverA_def hoverAB_def focus_defs Let_def cong: let_weak_cong)
     (simp add: move_defs Let_def cong: let_weak_cong)

lemma hover_b_late:
  "handleHover SelNone ''b'' (maybeUnfocus hoverA) = hoverAB\<lparr>nextTimer := 1\<rparr>"
  unfolding out_a by (rule hover_b_after_out)

lemma click_a: "handleClick ''a'' cA sceneAB = pinnedA"
  by (simp add: sceneAB_def pinnedA_def focus_defs move_defs Let_def cong: let_weak_cong)

text \<open>
  The pointer enters \<open>b\<close> while \<open>a\<close> is pinned. The listener of \<open>b\<close> calls the closure of
  the render that created \<open>b\<close>, whose selection is none: the pin is kept and both bodies
  are in the focus layer. A closure of a render that saw the pin would unfocus \<open>a\<close>.
\<close>

lemma hover_after_pin:
  "focusLayer (handleHover SelNone ''b'' pinnedA) = [7, 6, 8, 20, 19, 21]
   \<and> selection (store (handleHover SelNone ''b'' pinnedA)) = SelPlanet ''a'' cA True
   \<and> focusLayer (handleHover (SelPlanet ''a'' cA True) ''b'' pinnedA) = [20, 19, 21]
   \<and> selection (store (handleHover (SelPlanet ''a'' cA True) ''b'' pinnedA)) = SelNone"
  by (simp add: pinnedA_def focus_defs Let_def cong: let_weak_cong)
     (simp add: move_defs Let_def cong: let_weak_cong)

lemma refresh_without_a: "reconcile exRand [cB] pinnedA = afterRemoval"
  by (simp add: pinnedA_def afterRemoval_def ex_feeds reconcile_defs layer_defs Let_def upt_rec
        cong: let_weak_cong)

lemma refresh_cool: "reconcile exRand [cA', cB] sceneAB = sceneCool"
  by (simp add: sceneAB_def sceneCool_def ex_feeds reconcile_defs layer_defs Let_def upt_rec
        cong: let_weak_cong)

lemma refresh_pinned_focus:
  "focusedPlanetId (reconcile exRand [cA', cB] pinnedA) = Some ''a''"
  by (simp add: pinnedA_def ex_feeds reconcile_defs layer_defs Let_def upt_rec
        cong: let_weak_cong)

lemma reconcile_mount_ABC: "reconcile exRand [cA, cB, cC] (mount 1000 800) = sceneABC"
  by (simp add: sceneABC_def mount_def ex_feeds reconcile_defs layer_defs Let_def upt_rec
        cong: let_weak_cong)

lemma refresh_CD: "reconcile exRand [cC, cD] sceneABC = sceneCD"
  by (simp add: sceneABC_def sceneCD_def ex_feeds reconcile_defs layer_defs Let_def upt_rec
        cong: let_weak_cong)

lemma ex_containers_e [simp]:
  "idC cE = ''e''" "state cE = ''exited''" "cpuPercent cE = Some 0"
  "memoryPercent cE = Some 0" "group cE = ''web''"
  "key gWebAE = ''web''" "containers gWebAE = [cA, cE]"
  "key gWebE = ''web''" "containers gWebE = [cE]"
  by (simp_all add: cE_def gWebAE_def gWebE_def)

lemma ex_feeds_e:
  "groupContainers [cA, cE] = [gWebAE]"
  "groupContainers [cE] = [gWebE]"
  by (simp_all add: groupContainers_eq members_def mkGroup_def ex_titles getDominantState_def
        gWebAE_def gWebE_def)

lemma reconcile_mount_AE: "reconcile exRand [cA, cE] (mount 1000 800) = sceneAE"
  by (simp add: sceneAE_def mount_def ex_feeds_e reconcile_defs layer_defs Let_def upt_rec
        cong: let_weak_cong)

lemma click_a_AE: "handleClick ''a'' cA sceneAE = pinnedAE"
  by (simp add: sceneAE_def pinnedAE_def focus_defs move_defs Let_def cong: let_weak_cong)

lemma refresh_without_a_AE: "reconcile exRand [cE] pinnedAE = afterLeave"
  by (simp add: pinnedAE_def afterLeave_def ex_feeds_e reconcile_defs focus_defs move_defs
        layer_defs Let_def upt_rec cong: let_weak_cong)

text \<open>
  Claim C2 (the code departs from it). From the mounted state with bodies \<open>a\<close> and \<open>b\<close>,
  the pointer enters \<open>a\<close> and then \<open>b\<close>. The selection is none at the render that created
  the two bodies, so this is the selection of the closure that their listeners call (and
  it is still the selection of the store when the pointer enters). \<open>handleHover\<close> takes
  \<open>b\<close> into the focus layer and scales it, and leaves \<open>a\<close> there, scaled as well. The focus layer then holds the
  sprites of both bodies (objects 6 and 19). The same happens when the pointer leaves
  \<open>a\<close> in between and enters \<open>b\<close> before the debounce timer fires: \<open>handleHover\<close> clears
  the timer, so that no pending timer is left to take \<open>a\<close> out.
\<close>

theorem hover_twice_two_focused:
  "selection (store (mount 1000 800)) = SelNone
   \<and> selection (store (reconcile exRand [cA, cB] (mount 1000 800))) = SelNone
   \<and> focusLayer (handleHover SelNone ''b'' (handleHover SelNone ''a''
       (reconcile exRand [cA, cB] (mount 1000 800)))) = [7, 6, 8, 20, 19, 21]
   \<and> map_option sprite (lookupPlanet (handleHover SelNone ''b'' (handleHover SelNone ''a''
       (reconcile exRand [cA, cB] (mount 1000 800)))) ''web'' ''a'') = Some 6
   \<and> map_option sprite (lookupPlanet (handleHover SelNone ''b'' (handleHover SelNone ''a''
       (reconcile exRand [cA, cB] (mount 1000 800)))) ''db'' ''b'') = Some 19
   \<and> map_option spriteWidth (lookupPlanet (handleHover SelNone ''b'' (handleHover SelNone ''a''
       (reconcile exRand [cA, cB] (mount 1000 800)))) ''web'' ''a'')
       = Some (2 * planetSize cA * focusScale)
   \<and> focusLayer (handleHover SelNone ''b'' (maybeUnfocus (handleHover SelNone ''a''
       (reconcile exRand [cA, cB] (mount 1000 800))))) = [7, 6, 8, 20, 19, 21]
   \<and> pendingTimers (handleHover SelNone ''b'' (maybeUnfocus (handleHover SelNone ''a''
       (reconcile exRand [cA, cB] (mount 1000 800))))) = []"
  by (simp add: reconcile_mount_AB hover_a hover_b hover_b_late)
     (simp add: hoverAB_def sceneAB_def mount_def initialStore_def lookupPlanet_def planetSize_def
        orZero_def minRadius_def largeMaxRadius_def maxRadius_def focusScale_def)

text \<open>
  Claim C4 (the code departs from it). After the feed \<open>[cA, cB, cC]\<close> the rings of
  \<open>web\<close>, \<open>db\<close> and \<open>cache\<close> have the radii of the indices 0, 1 and 2. The next feed
  \<open>[cC, cD]\<close> has two groups: the ring of \<open>cache\<close>, now of index 0, keeps the radius
  216 of index 2, and the new ring of \<open>queue\<close> gets the radius 156 of index 1, so the
  radii decrease along the ordinal index. The policy gives 96 for index 0 of 2.
\<close>

theorem refresh_keeps_old_radius:
  "map (\<lambda>e. (fst e, orbitRadius (snd e)))
       (groupOrbits (reconcile exRand [cC, cD]
          (reconcile exRand [cA, cB, cC] (mount 1000 800))))
     = [(''cache'', 216), (''queue'', 156)]
   \<and> calculateOrbitRadius (Some (1000, 800)) 0 2 = 96
   \<and> calculateOrbitRadius (Some (1000, 800)) 1 2 = 156"
  by (simp add: reconcile_mount_ABC refresh_CD)
     (simp add: sceneCD_def calculateOrbitRadius_def)

text \<open>
  Claim C7 (the code departs from it). Body \<open>a\<close>, alone in its group, is pinned, and the
  next feed is \<open>[cB]\<close>. The loop that removes the ring of \<open>web\<close> does not unfocus: the
  selection is still the pinned \<open>a\<close>, the focused id is still \<open>a\<close>, and the sprite,
  glow and rim glow of \<open>a\<close> (objects 6, 7, 8) are still in the focus layer and its
  particles (9 to 14) in the base layer.
  When \<open>a\<close> shares its group with \<open>e\<close> and the next feed is \<open>[cE]\<close>, the loop that removes
  the planets of a surviving ring does unfocus: the selection becomes none, the planet of
  \<open>a\<close> is dropped and \<open>e\<close> keeps its angle. The display objects of \<open>a\<close> are back in the
  base layer and stay there, with its particles.
\<close>

theorem removed_group_keeps_pin:
  "selection (store (reconcile exRand [cB] (handleClick ''a'' cA
       (reconcile exRand [cA, cB] (mount 1000 800))))) = SelPlanet ''a'' cA True
   \<and> focusedPlanetId (reconcile exRand [cB] (handleClick ''a'' cA
       (reconcile exRand [cA, cB] (mount 1000 800)))) = Some ''a''
   \<and> map fst (groupOrbits (reconcile exRand [cB] (handleClick ''a'' cA
       (reconcile exRand [cA, cB] (mount 1000 800))))) = [''db'']
   \<and> focusLayer (reconcile exRand [cB] (handleClick ''a'' cA
       (reconcile exRand [cA, cB] (mount 1000 800)))) = [7, 6, 8]
   \<and> baseLayer (reconcile exRand [cB] (handleClick ''a'' cA
       (reconcile exRand [cA, cB] (mount 1000 800))))
       = [0, 1, 2, 3, 4, 5, 9, 10, 11, 12, 13, 14, 15, 16, 17, 18, 20, 19, 21]
   \<and> selection (store (reconcile exRand [cE] (handleClick ''a'' cA
       (reconcile exRand [cA, cE] (mount 1000 800))))) = SelNone
   \<and> focusedPlanetId (reconcile exRand [cE] (handleClick ''a'' cA
       (reconcile exRand [cA, cE] (mount 1000 800)))) = None
   \<and> lookupPlanet (reconcile exRand [cE] (handleClick ''a'' cA
       (reconcile exRand [cA, cE] (mount 1000 800)))) ''web'' ''a'' = None
   \<and> map_option angle (lookupPlanet (reconcile exRand [cE] (handleClick ''a'' cA
       (reconcile exRand [cA, cE] (mount 1000 800)))) ''web'' ''e'')
       = map_option angle (lookupPlanet (reconcile exRand [cA, cE] (mount 1000 800)) ''web'' ''e'')
   \<and> focusLayer (reconcile exRand [cE] (handleClick ''a'' cA
       (reconcile exRand [cA, cE] (mount 1000 800)))) = []
   \<and> baseLayer (reconcile exRand [cE] (handleClick ''a'' cA
       (reconcile exRand [cA, cE] (mount 1000 800))))
       = [0, 1, 2, 3, 4, 5, 9, 10, 11, 12, 13, 14, 16, 15, 17, 7, 6, 8]"
  by (simp add: reconcile_mount_AB click_a refresh_without_a
        reconcile_mount_AE click_a_AE refresh_without_a_AE)
     (simp add: afterRemoval_def afterLeave_def sceneAE_def lookupPlanet_def)

text \<open>
  Claim C9 (the code departs from it). Body \<open>a\<close> has a load of 80 and six particles
  (objects 9 to 14) in the base layer. In the next feed its load is 10: the planet's
  particle list becomes empty, but the six objects are still children of the base layer,
  since they are removed from the stage, whose child they are not.
\<close>

theorem particles_stay_in_base_layer:
  "map_option particles (lookupPlanet (reconcile exRand [cA, cB] (mount 1000 800)) ''web'' ''a'')
     = Some [9, 10, 11, 12, 13, 14]
   \<and> map_option particles (lookupPlanet (reconcile exRand [cA', cB]
         (reconcile exRand [cA, cB] (mount 1000 800))) ''web'' ''a'') = Some []
   \<and> baseLayer (reconcile exRand [cA', cB] (reconcile exRand [cA, cB] (mount 1000 800)))
     = [0, 1, 2, 3, 4, 5, 7, 6, 8, 9, 10, 11, 12, 13, 14, 15, 16, 17, 18, 20, 19, 21]
   \<and> stage (reconcile exRand [cA', cB] (reconcile exRand [cA, cB] (mount 1000 800))) = []"
  by (simp add: reconcile_mount_AB refresh_cool)
     (simp add: sceneAB_def sceneCool_def lookupPlanet_def)

lemma ex_containers_m [simp]:
  "idC cAdb = ''a''" "state cAdb = ''running''" "cpuPercent cAdb = Some 80"
  "memoryPercent cAdb = Some 100" "group cAdb = ''db''"
  "key gDbBA = ''db''" "containers gDbBA = [cB, cAdb]"
  by (simp_all add: cAdb_def gDbBA_def)

lemma ex_feeds_m:
  "groupContainers [cB, cA, cE] = [gDb, gWebAE]"
  "groupContainers [cB, cAdb, cE] = [gDbBA, gWebE]"
  by (simp_all add: groupContainers_eq members_def mkGroup_def ex_titles getDominantState_def
        gDb_def gWebAE_def gDbBA_def gWebE_def)

lemma reconcile_mount_BAE: "reconcile exRand [cB, cA, cE] (mount 1000 800) = sceneBAE"
  by (simp add: sceneBAE_def mount_def ex_feeds_m reconcile_defs layer_defs Let_def upt_rec
        cong: let_weak_cong)

lemma click_a_BAE: "handleClick ''a'' cA sceneBAE = pinnedBAE"
  by (simp add: pinnedBAE_def sceneBAE_def focus_defs move_defs Let_def cong: let_weak_cong)

lemma refresh_moved_once: "reconcile exRand [cB, cAdb, cE] pinnedBAE = movedOnce"
  by (simp add: movedOnce_def pinnedBAE_def ex_feeds_m reconcile_defs focus_defs move_defs
        layer_defs Let_def upt_rec cong: let_weak_cong)

lemma refresh_moved_twice: "reconcile exRand [cB, cAdb, cE] movedOnce = movedTwice"
  by (simp add: movedTwice_def movedOnce_def ex_feeds_m reconcile_defs focus_defs move_defs
        layer_defs Let_def upt_rec cong: let_weak_cong)

text \<open>
  Claim C1 (the code departs from it). Body \<open>a\<close> of group \<open>web\<close> is pinned, and the next
  feed \<open>[cB, cAdb, cE]\<close>, whose ids are distinct, has \<open>a\<close> in group \<open>db\<close>. The first
  refresh creates a body for \<open>a\<close> in the ring of \<open>db\<close> and, the focused id being still
  \<open>a\<close>, gives its sprite the focus scale (width 36) in the base layer; the diff of the
  ring of \<open>web\<close> then unfocuses and restores the size of the stale body. After the first
  refresh nothing is focused or selected and the new body of \<open>a\<close> is 36 wide. The second
  refresh with the same feed sets its width to 24: the scene after the second call is not
  the scene after the first.
\<close>

theorem second_refresh_resizes_moved_body:
  "distinct (map idC [cB, cAdb, cE])
   \<and> focusedPlanetId (reconcile exRand [cB, cAdb, cE] (handleClick ''a'' cA
         (reconcile exRand [cB, cA, cE] (mount 1000 800)))) = None
   \<and> selection (store (reconcile exRand [cB, cAdb, cE] (handleClick ''a'' cA
         (reconcile exRand [cB, cA, cE] (mount 1000 800))))) = SelNone
   \<and> focusLayer (reconcile exRand [cB, cAdb, cE] (handleClick ''a'' cA
         (reconcile exRand [cB, cA, cE] (mount 1000 800)))) = []
   \<and> map_option spriteWidth (lookupPlanet (reconcile exRand [cB, cAdb, cE]
         (handleClick ''a'' cA (reconcile exRand [cB, cA, cE] (mount 1000 800)))) ''db'' ''a'')
       = Some 36
   \<and> map_option spriteWidth (lookupPlanet (reconcile exRand [cB, cAdb, cE]
         (reconcile exRand [cB, cAdb, cE]
           (handleClick ''a'' cA (reconcile exRand [cB, cA, cE] (mount 1000 800))))) ''db'' ''a'')
       = Some 24
   \<and> planetSize cAdb * 2 = 24
   \<and> reconcile exRand [cB, cAdb, cE] (reconcile exRand [cB, cAdb, cE]
         (handleClick ''a'' cA (reconcile exRand [cB, cA, cE] (mount 1000 800))))
       \<noteq> reconcile exRand [cB, cAdb, cE]
             (handleClick ''a'' cA (reconcile exRand [cB, cA, cE] (mount 1000 800)))"
  by (simp add: reconcile_mount_BAE click_a_BAE refresh_moved_once refresh_moved_twice)
     (simp add: movedOnce_def movedTwice_def lookupPlanet_def planetSize_def orZero_def
        minRadius_def largeMaxRadius_def maxRadius_def)

section \<open>Rings and planets as maps\<close>


lemma map_of_map_entry_if:
  "map_of (AList.map_entry k f al) k' = (if k' = k then map_option f (map_of al k) else map_of al k')"
  by (simp add: map_of_map_entry split: option.splits)

lemma map_of_update_if:
  "map_of (AList.update k v al) k' = (if k' = k then Some v else map_of al k')"
  by (simp add: update_conv')

lemma map_of_delete_if:
  "map_of (AList.delete k al) k' = (if k' = k then None else map_of al k')"
  by (simp add: delete_conv')

lemma keys_delete: "fst ` set (AList.delete k al) = fst ` set al - {k}"
proof -
  have "set (map fst (AList.delete k al)) = set (map fst al) - {k}"
    by (simp add: delete_keys)
  then show ?thesis by simp
qed

lemmas alist_simps = map_of_map_entry_if map_of_update_if map_of_delete_if keys_delete
  dom_update dom_map_entry

lemma in_keys_iff: "k \<in> fst ` set al \<longleftrightarrow> (\<exists>v. map_of al k = Some v)"
  using map_of_eq_None_iff [of al k] by auto

lemma lookupPlanet_plook: "lookupPlanet s k i = plook (groupOrbits s) k i"
  by (simp add: lookupPlanet_def plook_def)

lemma pkeys_iff: "i \<in> pkeys al k \<longleftrightarrow> plook al k i \<noteq> None"
  by (auto simp: pkeys_def plook_def in_keys_iff split: option.splits)

lemma planetKeys_iff: "i \<in> planetKeys s k \<longleftrightarrow> lookupPlanet s k i \<noteq> None"
  by (simp add: lookupPlanet_plook pkeys_iff)

lemma ringKeys_iff: "k \<in> ringKeys s \<longleftrightarrow> map_of (groupOrbits s) k \<noteq> None"
  by (simp add: map_of_eq_None_iff)

lemma pkeys_subset_ring: "map_of al k = None \<Longrightarrow> pkeys al k = {}"
  by (simp add: pkeys_def)

text \<open>A change of one planet of one ring.\<close>

lemma pkeys_map_planet [simp]:
  "pkeys (AList.map_entry k (\<lambda>go. go\<lparr>planets := AList.map_entry i f (planets go)\<rparr>) al) k'
     = pkeys al k'"
  by (simp add: pkeys_def map_of_map_entry_if dom_map_entry split: option.splits)

lemma plook_map_planet:
  "plook (AList.map_entry k (\<lambda>go. go\<lparr>planets := AList.map_entry i f (planets go)\<rparr>) al) k' i'
     = (if k' = k \<and> i' = i then map_option f (plook al k i) else plook al k' i')"
  by (simp add: plook_def map_of_map_entry_if split: option.splits)

text \<open>A change of a ring that leaves its planets alone.\<close>

lemma pkeys_map_ring [simp]:
  "(\<And>go. planets (f go) = planets go) \<Longrightarrow> pkeys (AList.map_entry k f al) k' = pkeys al k'"
  by (simp add: pkeys_def map_of_map_entry_if split: option.splits)

lemma plook_map_ring [simp]:
  "(\<And>go. planets (f go) = planets go) \<Longrightarrow> plook (AList.map_entry k f al) k' i = plook al k' i"
  by (simp add: plook_def map_of_map_entry_if split: option.splits)

text \<open>Deleting a planet of a ring.\<close>

lemma pkeys_delete_planet:
  "pkeys (AList.map_entry k (\<lambda>go. go\<lparr>planets := AList.delete i (planets go)\<rparr>) al) k'
     = (if k' = k then pkeys al k - {i} else pkeys al k')"
  by (simp add: pkeys_def map_of_map_entry_if keys_delete split: option.splits)

lemma plook_delete_planet:
  "plook (AList.map_entry k (\<lambda>go. go\<lparr>planets := AList.delete i (planets go)\<rparr>) al) k' i'
     = (if k' = k \<and> i' = i then None else plook al k' i')"
  by (simp add: plook_def map_of_map_entry_if map_of_delete_if split: option.splits)

text \<open>Adding a planet to an existing ring.\<close>

lemma pkeys_add_planet:
  "map_of al k \<noteq> None \<Longrightarrow>
   pkeys (AList.map_entry k (\<lambda>go. go\<lparr>planets := AList.update i p (planets go)\<rparr>) al) k'
     = (if k' = k then insert i (pkeys al k) else pkeys al k')"
  by (auto simp: pkeys_def map_of_map_entry_if dom_update split: option.splits)

lemma plook_add_planet:
  "map_of al k \<noteq> None \<Longrightarrow>
   plook (AList.map_entry k (\<lambda>go. go\<lparr>planets := AList.update i p (planets go)\<rparr>) al) k' i'
     = (if k' = k \<and> i' = i then Some p else plook al k' i')"
  by (auto simp: plook_def map_of_map_entry_if map_of_update_if split: option.splits)

text \<open>Adding or replacing a ring, deleting a ring.\<close>

lemma pkeys_update_ring:
  "pkeys (AList.update k go al) k' = (if k' = k then fst ` set (planets go) else pkeys al k')"
  by (simp add: pkeys_def map_of_update_if)

lemma plook_update_ring:
  "plook (AList.update k go al) k' i = (if k' = k then map_of (planets go) i else plook al k' i)"
  by (simp add: plook_def map_of_update_if)

lemma pkeys_delete_ring:
  "pkeys (AList.delete k al) k' = (if k' = k then {} else pkeys al k')"
  by (simp add: pkeys_def map_of_delete_if)

lemma plook_delete_ring:
  "plook (AList.delete k al) k' i = (if k' = k then None else plook al k' i)"
  by (simp add: plook_def map_of_delete_if)

subsection \<open>Further frame lemmas\<close>

lemma foldl_removeChild_frame [simp]:
  "screen (foldl (\<lambda>s' x. removeChild l x s') s xs) = screen s"
  "groupOrbits (foldl (\<lambda>s' x. removeChild l x s') s xs) = groupOrbits s"
  "focusedPlanetId (foldl (\<lambda>s' x. removeChild l x s') s xs) = focusedPlanetId s"
  "store (foldl (\<lambda>s' x. removeChild l x s') s xs) = store s"
  "nextObj (foldl (\<lambda>s' x. removeChild l x s') s xs) = nextObj s"
  "randCount (foldl (\<lambda>s' x. removeChild l x s') s xs) = randCount s"
  by (induction xs arbitrary: s; simp)+

lemma foldl_addChild_frame [simp]:
  "screen (foldl (\<lambda>s' x. addChild l x s') s xs) = screen s"
  "groupOrbits (foldl (\<lambda>s' x. addChild l x s') s xs) = groupOrbits s"
  "focusedPlanetId (foldl (\<lambda>s' x. addChild l x s') s xs) = focusedPlanetId s"
  "store (foldl (\<lambda>s' x. addChild l x s') s xs) = store s"
  "nextObj (foldl (\<lambda>s' x. addChild l x s') s xs) = nextObj s"
  "randCount (foldl (\<lambda>s' x. addChild l x s') s xs) = randCount s"
  by (induction xs arbitrary: s; simp)+

lemma stageRemovePlanet_frame [simp]:
  "screen (stageRemovePlanet p s) = screen s"
  "groupOrbits (stageRemovePlanet p s) = groupOrbits s"
  "focusedPlanetId (stageRemovePlanet p s) = focusedPlanetId s"
  "store (stageRemovePlanet p s) = store s"
  "nextObj (stageRemovePlanet p s) = nextObj s"
  "randCount (stageRemovePlanet p s) = randCount s"
  by (simp_all add: stageRemovePlanet_def)

lemma groupOrbits_modifyOrbit [simp]:
  "groupOrbits (modifyOrbit k f s) = AList.map_entry k f (groupOrbits s)"
  by (simp add: modifyOrbit_def)

lemma groupOrbits_modifyPlanet [simp]:
  "groupOrbits (modifyPlanet k i f s) =
     AList.map_entry k (\<lambda>go. go\<lparr>planets := AList.map_entry i f (planets go)\<rparr>) (groupOrbits s)"
  by (simp add: modifyPlanet_def)

text \<open>What \<open>unfocusPlanet\<close> does to the focus and to the rings.\<close>

lemma unfocusPlanet_cases:
  "unfocusPlanet s = s
   \<or> (\<exists>pid. focusedPlanetId s = Some pid \<and> focusedPlanetId (unfocusPlanet s) = None
        \<and> (groupOrbits (unfocusPlanet s) = groupOrbits s
            \<or> (\<exists>k. groupOrbits (unfocusPlanet s) =
                  AList.map_entry k
                    (\<lambda>go. go\<lparr>planets := AList.map_entry pid (scaleSprite (\<lambda>w. w / focusScale))
                                           (planets go)\<rparr>)
                    (groupOrbits s))))"
  by (auto simp: unfocusPlanet_def Let_def split: option.splits prod.splits)

lemma unfocusPlanet_focus:
  "focusedPlanetId (unfocusPlanet s) = focusedPlanetId s \<or> focusedPlanetId (unfocusPlanet s) = None"
  using unfocusPlanet_cases [of s] by auto

lemma unfocusPlanet_rings:
  "groupOrbits (unfocusPlanet s) = groupOrbits s
   \<or> (\<exists>k pid. groupOrbits (unfocusPlanet s) =
          AList.map_entry k
            (\<lambda>go. go\<lparr>planets := AList.map_entry pid (scaleSprite (\<lambda>w. w / focusScale))
                                   (planets go)\<rparr>)
            (groupOrbits s))"
  using unfocusPlanet_cases [of s] by metis

lemma unfocusPlanet_keys [simp]:
  "ringKeys (unfocusPlanet s) = ringKeys s"
  "planetKeys (unfocusPlanet s) k = planetKeys s k"
proof -
  show "ringKeys (unfocusPlanet s) = ringKeys s"
    using unfocusPlanet_rings [of s]
    by (elim disjE exE) (simp_all add: dom_map_entry)
  show "planetKeys (unfocusPlanet s) k = planetKeys s k"
    using unfocusPlanet_rings [of s]
    by (elim disjE exE) simp_all
qed

section \<open>What reconciliation does to the keys of rings and planets\<close>

lemma foldl_stageRemovePlanet_frame [simp]:
  "screen (foldl (\<lambda>s' e. stageRemovePlanet (snd e) s') s es) = screen s"
  "groupOrbits (foldl (\<lambda>s' e. stageRemovePlanet (snd e) s') s es) = groupOrbits s"
  "focusedPlanetId (foldl (\<lambda>s' e. stageRemovePlanet (snd e) s') s es) = focusedPlanetId s"
  "store (foldl (\<lambda>s' e. stageRemovePlanet (snd e) s') s es) = store s"
  "nextObj (foldl (\<lambda>s' e. stageRemovePlanet (snd e) s') s es) = nextObj s"
  "randCount (foldl (\<lambda>s' e. stageRemovePlanet (snd e) s') s es) = randCount s"
  by (induction es arbitrary: s; simp)+

lemma removeGroupOrbit_frame [simp]:
  "screen (removeGroupOrbit k go s) = screen s"
  "groupOrbits (removeGroupOrbit k go s) = AList.delete k (groupOrbits s)"
  "focusedPlanetId (removeGroupOrbit k go s) = focusedPlanetId s"
  "store (removeGroupOrbit k go s) = store s"
  "nextObj (removeGroupOrbit k go s) = nextObj s"
  "randCount (removeGroupOrbit k go s) = randCount s"
  by (simp_all add: removeGroupOrbit_def Let_def split: option.splits)

lemma staleStep_frame [simp]:
  "screen (staleStep groups s e) = screen s"
  "focusedPlanetId (staleStep groups s e) = focusedPlanetId s"
  "store (staleStep groups s e) = store s"
  "nextObj (staleStep groups s e) = nextObj s"
  "randCount (staleStep groups s e) = randCount s"
  by (simp_all add: staleStep_def)

lemma delete_filter: "AList.delete k al = filter (\<lambda>e. fst e \<noteq> k) al"
  by (induction al) auto

lemma foldl_staleStep:
  "screen (foldl (staleStep groups) s es) = screen s
   \<and> focusedPlanetId (foldl (staleStep groups) s es) = focusedPlanetId s
   \<and> store (foldl (staleStep groups) s es) = store s
   \<and> nextObj (foldl (staleStep groups) s es) = nextObj s
   \<and> randCount (foldl (staleStep groups) s es) = randCount s
   \<and> groupOrbits (foldl (staleStep groups) s es) =
       filter (\<lambda>e. fst e \<in> key ` set groups \<or> fst e \<notin> fst ` set es) (groupOrbits s)"
proof (induction es arbitrary: s)
  case Nil
  show ?case by simp
next
  case (Cons e es)
  have g: "groupOrbits (staleStep groups s e) =
           filter (\<lambda>x. fst x \<in> key ` set groups \<or> fst x \<noteq> fst e) (groupOrbits s)"
  proof (cases "fst e \<in> key ` set groups")
    case True
    then have "filter (\<lambda>x. fst x \<in> key ` set groups \<or> fst x \<noteq> fst e) (groupOrbits s) = groupOrbits s"
      by (intro filter_True) auto
    with True show ?thesis by (simp add: staleStep_def)
  next
    case False
    then have "filter (\<lambda>x. fst x \<in> key ` set groups \<or> fst x \<noteq> fst e) (groupOrbits s)
             = filter (\<lambda>x. fst x \<noteq> fst e) (groupOrbits s)"
      by (intro filter_cong) auto
    with False show ?thesis by (simp add: staleStep_def delete_filter)
  qed
  show ?case
    using Cons.IH [of "staleStep groups s e"]
    by (simp add: g) (rule filter_cong, auto)
qed

lemma removeStaleGroupOrbits_eq:
  "removeStaleGroupOrbits groups s = foldl (staleStep groups) s (groupOrbits s)"
  by (simp add: removeStaleGroupOrbits_def staleStep_def [abs_def])

lemma removeStaleGroupOrbits_frame:
  "screen (removeStaleGroupOrbits groups s) = screen s"
  "focusedPlanetId (removeStaleGroupOrbits groups s) = focusedPlanetId s"
  "store (removeStaleGroupOrbits groups s) = store s"
  "nextObj (removeStaleGroupOrbits groups s) = nextObj s"
  "randCount (removeStaleGroupOrbits groups s) = randCount s"
  "groupOrbits (removeStaleGroupOrbits groups s) =
     filter (\<lambda>e. fst e \<in> key ` set groups) (groupOrbits s)"
proof -
  note f = foldl_staleStep [of groups s "groupOrbits s"]
  show "screen (removeStaleGroupOrbits groups s) = screen s"
    "focusedPlanetId (removeStaleGroupOrbits groups s) = focusedPlanetId s"
    "store (removeStaleGroupOrbits groups s) = store s"
    "nextObj (removeStaleGroupOrbits groups s) = nextObj s"
    "randCount (removeStaleGroupOrbits groups s) = randCount s"
    using f by (simp_all add: removeStaleGroupOrbits_eq)
  have "filter (\<lambda>e. fst e \<in> key ` set groups \<or> fst e \<notin> fst ` set (groupOrbits s)) (groupOrbits s)
        = filter (\<lambda>e. fst e \<in> key ` set groups) (groupOrbits s)"
    by (rule filter_cong) auto
  then show "groupOrbits (removeStaleGroupOrbits groups s) =
     filter (\<lambda>e. fst e \<in> key ` set groups) (groupOrbits s)"
    using f by (simp add: removeStaleGroupOrbits_eq)
qed

lemma map_of_filter_keys:
  "map_of (filter (\<lambda>e. P (fst e)) al) k = (if P k then map_of al k else None)"
  by (induction al) auto

lemma createGroupOrbit_frame [simp]:
  "screen (createGroupOrbit rand n i g s) = screen s"
  "focusedPlanetId (createGroupOrbit rand n i g s) = focusedPlanetId s"
  "store (createGroupOrbit rand n i g s) = store s"
  by (simp_all add: createGroupOrbit_def Let_def)

lemma createGroupOrbit_rings:
  "groupOrbits (createGroupOrbit rand n i g s) =
     AList.update (key g)
       \<lparr>orbitGroup = g, orbitRadius = calculateOrbitRadius (screen s) i n,
        orbitLine = nextObj s, orbitGlow = nextObj s + 1, labelText = Some (nextObj s + 2),
        planets = [], randomStartAngle = rand (randCount s) * pi * 2,
        hitArea = nextObj s + 3\<rparr>
       (groupOrbits s)"
  by (simp add: createGroupOrbit_def Let_def)

lemma createGroupOrbit_keys:
  "ringKeys (createGroupOrbit rand n i g s) = insert (key g) (ringKeys s)"
  "planetKeys (createGroupOrbit rand n i g s) k = (if k = key g then {} else planetKeys s k)"
  by (simp_all add: createGroupOrbit_rings dom_update pkeys_update_ring)

lemma removeStalePlanet_frame [simp]:
  "screen (removeStalePlanet k ids s e) = screen s"
  by (simp add: removeStalePlanet_def Let_def)

lemma removeStalePlanet_focus:
  "focusedPlanetId (removeStalePlanet k ids s e) = focusedPlanetId s
   \<or> focusedPlanetId (removeStalePlanet k ids s e) = None"
  using unfocusPlanet_focus [of s] by (auto simp: removeStalePlanet_def Let_def)

lemma removeStalePlanet_keys:
  "ringKeys (removeStalePlanet k ids s e) = ringKeys s"
  "planetKeys (removeStalePlanet k ids s e) k' =
     (if fst e \<notin> set ids \<and> k' = k then planetKeys s k - {fst e} else planetKeys s k')"
  by (simp_all add: removeStalePlanet_def Let_def dom_map_entry pkeys_delete_planet)

lemma foldl_removeStalePlanet:
  "screen (foldl (removeStalePlanet k ids) s es) = screen s
   \<and> ringKeys (foldl (removeStalePlanet k ids) s es) = ringKeys s
   \<and> (\<forall>k'. planetKeys (foldl (removeStalePlanet k ids) s es) k' =
        (if k' = k then planetKeys s k - (fst ` set es - set ids) else planetKeys s k'))"
proof (induction es arbitrary: s)
  case Nil
  show ?case by simp
next
  case (Cons e es)
  show ?case
    using Cons.IH [of "removeStalePlanet k ids s e"]
    by (auto simp: removeStalePlanet_keys)
qed

lemma removeStalePlanets_keys:
  "screen (removeStalePlanets g s) = screen s"
  "ringKeys (removeStalePlanets g s) = ringKeys s"
  "planetKeys (removeStalePlanets g s) k' =
     (if k' = key g then planetKeys s (key g) \<inter> idC ` set (containers g) else planetKeys s k')"
proof -
  show "screen (removeStalePlanets g s) = screen s"
    using foldl_removeStalePlanet by (simp add: removeStalePlanets_def split: option.splits)
  show "ringKeys (removeStalePlanets g s) = ringKeys s"
    using foldl_removeStalePlanet by (simp add: removeStalePlanets_def split: option.splits)
  show "planetKeys (removeStalePlanets g s) k' =
     (if k' = key g then planetKeys s (key g) \<inter> idC ` set (containers g) else planetKeys s k')"
  proof (cases "map_of (groupOrbits s) (key g)")
    case None
    then show ?thesis by (simp add: removeStalePlanets_def pkeys_def)
  next
    case (Some go)
    then have pk: "planetKeys s (key g) = fst ` set (planets go)" by (simp add: pkeys_def)
    show ?thesis
      using foldl_removeStalePlanet [of "key g" "map idC (containers g)" s "planets go"] Some
      by (auto simp: removeStalePlanets_def pk)
  qed
qed


lemma createPlanet_frame [simp]:
  "screen (createPlanet g i c s) = screen s"
  "focusedPlanetId (createPlanet g i c s) = focusedPlanetId s"
  "store (createPlanet g i c s) = store s"
  "randCount (createPlanet g i c s) = randCount s"
  by (simp_all add: createPlanet_def Let_def split: option.splits)

lemma createPlanet_keys:
  "ringKeys (createPlanet g i c s) = ringKeys s"
  "key g \<in> ringKeys s \<Longrightarrow>
     planetKeys (createPlanet g i c s) k =
       (if k = key g then insert (idC c) (planetKeys s (key g)) else planetKeys s k)"
proof -
  show "ringKeys (createPlanet g i c s) = ringKeys s"
    by (simp add: createPlanet_def Let_def dom_map_entry split: option.splits)
  assume "key g \<in> ringKeys s"
  then obtain go where go: "map_of (groupOrbits s) (key g) = Some go"
    by (auto simp: in_keys_iff)
  then show "planetKeys (createPlanet g i c s) k =
       (if k = key g then insert (idC c) (planetKeys s (key g)) else planetKeys s k)"
    by (simp add: createPlanet_def Let_def pkeys_add_planet)
qed

lemma updateParticles_frame [simp]:
  "screen (updateParticles k c s) = screen s"
  "focusedPlanetId (updateParticles k c s) = focusedPlanetId s"
  "store (updateParticles k c s) = store s"
  "randCount (updateParticles k c s) = randCount s"
  by (simp_all add: updateParticles_def Let_def split: option.splits)

lemma updateParticles_keys [simp]:
  "ringKeys (updateParticles k c s) = ringKeys s"
  "planetKeys (updateParticles k c s) k' = planetKeys s k'"
  by (simp_all add: updateParticles_def Let_def dom_map_entry split: option.splits)

lemma reconcileContainer_frame [simp]:
  "screen (reconcileContainer g i c s) = screen s"
  "focusedPlanetId (reconcileContainer g i c s) = focusedPlanetId s"
  "store (reconcileContainer g i c s) = store s"
  "randCount (reconcileContainer g i c s) = randCount s"
  by (simp_all add: reconcileContainer_def Let_def split: option.splits)

lemma reconcileContainer_keys:
  "ringKeys (reconcileContainer g i c s) = ringKeys s"
  "key g \<in> ringKeys s \<Longrightarrow>
     planetKeys (reconcileContainer g i c s) k =
       (if k = key g then insert (idC c) (planetKeys s (key g)) else planetKeys s k)"
proof -
  show "ringKeys (reconcileContainer g i c s) = ringKeys s"
    by (simp add: reconcileContainer_def Let_def dom_map_entry createPlanet_keys
          split: option.splits)
  assume r: "key g \<in> ringKeys s"
  show "planetKeys (reconcileContainer g i c s) k =
       (if k = key g then insert (idC c) (planetKeys s (key g)) else planetKeys s k)"
  proof (cases "lookupPlanet s (key g) (idC c)")
    case None
    then show ?thesis
      using r by (simp add: reconcileContainer_def Let_def createPlanet_keys)
  next
    case (Some p)
    then have "idC c \<in> planetKeys s (key g)" by (simp add: planetKeys_iff)
    with Some show ?thesis
      by (auto simp: reconcileContainer_def Let_def)
  qed
qed

lemma reconcileContainers_frame [simp]:
  "screen (reconcileContainers g i cs s) = screen s"
  "focusedPlanetId (reconcileContainers g i cs s) = focusedPlanetId s"
  "store (reconcileContainers g i cs s) = store s"
  "randCount (reconcileContainers g i cs s) = randCount s"
  by (induction cs arbitrary: i s; simp)+

lemma reconcileContainers_keys:
  "ringKeys (reconcileContainers g i cs s) = ringKeys s"
  "key g \<in> ringKeys s \<Longrightarrow>
     planetKeys (reconcileContainers g i cs s) k =
       (if k = key g then idC ` set cs \<union> planetKeys s (key g) else planetKeys s k)"
proof -
  show rk: "ringKeys (reconcileContainers g i cs s) = ringKeys s" for i s
    by (induction cs arbitrary: i s) (simp_all add: reconcileContainer_keys)
  show "key g \<in> ringKeys s \<Longrightarrow>
     planetKeys (reconcileContainers g i cs s) k =
       (if k = key g then idC ` set cs \<union> planetKeys s (key g) else planetKeys s k)"
  proof (induction cs arbitrary: i s)
    case Nil
    show ?case by simp
  next
    case (Cons c cs)
    have "key g \<in> ringKeys (reconcileContainer g i c s)"
      using Cons.prems by (simp add: reconcileContainer_keys)
    from Cons.IH [OF this] Cons.prems show ?case
      by (auto simp: reconcileContainer_keys)
  qed
qed

lemma reconcileGroup_frame [simp]:
  "screen (reconcileGroup rand n i g s) = screen s"
  by (simp add: reconcileGroup_def Let_def removeStalePlanets_keys split: option.splits)

lemma reconcileGroup_keys:
  "ringKeys (reconcileGroup rand n i g s) = insert (key g) (ringKeys s)"
  "planetKeys (reconcileGroup rand n i g s) k =
     (if k = key g then idC ` set (containers g) else planetKeys s k)"
proof -
  define s1 where "s1 = (case map_of (groupOrbits s) (key g) of
                  None \<Rightarrow> createGroupOrbit rand n i g s | Some go \<Rightarrow> s)"
  define s2 where "s2 = modifyOrbit (key g) (\<lambda>go. go\<lparr>orbitGroup := g\<rparr>) s1"
  define s3 where "s3 = removeStalePlanets g s2"
  have r: "reconcileGroup rand n i g s = reconcileContainers g 0 (containers g) s3"
    by (simp add: reconcileGroup_def s1_def s2_def s3_def Let_def)
  have k1: "ringKeys s1 = insert (key g) (ringKeys s)"
    by (cases "map_of (groupOrbits s) (key g)")
       (auto simp: s1_def createGroupOrbit_keys in_keys_iff)
  have p1: "planetKeys s1 k = planetKeys s k" if "k \<noteq> key g" for k
    using that by (cases "map_of (groupOrbits s) (key g)") (simp_all add: s1_def createGroupOrbit_keys)
  have k2: "ringKeys s2 = ringKeys s1" "planetKeys s2 k = planetKeys s1 k" for k
    by (simp_all add: s2_def dom_map_entry)
  have k3: "ringKeys s3 = ringKeys s2"
    "planetKeys s3 k = (if k = key g then planetKeys s2 (key g) \<inter> idC ` set (containers g)
                        else planetKeys s2 k)" for k
    by (simp_all add: s3_def removeStalePlanets_keys)
  have in3: "key g \<in> ringKeys s3" by (simp add: k3 k2 k1)
  show "ringKeys (reconcileGroup rand n i g s) = insert (key g) (ringKeys s)"
    by (simp add: r reconcileContainers_keys k3 k2 k1)
  show "planetKeys (reconcileGroup rand n i g s) k =
     (if k = key g then idC ` set (containers g) else planetKeys s k)"
    using p1 [of k] by (auto simp: r reconcileContainers_keys(2) [OF in3] k3 k2)
qed

lemma reconcileGroups_frame [simp]:
  "screen (reconcileGroups rand n i gs s) = screen s"
  by (induction gs arbitrary: i s) simp_all

lemma reconcileGroups_keys:
  "ringKeys (reconcileGroups rand n i gs s) = key ` set gs \<union> ringKeys s"
  "distinct (map key gs) \<Longrightarrow>
     planetKeys (reconcileGroups rand n i gs s) k =
       (case find (\<lambda>g. key g = k) gs of
          Some g \<Rightarrow> idC ` set (containers g) | None \<Rightarrow> planetKeys s k)"
proof -
  show "ringKeys (reconcileGroups rand n i gs s) = key ` set gs \<union> ringKeys s"
    by (induction gs arbitrary: i s) (simp_all add: reconcileGroup_keys)
  show "distinct (map key gs) \<Longrightarrow>
     planetKeys (reconcileGroups rand n i gs s) k =
       (case find (\<lambda>g. key g = k) gs of
          Some g \<Rightarrow> idC ` set (containers g) | None \<Rightarrow> planetKeys s k)"
  proof (induction gs arbitrary: i s)
    case Nil
    show ?case by simp
  next
    case (Cons g gs)
    then have d: "distinct (map key gs)" and n: "key g \<notin> key ` set gs" by auto
    show ?case
    proof (cases "key g = k")
      case True
      then have "find (\<lambda>g. key g = k) gs = None"
        using n by (metis (mono_tags, lifting) find_None_iff imageI)
      with True show ?thesis
        using Cons.IH [OF d, of "Suc i" "reconcileGroup rand n i g s"]
        by (simp add: reconcileGroup_keys)
    next
      case False
      then have "planetKeys (reconcileGroup rand n i g s) k = planetKeys s k"
        by (simp add: reconcileGroup_keys)
      with False show ?thesis
        using Cons.IH [OF d, of "Suc i" "reconcileGroup rand n i g s"]
        by (simp split: option.splits)
    qed
  qed
qed

lemma find_distinct_key:
  "distinct (map f xs) \<Longrightarrow> x \<in> set xs \<Longrightarrow> find (\<lambda>y. f y = f x) xs = Some x"
  by (induction xs) (auto simp: rev_image_eqI)

lemma groupContainers_distinct: "distinct (map key (groupContainers cs))"
  by (simp add: groupContainers_eq mkGroup_def comp_def distinct_firstEncountered)

text \<open>After a reconciliation the rings are those of the groups and the planets of a ring
  those of the group's members.\<close>

lemma reconcile_in_sync:
  assumes "screen s = Some wh"
  shows "ringKeys (reconcile rand cs s) = key ` set (groupContainers cs)"
    and "g \<in> set (groupContainers cs) \<Longrightarrow>
         planetKeys (reconcile rand cs s) (key g) = idC ` set (containers g)"
proof -
  let ?gs = "groupContainers cs"
  let ?s0 = "removeStaleGroupOrbits ?gs s"
  have r: "reconcile rand cs s = reconcileGroups rand (length ?gs) 0 ?gs ?s0"
    using assms by (simp add: reconcile_def Let_def)
  have "ringKeys ?s0 \<subseteq> key ` set ?gs"
    by (auto simp: removeStaleGroupOrbits_frame)
  then show "ringKeys (reconcile rand cs s) = key ` set ?gs"
    by (auto simp: r reconcileGroups_keys)
  assume g: "g \<in> set ?gs"
  have d: "distinct (map key ?gs)" by (rule groupContainers_distinct)
  have "find (\<lambda>g'. key g' = key g) ?gs = Some g"
    using d g by (rule find_distinct_key)
  then show "planetKeys (reconcile rand cs s) (key g) = idC ` set (containers g)"
    by (simp add: r reconcileGroups_keys(2) [OF d])
qed


section \<open>Reconciling a scene that is in sync with the feed\<close>

lemma map_map_entry_same:
  "(\<And>v. h (f v) = h v) \<Longrightarrow>
     map (\<lambda>e. (fst e, h (snd e))) (AList.map_entry k f al) = map (\<lambda>e. (fst e, h (snd e))) al"
  by (induction al) auto

lemma map_of_keyed_map:
  "map_of (map (\<lambda>e. (fst e, h (snd e))) al) k = map_option h (map_of al k)"
  by (induction al) auto

lemma sceneCore_keys:
  assumes "sceneCore t = sceneCore s"
  shows "ringKeys t = ringKeys s" and "planetKeys t k = planetKeys s k"
proof -
  have "map fst (sceneCore t) = map fst (sceneCore s)" using assms by simp
  then have "map fst (groupOrbits t) = map fst (groupOrbits s)"
    by (simp add: sceneCore_def comp_def)
  then have "set (map fst (groupOrbits t)) = set (map fst (groupOrbits s))" by simp
  then show "ringKeys t = ringKeys s" by simp
  have "map_of (sceneCore t) k = map_of (sceneCore s) k" using assms by simp
  then have e: "map_option ringCore (map_of (groupOrbits t) k)
              = map_option ringCore (map_of (groupOrbits s) k)"
    by (simp add: sceneCore_def map_of_keyed_map)
  have f: "fst ` set (planets go) = fst ` set (snd (snd (snd (snd (snd (snd (ringCore go)))))))" for go
    by (simp add: ringCore_def image_image)
  show "planetKeys t k = planetKeys s k"
    using e by (cases "map_of (groupOrbits t) k"; cases "map_of (groupOrbits s) k")
               (simp_all add: pkeys_def f)
qed

lemma sceneCore_modifyOrbit:
  "(\<And>go. ringCore (f go) = ringCore go) \<Longrightarrow> sceneCore (modifyOrbit k f s) = sceneCore s"
  by (simp add: sceneCore_def map_map_entry_same)

lemma ringCore_planets_entry:
  "(\<And>p. planetCore (f p) = planetCore p) \<Longrightarrow>
     ringCore (go\<lparr>planets := AList.map_entry i f (planets go)\<rparr>) = ringCore go"
  by (simp add: ringCore_def map_map_entry_same)

lemma sceneCore_modifyPlanet:
  "(\<And>p. planetCore (f p) = planetCore p) \<Longrightarrow> sceneCore (modifyPlanet k i f s) = sceneCore s"
  by (simp add: modifyPlanet_def sceneCore_modifyOrbit ringCore_planets_entry)

lemma sceneCore_cong: "groupOrbits t = groupOrbits s \<Longrightarrow> sceneCore t = sceneCore s"
  by (simp add: sceneCore_def)

lemma sceneCore_updateParticles [simp]:
  "sceneCore (updateParticles k c s) = sceneCore s"
proof -
  have a: "map (\<lambda>e. (fst e, ringCore (snd e)))
             (AList.map_entry k
                (\<lambda>go. go\<lparr>planets := AList.map_entry i (\<lambda>q. q\<lparr>particles := ps\<rparr>) (planets go)\<rparr>) al)
           = map (\<lambda>e. (fst e, ringCore (snd e))) al" for i ps al
    by (intro map_map_entry_same ringCore_planets_entry) (simp add: planetCore_def)
  show ?thesis
    by (simp add: updateParticles_def Let_def sceneCore_def a split: option.splits)
qed

lemma foldl_same: "(\<And>x. x \<in> set xs \<Longrightarrow> f s x = s) \<Longrightarrow> foldl f s xs = s"
  by (induction xs) simp_all

lemma removeStalePlanets_in_sync:
  "planetKeys s (key g) \<subseteq> idC ` set (containers g) \<Longrightarrow> removeStalePlanets g s = s"
proof (cases "map_of (groupOrbits s) (key g)")
  case None
  then show ?thesis by (simp add: removeStalePlanets_def)
next
  case (Some go)
  assume "planetKeys s (key g) \<subseteq> idC ` set (containers g)"
  with Some have "fst ` set (planets go) \<subseteq> idC ` set (containers g)" by (simp add: pkeys_def)
  then have "foldl (removeStalePlanet (key g) (map idC (containers g))) s (planets go) = s"
    by (intro foldl_same) (auto simp: removeStalePlanet_def)
  with Some show ?thesis by (simp add: removeStalePlanets_def)
qed

lemma reconcileContainer_in_sync:
  assumes "idC c \<in> planetKeys s (key g)"
  shows "sceneCore (reconcileContainer g i c s) = sceneCore s"
    and "nextObj (reconcileContainer g i c s) = nextObj (updateParticles (key g) c
           (modifyPlanet (key g) (idC c) (setPlanetProps (focusedPlanetId s = Some (idC c)) c) s))"
proof -
  from assms obtain p where p: "lookupPlanet s (key g) (idC c) = Some p"
    by (auto simp: planetKeys_iff)
  have a: "sceneCore (modifyPlanet k j (setPlanetProps b c) t) = sceneCore t" for k j b t
    by (rule sceneCore_modifyPlanet) (simp add: planetCore_def setPlanetProps_def Let_def)
  show "sceneCore (reconcileContainer g i c s) = sceneCore s"
    using p by (simp add: reconcileContainer_def Let_def a)
  show "nextObj (reconcileContainer g i c s) = nextObj (updateParticles (key g) c
           (modifyPlanet (key g) (idC c) (setPlanetProps (focusedPlanetId s = Some (idC c)) c) s))"
    using p by (simp add: reconcileContainer_def Let_def)
qed

lemma reconcileContainers_in_sync:
  "idC ` set cs \<subseteq> planetKeys s (key g) \<Longrightarrow>
     sceneCore (reconcileContainers g i cs s) = sceneCore s"
proof (induction cs arbitrary: i s)
  case Nil
  show ?case by simp
next
  case (Cons c cs)
  have c: "sceneCore (reconcileContainer g i c s) = sceneCore s"
    using Cons.prems by (intro reconcileContainer_in_sync) simp
  have "idC ` set cs \<subseteq> planetKeys (reconcileContainer g i c s) (key g)"
    using Cons.prems sceneCore_keys(2) [OF c] by simp
  from Cons.IH [OF this] c show ?case by simp
qed

lemma reconcileGroup_in_sync:
  assumes "key g \<in> ringKeys s" and "planetKeys s (key g) = idC ` set (containers g)"
  shows "sceneCore (reconcileGroup rand n i g s) = sceneCore s"
    and "focusedPlanetId (reconcileGroup rand n i g s) = focusedPlanetId s"
    and "store (reconcileGroup rand n i g s) = store s"
    and "randCount (reconcileGroup rand n i g s) = randCount s"
proof -
  define s2 where "s2 = modifyOrbit (key g) (\<lambda>go. go\<lparr>orbitGroup := g\<rparr>) s"
  have c2: "sceneCore s2 = sceneCore s"
    unfolding s2_def by (rule sceneCore_modifyOrbit) (simp add: ringCore_def)
  have k2: "planetKeys s2 (key g) = idC ` set (containers g)"
    using assms(2) sceneCore_keys(2) [OF c2] by simp
  have s3: "removeStalePlanets g s2 = s2"
    by (rule removeStalePlanets_in_sync) (simp add: k2)
  from assms(1) obtain go where "map_of (groupOrbits s) (key g) = Some go"
    by (auto simp: in_keys_iff)
  then have r: "reconcileGroup rand n i g s = reconcileContainers g 0 (containers g) s2"
    by (simp add: reconcileGroup_def Let_def s2_def [symmetric] s3)
  show "sceneCore (reconcileGroup rand n i g s) = sceneCore s"
    using reconcileContainers_in_sync [of "containers g" s2 g 0] k2 c2 by (simp add: r)
  show "focusedPlanetId (reconcileGroup rand n i g s) = focusedPlanetId s"
    "store (reconcileGroup rand n i g s) = store s"
    "randCount (reconcileGroup rand n i g s) = randCount s"
    by (simp_all add: r s2_def)
qed

lemma reconcileGroups_in_sync:
  assumes "key ` set gs \<subseteq> ringKeys s"
    and "\<And>g. g \<in> set gs \<Longrightarrow> planetKeys s (key g) = idC ` set (containers g)"
  shows "sceneCore (reconcileGroups rand n i gs s) = sceneCore s
       \<and> focusedPlanetId (reconcileGroups rand n i gs s) = focusedPlanetId s
       \<and> store (reconcileGroups rand n i gs s) = store s
       \<and> randCount (reconcileGroups rand n i gs s) = randCount s"
  using assms
proof (induction gs arbitrary: i s)
  case Nil
  show ?case by simp
next
  case (Cons g gs)
  let ?t = "reconcileGroup rand n i g s"
  have g: "key g \<in> ringKeys s" "planetKeys s (key g) = idC ` set (containers g)"
    using Cons.prems by auto
  note f = reconcileGroup_in_sync [OF g, of rand n i]
  have k: "ringKeys ?t = ringKeys s" "\<And>k. planetKeys ?t k = planetKeys s k"
    using sceneCore_keys [OF f(1)] by auto
  have "sceneCore (reconcileGroups rand n (Suc i) gs ?t) = sceneCore ?t
       \<and> focusedPlanetId (reconcileGroups rand n (Suc i) gs ?t) = focusedPlanetId ?t
       \<and> store (reconcileGroups rand n (Suc i) gs ?t) = store ?t
       \<and> randCount (reconcileGroups rand n (Suc i) gs ?t) = randCount ?t"
    using Cons.prems by (intro Cons.IH) (auto simp: k)
  then show ?case by (simp add: f)
qed

lemma reconcile_in_sync_same:
  assumes "ringKeys s = key ` set (groupContainers cs)"
    and "\<And>g. g \<in> set (groupContainers cs) \<Longrightarrow> planetKeys s (key g) = idC ` set (containers g)"
  shows "sceneCore (reconcile rand cs s) = sceneCore s
       \<and> focusedPlanetId (reconcile rand cs s) = focusedPlanetId s
       \<and> store (reconcile rand cs s) = store s
       \<and> randCount (reconcile rand cs s) = randCount s"
proof (cases "screen s")
  case None
  then show ?thesis by (simp add: reconcile_def)
next
  case (Some wh)
  let ?gs = "groupContainers cs"
  let ?s0 = "removeStaleGroupOrbits ?gs s"
  have "filter (\<lambda>e. fst e \<in> key ` set ?gs) (groupOrbits s) = groupOrbits s"
    using assms(1) by (intro filter_True) auto
  then have g0: "groupOrbits ?s0 = groupOrbits s"
    by (simp add: removeStaleGroupOrbits_frame)
  have "sceneCore (reconcileGroups rand (length ?gs) 0 ?gs ?s0) = sceneCore ?s0
       \<and> focusedPlanetId (reconcileGroups rand (length ?gs) 0 ?gs ?s0) = focusedPlanetId ?s0
       \<and> store (reconcileGroups rand (length ?gs) 0 ?gs ?s0) = store ?s0
       \<and> randCount (reconcileGroups rand (length ?gs) 0 ?gs ?s0) = randCount ?s0"
    using assms by (intro reconcileGroups_in_sync) (simp_all add: g0)
  then show ?thesis
    using Some by (simp add: reconcile_def Let_def removeStaleGroupOrbits_frame sceneCore_cong [OF g0])
qed

section \<open>Bodies after a reconciliation\<close>

lemma fresh_unfocus_other:
  "fresh f0 (Some j) i p \<Longrightarrow> f0 = Some j \<Longrightarrow> fresh f0 None i p"
  by (auto simp: fresh_def split: if_splits)

lemma fresh_unfocus_scaled:
  "fresh f0 (Some i) i p \<Longrightarrow> f0 = Some i \<Longrightarrow>
     fresh f0 None i (scaleSprite (\<lambda>w. w / focusScale) p)"
  by (simp add: fresh_def scaleSprite_def focusScale_def)

lemma freshOn_subset:
  assumes "freshOn f0 s g I"
    and "focusedPlanetId s' = focusedPlanetId s"
    and "\<And>i p. i \<in> I \<Longrightarrow> lookupPlanet s' (key g) i = Some p \<Longrightarrow> lookupPlanet s (key g) i = Some p"
  shows "freshOn f0 s' g I"
  using assms unfolding freshOn_def by metis

lemma unfocusPlanet_fresh:
  assumes "freshOn f0 s g I" and "focusOk f0 s"
  shows "freshOn f0 (unfocusPlanet s) g I" and "focusOk f0 (unfocusPlanet s)"
proof -
  show "focusOk f0 (unfocusPlanet s)"
    using assms(2) unfocusPlanet_focus [of s] by (auto simp: focusOk_def)
  consider (same) "unfocusPlanet s = s"
    | (kept) pid where "focusedPlanetId s = Some pid" "focusedPlanetId (unfocusPlanet s) = None"
        "groupOrbits (unfocusPlanet s) = groupOrbits s"
    | (scaled) pid k where "focusedPlanetId s = Some pid" "focusedPlanetId (unfocusPlanet s) = None"
        "groupOrbits (unfocusPlanet s) =
           AList.map_entry k
             (\<lambda>go. go\<lparr>planets := AList.map_entry pid (scaleSprite (\<lambda>w. w / focusScale))
                                    (planets go)\<rparr>)
             (groupOrbits s)"
    using unfocusPlanet_cases [of s] by blast
  then show "freshOn f0 (unfocusPlanet s) g I"
  proof cases
    case same
    then show ?thesis using assms(1) by simp
  next
    case kept
    then have f0: "f0 = Some pid" using assms(2) by (simp add: focusOk_def)
    show ?thesis
      unfolding freshOn_def
    proof (intro ballI allI impI)
      fix i p assume i: "i \<in> I" and l: "lookupPlanet (unfocusPlanet s) (key g) i = Some p"
      then have "lookupPlanet s (key g) i = Some p"
        by (simp add: lookupPlanet_plook kept)
      with assms(1) i have "fresh f0 (Some pid) i p \<and> container p \<in> set (containers g)"
        by (simp add: freshOn_def kept)
      then show "fresh f0 (focusedPlanetId (unfocusPlanet s)) i p \<and> container p \<in> set (containers g)"
        using fresh_unfocus_other [OF _ f0] by (simp add: kept)
    qed
  next
    case scaled
    then have f0: "f0 = Some pid" using assms(2) by (simp add: focusOk_def)
    show ?thesis
      unfolding freshOn_def
    proof (intro ballI allI impI)
      fix i p assume i: "i \<in> I" and l: "lookupPlanet (unfocusPlanet s) (key g) i = Some p"
      show "fresh f0 (focusedPlanetId (unfocusPlanet s)) i p \<and> container p \<in> set (containers g)"
      proof (cases "key g = k \<and> i = pid")
        case True
        with l obtain q where q: "lookupPlanet s (key g) i = Some q"
          and p: "p = scaleSprite (\<lambda>w. w / focusScale) q"
          by (auto simp: lookupPlanet_plook scaled plook_map_planet)
        from assms(1) i q have "fresh f0 (Some pid) i q \<and> container q \<in> set (containers g)"
          by (simp add: freshOn_def scaled)
        with True show ?thesis
          using fresh_unfocus_scaled [of f0 i q] f0
          by (simp add: scaled p scaleSprite_def)
      next
        case False
        with l have "lookupPlanet s (key g) i = Some p"
          by (auto simp: lookupPlanet_plook scaled plook_map_planet split: if_splits)
        with assms(1) i have "fresh f0 (Some pid) i p \<and> container p \<in> set (containers g)"
          by (simp add: freshOn_def scaled)
        then show ?thesis
          using fresh_unfocus_other [OF _ f0] by (simp add: scaled)
      qed
    qed
  qed
qed

lemma removeStalePlanet_fresh:
  assumes "freshOn f0 s g I" and "focusOk f0 s"
  shows "freshOn f0 (removeStalePlanet k ids s e) g I \<and> focusOk f0 (removeStalePlanet k ids s e)"
proof (cases "fst e \<in> set ids")
  case True
  then show ?thesis using assms by (simp add: removeStalePlanet_def)
next
  case False
  define s1 where "s1 = (if focusedPlanetId s = Some (fst e) then unfocusPlanet s else s)"
  have a: "freshOn f0 s1 g I" "focusOk f0 s1"
    using assms unfocusPlanet_fresh [OF assms] by (auto simp: s1_def)
  have r: "removeStalePlanet k ids s e =
           modifyOrbit k (\<lambda>go. go\<lparr>planets := AList.delete (fst e) (planets go)\<rparr>)
             (stageRemovePlanet (snd e) s1)"
    using False by (simp add: removeStalePlanet_def Let_def s1_def)
  have "freshOn f0 (removeStalePlanet k ids s e) g I"
    using a(1)
  proof (rule freshOn_subset)
    show "focusedPlanetId (removeStalePlanet k ids s e) = focusedPlanetId s1"
      by (simp add: r)
    fix i p assume "lookupPlanet (removeStalePlanet k ids s e) (key g) i = Some p"
    then show "lookupPlanet s1 (key g) i = Some p"
      by (auto simp: r lookupPlanet_plook plook_delete_planet split: if_splits)
  qed
  moreover have "focusOk f0 (removeStalePlanet k ids s e)"
    using a(2) by (simp add: r focusOk_def)
  ultimately show ?thesis by simp
qed

lemma foldl_removeStalePlanet_fresh:
  "freshOn f0 s g I \<Longrightarrow> focusOk f0 s \<Longrightarrow>
     freshOn f0 (foldl (removeStalePlanet k ids) s es) g I
     \<and> focusOk f0 (foldl (removeStalePlanet k ids) s es)"
proof (induction es arbitrary: s)
  case Nil
  then show ?case by simp
next
  case (Cons e es)
  from removeStalePlanet_fresh [OF Cons.prems, of k ids e] Cons.IH show ?case by simp
qed

lemma removeStalePlanets_fresh:
  "freshOn f0 s g I \<Longrightarrow> focusOk f0 s \<Longrightarrow>
     freshOn f0 (removeStalePlanets g' s) g I \<and> focusOk f0 (removeStalePlanets g' s)"
  using foldl_removeStalePlanet_fresh
  by (simp add: removeStalePlanets_def split: option.splits)


lemma lookupPlanet_createGroupOrbit:
  "lookupPlanet (createGroupOrbit rand n i g s) k j =
     (if k = key g then None else lookupPlanet s k j)"
  by (simp add: lookupPlanet_plook createGroupOrbit_rings plook_update_ring)

lemma lookupPlanet_setGroup [simp]:
  "lookupPlanet (modifyOrbit k (\<lambda>go. go\<lparr>orbitGroup := g\<rparr>) s) k' j = lookupPlanet s k' j"
  by (simp add: lookupPlanet_plook)

lemma lookupPlanet_modifyPlanet:
  "lookupPlanet (modifyPlanet k i f s) k' i' =
     (if k' = k \<and> i' = i then map_option f (lookupPlanet s k i) else lookupPlanet s k' i')"
  by (simp add: lookupPlanet_plook plook_map_planet)

lemma lookupPlanet_createPlanet:
  "key g \<in> ringKeys s \<Longrightarrow>
   \<exists>a. lookupPlanet (createPlanet g i c s) k j =
     (if k = key g \<and> j = idC c
      then Some \<lparr>container = c, sprite = nextObj s, glow = nextObj s + 1, rimGlow = nextObj s + 2,
                 particles = [], angle = a, orbitSpeed = 0.1, spriteWidth = 64,
                 spriteHeight = 64\<rparr>
      else lookupPlanet s k j)"
  by (auto simp: in_keys_iff createPlanet_def Let_def lookupPlanet_plook plook_add_planet)

lemma lookupPlanet_updateParticles:
  "lookupPlanet (updateParticles k c s) k' j =
     (if k' = k \<and> j = idC c then map_option (adjustParticles c (nextObj s)) (lookupPlanet s k (idC c))
      else lookupPlanet s k' j)"
proof (cases "lookupPlanet s k (idC c)")
  case None
  then show ?thesis by (simp add: updateParticles_def)
next
  case (Some p)
  then show ?thesis
    by (simp add: updateParticles_def Let_def adjustParticles_def lookupPlanet_plook
          plook_map_planet)
qed

lemma fresh_after_update:
  "fresh f0 f (idC c) (adjustParticles c n (setPlanetProps (f = Some (idC c)) c p))"
  by (simp add: fresh_def adjustParticles_def setPlanetProps_def Let_def)

lemma reconcileContainer_lookup:
  assumes "key g \<in> ringKeys s"
  shows "\<exists>p. lookupPlanet (reconcileContainer g i c s) k j =
           (if k = key g \<and> j = idC c
            then Some (adjustParticles c (nextObj (case lookupPlanet s (key g) (idC c) of
                                                    None \<Rightarrow> createPlanet g i c s | Some q \<Rightarrow> s))
                        (setPlanetProps (focusedPlanetId s = Some (idC c)) c p))
            else lookupPlanet s k j)"
proof (cases "lookupPlanet s (key g) (idC c)")
  case None
  from lookupPlanet_createPlanet [OF assms, of i c "key g" "idC c"]
  obtain q where q: "lookupPlanet (createPlanet g i c s) (key g) (idC c) = Some q"
    by auto
  from lookupPlanet_createPlanet [OF assms, of i c k j]
  have o: "\<not> (k = key g \<and> j = idC c) \<Longrightarrow> lookupPlanet (createPlanet g i c s) k j = lookupPlanet s k j"
    by auto
  show ?thesis
    using None q o
    by (intro exI [of _ q])
       (auto simp: reconcileContainer_def Let_def lookupPlanet_updateParticles
          lookupPlanet_modifyPlanet)
next
  case (Some q)
  then show ?thesis
    by (intro exI [of _ q])
       (auto simp: reconcileContainer_def Let_def lookupPlanet_updateParticles
          lookupPlanet_modifyPlanet)
qed

lemma reconcileContainer_fresh:
  assumes "key g \<in> ringKeys s" and "freshOn f0 s g I" and "c \<in> set (containers g)"
  shows "freshOn f0 (reconcileContainer g i c s) g (insert (idC c) I)"
  unfolding freshOn_def
proof (intro ballI allI impI)
  fix j p
  assume j: "j \<in> insert (idC c) I"
    and l: "lookupPlanet (reconcileContainer g i c s) (key g) j = Some p"
  from reconcileContainer_lookup [OF assms(1), of i c "key g" j]
  obtain q where q: "lookupPlanet (reconcileContainer g i c s) (key g) j =
           (if j = idC c
            then Some (adjustParticles c (nextObj (case lookupPlanet s (key g) (idC c) of
                                                    None \<Rightarrow> createPlanet g i c s | Some q \<Rightarrow> s))
                        (setPlanetProps (focusedPlanetId s = Some (idC c)) c q))
            else lookupPlanet s (key g) j)"
    by auto
  show "fresh f0 (focusedPlanetId (reconcileContainer g i c s)) j p \<and> container p \<in> set (containers g)"
  proof (cases "j = idC c")
    case True
    with q l have p: "p = adjustParticles c (nextObj (case lookupPlanet s (key g) (idC c) of
                                                    None \<Rightarrow> createPlanet g i c s | Some q \<Rightarrow> s))
                        (setPlanetProps (focusedPlanetId s = Some (idC c)) c q)"
      by simp
    have "container p = c"
      by (simp add: p adjustParticles_def setPlanetProps_def Let_def)
    with True assms(3) show ?thesis
      using fresh_after_update [of f0 "focusedPlanetId s" c] by (simp add: p)
  next
    case False
    with q l j have "lookupPlanet s (key g) j = Some p" "j \<in> I" by auto
    with assms(2) show ?thesis by (simp add: freshOn_def)
  qed
qed

lemma reconcileContainer_fresh_other:
  assumes "key g \<in> ringKeys s" and "freshOn f0 s g' I" and "key g' \<noteq> key g"
  shows "freshOn f0 (reconcileContainer g i c s) g' I"
  using assms(2)
proof (rule freshOn_subset)
  show "focusedPlanetId (reconcileContainer g i c s) = focusedPlanetId s" by simp
  fix j p assume "lookupPlanet (reconcileContainer g i c s) (key g') j = Some p"
  then show "lookupPlanet s (key g') j = Some p"
    using reconcileContainer_lookup [OF assms(1), of i c "key g'" j] assms(3) by auto
qed

lemma reconcileContainers_fresh:
  "key g \<in> ringKeys s \<Longrightarrow> freshOn f0 s g I \<Longrightarrow> set cs \<subseteq> set (containers g) \<Longrightarrow>
     freshOn f0 (reconcileContainers g i cs s) g (idC ` set cs \<union> I)"
proof (induction cs arbitrary: i s I)
  case Nil
  then show ?case by simp
next
  case (Cons c cs)
  have "freshOn f0 (reconcileContainer g i c s) g (insert (idC c) I)"
    using Cons.prems by (intro reconcileContainer_fresh) auto
  moreover have "key g \<in> ringKeys (reconcileContainer g i c s)"
    using Cons.prems by (simp add: reconcileContainer_keys)
  ultimately have "freshOn f0 (reconcileContainers g (Suc i) cs (reconcileContainer g i c s)) g
                     (idC ` set cs \<union> insert (idC c) I)"
    using Cons.prems by (intro Cons.IH) auto
  then show ?case by (simp add: Un_commute insert_commute Un_insert_right Un_insert_left)
qed

lemma reconcileContainers_fresh_other:
  "key g \<in> ringKeys s \<Longrightarrow> freshOn f0 s g' I \<Longrightarrow> key g' \<noteq> key g \<Longrightarrow>
     freshOn f0 (reconcileContainers g i cs s) g' I"
proof (induction cs arbitrary: i s)
  case Nil
  then show ?case by simp
next
  case (Cons c cs)
  have "freshOn f0 (reconcileContainer g i c s) g' I"
    using Cons.prems by (intro reconcileContainer_fresh_other)
  moreover have "key g \<in> ringKeys (reconcileContainer g i c s)"
    using Cons.prems by (simp add: reconcileContainer_keys)
  ultimately show ?case using Cons.prems by (simp add: Cons.IH)
qed


lemma freshOn_all:
  "freshOn f0 s g (planetKeys s (key g)) \<Longrightarrow> freshOn f0 s g UNIV"
  unfolding freshOn_def by (metis UNIV_I option.distinct(1) planetKeys_iff)

lemma reconcileGroup_focus:
  "focusOk f0 s \<Longrightarrow> focusOk f0 (reconcileGroup rand n i g s)"
proof -
  assume a: "focusOk f0 s"
  define s1 where "s1 = (case map_of (groupOrbits s) (key g) of
                  None \<Rightarrow> createGroupOrbit rand n i g s | Some go \<Rightarrow> s)"
  define s2 where "s2 = modifyOrbit (key g) (\<lambda>go. go\<lparr>orbitGroup := g\<rparr>) s1"
  have "focusedPlanetId s2 = focusedPlanetId s"
    by (simp add: s2_def s1_def split: option.splits)
  then have "focusOk f0 s2" using a by (simp add: focusOk_def)
  moreover have "freshOn f0 s2 g {}" by (simp add: freshOn_def)
  ultimately have "focusOk f0 (removeStalePlanets g s2)"
    using removeStalePlanets_fresh by blast
  then show ?thesis
    by (simp add: reconcileGroup_def Let_def s1_def s2_def focusOk_def)
qed

lemma reconcileGroup_fresh_other:
  assumes "focusOk f0 s" and "freshOn f0 s g' I" and "key g' \<noteq> key g"
  shows "freshOn f0 (reconcileGroup rand n i g s) g' I"
proof -
  define s1 where "s1 = (case map_of (groupOrbits s) (key g) of
                  None \<Rightarrow> createGroupOrbit rand n i g s | Some go \<Rightarrow> s)"
  define s2 where "s2 = modifyOrbit (key g) (\<lambda>go. go\<lparr>orbitGroup := g\<rparr>) s1"
  define s3 where "s3 = removeStalePlanets g s2"
  have r: "reconcileGroup rand n i g s = reconcileContainers g 0 (containers g) s3"
    by (simp add: reconcileGroup_def s1_def s2_def s3_def Let_def)
  have f2: "focusedPlanetId s2 = focusedPlanetId s"
    by (simp add: s2_def s1_def split: option.splits)
  have l2: "lookupPlanet s2 (key g') j = lookupPlanet s (key g') j" for j
    using assms(3)
    by (simp add: s2_def s1_def lookupPlanet_createGroupOrbit split: option.splits)
  have a2: "freshOn f0 s2 g' I"
    using assms(2) by (rule freshOn_subset) (simp_all add: f2 l2)
  have o2: "focusOk f0 s2" using assms(1) by (simp add: focusOk_def f2)
  have a3: "freshOn f0 s3 g' I"
    unfolding s3_def using removeStalePlanets_fresh [OF a2 o2] by simp
  have k3: "key g \<in> ringKeys s3"
    by (cases "map_of (groupOrbits s) (key g)")
       (auto simp: s3_def s2_def s1_def removeStalePlanets_keys dom_map_entry
          createGroupOrbit_keys in_keys_iff)
  show ?thesis
    unfolding r using k3 a3 assms(3) by (rule reconcileContainers_fresh_other)
qed

lemma reconcileGroup_fresh:
  assumes "focusOk f0 s"
  shows "freshOn f0 (reconcileGroup rand n i g s) g UNIV"
proof -
  define s1 where "s1 = (case map_of (groupOrbits s) (key g) of
                  None \<Rightarrow> createGroupOrbit rand n i g s | Some go \<Rightarrow> s)"
  define s2 where "s2 = modifyOrbit (key g) (\<lambda>go. go\<lparr>orbitGroup := g\<rparr>) s1"
  define s3 where "s3 = removeStalePlanets g s2"
  have r: "reconcileGroup rand n i g s = reconcileContainers g 0 (containers g) s3"
    by (simp add: reconcileGroup_def s1_def s2_def s3_def Let_def)
  have k3: "key g \<in> ringKeys s3"
    by (cases "map_of (groupOrbits s) (key g)")
       (auto simp: s3_def s2_def s1_def removeStalePlanets_keys dom_map_entry
          createGroupOrbit_keys in_keys_iff)
  have "freshOn f0 s3 g {}" by (simp add: freshOn_def)
  with k3 have "freshOn f0 (reconcileContainers g 0 (containers g) s3) g
                  (idC ` set (containers g) \<union> {})"
    by (rule reconcileContainers_fresh) simp
  then have "freshOn f0 (reconcileGroup rand n i g s) g
               (planetKeys (reconcileGroup rand n i g s) (key g))"
    by (simp add: r [symmetric] reconcileGroup_keys)
  then show ?thesis by (rule freshOn_all)
qed

lemma reconcileGroups_fresh:
  "distinct (map key gs) \<Longrightarrow> focusOk f0 s \<Longrightarrow>
   (\<And>g. g \<in> G \<Longrightarrow> freshOn f0 s g UNIV \<and> key g \<notin> key ` set gs) \<Longrightarrow>
     focusOk f0 (reconcileGroups rand n i gs s)
     \<and> (\<forall>g\<in>G \<union> set gs. freshOn f0 (reconcileGroups rand n i gs s) g UNIV)"
proof (induction gs arbitrary: i s G)
  case Nil
  then show ?case by simp
next
  case (Cons g gs)
  let ?t = "reconcileGroup rand n i g s"
  have d: "distinct (map key gs)" and n: "key g \<notin> key ` set gs" using Cons.prems(1) by auto
  have o: "focusOk f0 ?t" using Cons.prems(2) by (rule reconcileGroup_focus)
  have "freshOn f0 ?t g' UNIV \<and> key g' \<notin> key ` set gs" if "g' \<in> insert g G" for g'
  proof (cases "g' = g")
    case True
    then show ?thesis using n reconcileGroup_fresh [OF Cons.prems(2)] by simp
  next
    case False
    with that have g': "g' \<in> G" by simp
    from Cons.prems(3) [OF g'] have "freshOn f0 s g' UNIV" "key g' \<noteq> key g" "key g' \<notin> key ` set gs"
      by auto
    then show ?thesis
      using reconcileGroup_fresh_other [OF Cons.prems(2)] by simp
  qed
  from Cons.IH [OF d o this, of "insert g G" "Suc i"] show ?case by simp
qed

lemma groupContainers_members:
  "g \<in> set (groupContainers cs) \<Longrightarrow> containers g = members cs (key g)"
  by (auto simp: groupContainers_eq mkGroup_def)

lemma reconcile_fresh:
  assumes "screen s = Some wh" and "g \<in> set (groupContainers cs)"
  shows "freshOn (focusedPlanetId s) (reconcile rand cs s) g UNIV"
    and "focusOk (focusedPlanetId s) (reconcile rand cs s)"
proof -
  let ?gs = "groupContainers cs"
  let ?s0 = "removeStaleGroupOrbits ?gs s"
  have r: "reconcile rand cs s = reconcileGroups rand (length ?gs) 0 ?gs ?s0"
    using assms(1) by (simp add: reconcile_def Let_def)
  have o: "focusOk (focusedPlanetId s) ?s0"
    by (simp add: focusOk_def removeStaleGroupOrbits_frame)
  have "focusOk (focusedPlanetId s) (reconcileGroups rand (length ?gs) 0 ?gs ?s0)
     \<and> (\<forall>g\<in>{} \<union> set ?gs. freshOn (focusedPlanetId s) (reconcileGroups rand (length ?gs) 0 ?gs ?s0) g UNIV)"
    using groupContainers_distinct o by (rule reconcileGroups_fresh) simp
  then show "freshOn (focusedPlanetId s) (reconcile rand cs s) g UNIV"
    and "focusOk (focusedPlanetId s) (reconcile rand cs s)"
    using assms(2) by (simp_all add: r)
qed

text \<open>
  Claim C8. After a reconciliation on a mounted application, every body of the scene
  belongs to an entity of the feed with its id and group, its angular velocity is
  \<open>0.05 + (load / 100) * 0.45\<close>, and its sprite is a square of width twice the size
  \<open>minRadius + sqrt (memory / 100) * (cap - minRadius)\<close>, where the cap is the smaller
  \<open>largeMaxRadius\<close> when the memory percentage is above 70 and \<open>maxRadius\<close> otherwise;
  the width is multiplied by the focus scale when the body is the focused one, and only
  for a body that was focused before the call. A missing load or memory metric counts as
  zero, and every entity of the feed has a body.
\<close>

theorem reconcile_body_formulas:
  "screen s \<noteq> None \<longrightarrow>
     (\<forall>k i p. lookupPlanet (reconcile rand cs s) k i = Some p \<longrightarrow>
        container p \<in> set cs \<and> idC (container p) = i \<and> group (container p) = k
        \<and> orbitSpeed p = 0.05 + (orZero (cpuPercent (container p)) / 100) * 0.45
        \<and> spriteHeight p = spriteWidth p
        \<and> (spriteWidth p = planetSize (container p) * 2
            \<or> spriteWidth p = planetSize (container p) * 2 * focusScale)
        \<and> (focusedPlanetId s \<noteq> Some i \<longrightarrow> spriteWidth p = planetSize (container p) * 2)
        \<and> (focusedPlanetId (reconcile rand cs s) = Some i \<longrightarrow>
              spriteWidth p = planetSize (container p) * 2 * focusScale)
        \<and> planetSize (container p) =
            minRadius + sqrt (orZero (memoryPercent (container p)) / 100)
              * ((if orZero (memoryPercent (container p)) > 70 then largeMaxRadius else maxRadius)
                 - minRadius))
     \<and> (\<forall>c\<in>set cs. lookupPlanet (reconcile rand cs s) (group c) (idC c) \<noteq> None)
     \<and> orZero None = 0 \<and> largeMaxRadius < maxRadius"
proof (intro impI conjI allI ballI)
  assume "screen s \<noteq> None"
  then obtain wh where m: "screen s = Some wh" by auto
  let ?s' = "reconcile rand cs s"
  show "orZero None = 0" by (simp add: orZero_def)
  show "largeMaxRadius < maxRadius" by (simp add: largeMaxRadius_def maxRadius_def)
  {
    fix c assume c: "c \<in> set cs"
    then have "group c \<in> key ` set (groupContainers cs)"
      by (simp add: groupContainers_eq mkGroup_def image_image set_firstEncountered)
    then obtain g where g: "g \<in> set (groupContainers cs)" "key g = group c" by auto
    have "idC c \<in> idC ` set (containers g)"
      using c g by (simp add: groupContainers_members members_def)
    then have "idC c \<in> planetKeys ?s' (key g)"
      using reconcile_in_sync(2) [OF m g(1)] by simp
    then show "lookupPlanet ?s' (group c) (idC c) \<noteq> None"
      using g(2) by (simp add: planetKeys_iff)
  }
  fix k i p assume l: "lookupPlanet ?s' k i = Some p"
  then have "k \<in> ringKeys ?s'"
    by (auto simp: lookupPlanet_def in_keys_iff split: option.splits)
  then obtain g where g: "g \<in> set (groupContainers cs)" "key g = k"
    using reconcile_in_sync(1) [OF m] by auto
  from reconcile_fresh [OF m g(1)] l g(2)
  have f: "fresh (focusedPlanetId s) (focusedPlanetId ?s') i p"
    and c: "container p \<in> set (containers g)"
    and o: "focusOk (focusedPlanetId s) ?s'"
    by (auto simp: freshOn_def)
  from c g show "container p \<in> set cs" "group (container p) = k"
    by (simp_all add: groupContainers_members members_def)
  from f show "idC (container p) = i" "spriteHeight p = spriteWidth p"
    by (simp_all add: fresh_def)
  from f show "orbitSpeed p = 0.05 + (orZero (cpuPercent (container p)) / 100) * 0.45"
    by (simp add: fresh_def planetSpeed_def)
  from f show "spriteWidth p = planetSize (container p) * 2
            \<or> spriteWidth p = planetSize (container p) * 2 * focusScale"
    by (auto simp: fresh_def split: if_splits)
  show "planetSize (container p) =
            minRadius + sqrt (orZero (memoryPercent (container p)) / 100)
              * ((if orZero (memoryPercent (container p)) > 70 then largeMaxRadius else maxRadius)
                 - minRadius)"
    by (simp add: planetSize_def Let_def)
  {
    assume "focusedPlanetId s \<noteq> Some i"
    moreover from this o have "focusedPlanetId ?s' \<noteq> Some i" by (auto simp: focusOk_def)
    ultimately show "spriteWidth p = planetSize (container p) * 2"
      using f by (simp add: fresh_def)
  }
  {
    assume "focusedPlanetId ?s' = Some i"
    then show "spriteWidth p = planetSize (container p) * 2 * focusScale"
      using f by (simp add: fresh_def)
  }
qed


text \<open>
  The pinned scene \<open>pinnedA\<close> refreshed with the feed \<open>[cA', cB]\<close>: the pinned body
  \<open>a\<close> stays focused and is drawn at the focus scale, the body \<open>b\<close>, whose memory metric
  is missing, at the minimum size.
\<close>

theorem reconcile_body_formulas_witness:
  "screen pinnedA \<noteq> None
   \<and> focusedPlanetId (reconcile exRand [cA', cB] pinnedA) = Some ''a''
   \<and> focusedPlanetId pinnedA \<noteq> Some ''b''
   \<and> (\<exists>p. lookupPlanet (reconcile exRand [cA', cB] pinnedA) ''web'' ''a'' = Some p
          \<and> container p = cA' \<and> orbitSpeed p = 19 / 200
          \<and> spriteWidth p = 36 \<and> spriteHeight p = 36)
   \<and> (\<exists>p. lookupPlanet (reconcile exRand [cA', cB] pinnedA) ''db'' ''b'' = Some p
          \<and> container p = cB \<and> memoryPercent cB = None \<and> orbitSpeed p = 1 / 20
          \<and> spriteWidth p = 24 \<and> spriteHeight p = 24)"
proof -
  let ?s' = "reconcile exRand [cA', cB] pinnedA"
  have m: "screen pinnedA \<noteq> None" and b: "focusedPlanetId pinnedA \<noteq> Some ''b''"
    by (simp_all add: pinnedA_def)
  have e: "focusedPlanetId ?s' = Some ''a''" by (rule refresh_pinned_focus)
  note T = reconcile_body_formulas [of pinnedA exRand "[cA', cB]"]
  from T m have "lookupPlanet ?s' (group cA') (idC cA') \<noteq> None"
    and "lookupPlanet ?s' (group cB) (idC cB) \<noteq> None"
    by simp_all
  then obtain pa pb where pa: "lookupPlanet ?s' ''web'' ''a'' = Some pa"
    and pb: "lookupPlanet ?s' ''db'' ''b'' = Some pb"
    by auto
  from T m pa e have a1: "container pa \<in> set [cA', cB]" "idC (container pa) = ''a''"
    and a2: "orbitSpeed pa = 0.05 + (orZero (cpuPercent (container pa)) / 100) * 0.45"
      "spriteHeight pa = spriteWidth pa"
      "spriteWidth pa = planetSize (container pa) * 2 * focusScale"
    by blast+
  from a1 have ca: "container pa = cA'" by auto
  from T m pb b have b1: "container pb \<in> set [cA', cB]" "idC (container pb) = ''b''"
    and b2: "orbitSpeed pb = 0.05 + (orZero (cpuPercent (container pb)) / 100) * 0.45"
      "spriteHeight pb = spriteWidth pb"
      "spriteWidth pb = planetSize (container pb) * 2"
    by blast+
  from b1 have cb: "container pb = cB" by auto
  have "orbitSpeed pa = 19 / 200 \<and> spriteWidth pa = 36 \<and> spriteHeight pa = 36"
    using a2 by (simp add: ca orZero_def planetSize_def minRadius_def largeMaxRadius_def
                   maxRadius_def focusScale_def)
  moreover have "orbitSpeed pb = 1 / 20 \<and> spriteWidth pb = 24 \<and> spriteHeight pb = 24"
    using b2 by (simp add: cb orZero_def planetSize_def minRadius_def largeMaxRadius_def
                   maxRadius_def)
  ultimately show ?thesis using m b e pa pb ca cb by simp
qed

section \<open>The group of a ring\<close>

lemma ringGroup_planets_only:
  "groupOrbits t = AList.map_entry k (\<lambda>go. go\<lparr>planets := h go\<rparr>) (groupOrbits s) \<Longrightarrow>
     ringGroup t k' = ringGroup s k'"
  by (cases "map_of (groupOrbits s) k") (simp_all add: ringGroup_def map_of_map_entry_if)

lemma ringGroup_same: "groupOrbits t = groupOrbits s \<Longrightarrow> ringGroup t k = ringGroup s k"
  by (simp add: ringGroup_def)

lemma ringGroup_unfocusPlanet [simp]: "ringGroup (unfocusPlanet s) k = ringGroup s k"
  using unfocusPlanet_rings [of s]
  by (elim disjE exE) (erule ringGroup_same, erule ringGroup_planets_only)

lemma ringGroup_removeStalePlanet [simp]:
  "ringGroup (removeStalePlanet k ids s e) k' = ringGroup s k'"
proof -
  have "ringGroup (modifyOrbit k (\<lambda>go. go\<lparr>planets := AList.delete i (planets go)\<rparr>) t) k'
          = ringGroup t k'" for i t
    by (rule ringGroup_planets_only [where h = "\<lambda>go. AList.delete i (planets go)"]) simp
  moreover have "ringGroup (stageRemovePlanet p t) k' = ringGroup t k'" for p t
    by (rule ringGroup_same) simp
  ultimately show ?thesis by (simp add: removeStalePlanet_def Let_def)
qed

lemma ringGroup_foldl_removeStalePlanet [simp]:
  "ringGroup (foldl (removeStalePlanet k ids) s es) k' = ringGroup s k'"
  by (induction es arbitrary: s) simp_all

lemma ringGroup_removeStalePlanets [simp]:
  "ringGroup (removeStalePlanets g s) k = ringGroup s k"
  by (simp add: removeStalePlanets_def split: option.splits)

lemma ringGroup_modifyPlanet [simp]: "ringGroup (modifyPlanet k i f s) k' = ringGroup s k'"
  by (rule ringGroup_planets_only [where h = "\<lambda>go. AList.map_entry i f (planets go)"]) simp

lemma ringGroup_createPlanet [simp]: "ringGroup (createPlanet g i c s) k = ringGroup s k"
proof (cases "map_of (groupOrbits s) (key g)")
  case None
  then show ?thesis by (simp add: createPlanet_def)
next
  case (Some go)
  have "ringGroup (modifyOrbit (key g) (\<lambda>go'. go'\<lparr>planets := AList.update j p (planets go')\<rparr>) t) k
          = ringGroup t k" for j p t
    by (rule ringGroup_planets_only [where h = "\<lambda>go. AList.update j p (planets go)"]) simp
  then show ?thesis
    using Some by (simp add: createPlanet_def Let_def ringGroup_def)
qed

lemma ringGroup_updateParticles [simp]: "ringGroup (updateParticles k c s) k' = ringGroup s k'"
  by (simp add: updateParticles_def Let_def ringGroup_def [of "_\<lparr>nextObj := _\<rparr>"]
        ringGroup_def [of "foldl _ _ _"] ringGroup_def [of s] split: option.splits)

lemma ringGroup_reconcileContainer [simp]:
  "ringGroup (reconcileContainer g i c s) k = ringGroup s k"
  by (simp add: reconcileContainer_def Let_def split: option.splits)

lemma ringGroup_reconcileContainers [simp]:
  "ringGroup (reconcileContainers g i cs s) k = ringGroup s k"
  by (induction cs arbitrary: i s) simp_all

lemma ringGroup_reconcileGroup:
  "ringGroup (reconcileGroup rand n i g s) k = (if k = key g then Some g else ringGroup s k)"
proof -
  have a: "ringGroup (modifyOrbit (key g) (\<lambda>go. go\<lparr>orbitGroup := g\<rparr>) t) k'
         = (if k' = key g then map_option (\<lambda>_. g) (ringGroup t k') else ringGroup t k')" for t k'
    by (cases "map_of (groupOrbits t) (key g)")
       (simp_all add: ringGroup_def map_of_map_entry_if)
  have b: "ringGroup (createGroupOrbit rand n i g s) k'
         = (if k' = key g then Some g else ringGroup s k')" for k'
    by (simp add: ringGroup_def createGroupOrbit_rings map_of_update_if)
  show ?thesis
  proof (cases "map_of (groupOrbits s) (key g)")
    case None
    then show ?thesis by (simp add: reconcileGroup_def Let_def a b)
  next
    case (Some go)
    then have "ringGroup s (key g) = Some (orbitGroup go)" by (simp add: ringGroup_def)
    with Some show ?thesis by (simp add: reconcileGroup_def Let_def a)
  qed
qed

lemma ringGroup_reconcileGroups:
  "distinct (map key gs) \<Longrightarrow>
     ringGroup (reconcileGroups rand n i gs s) k =
       (case find (\<lambda>g. key g = k) gs of Some g \<Rightarrow> Some g | None \<Rightarrow> ringGroup s k)"
proof (induction gs arbitrary: i s)
  case Nil
  show ?case by simp
next
  case (Cons g gs)
  then have d: "distinct (map key gs)" and n: "key g \<notin> key ` set gs" by auto
  have "\<not> (\<exists>x. x \<in> set gs \<and> key x = key g)" using n by (metis imageI)
  then have f: "find (\<lambda>g'. key g' = key g) gs = None" by (simp add: find_None_iff)
  show ?case
  proof (cases "key g = k")
    case True
    with f have "find (\<lambda>g'. key g' = k) gs = None" by simp
    with True show ?thesis by (simp add: Cons.IH [OF d] ringGroup_reconcileGroup)
  next
    case False
    then show ?thesis
      by (auto simp: Cons.IH [OF d] ringGroup_reconcileGroup split: option.splits)
  qed
qed

lemma ringGroup_reconcile:
  assumes "screen s = Some wh" and "g \<in> set (groupContainers cs)"
  shows "ringGroup (reconcile rand cs s) (key g) = Some g"
  using assms
  by (simp add: reconcile_def Let_def ringGroup_reconcileGroups groupContainers_distinct
        find_distinct_key)


section \<open>A settled scene is a fixed point\<close>

lemma map_entry_id:
  "(\<And>v. map_of al k = Some v \<Longrightarrow> f v = v) \<Longrightarrow> AList.map_entry k f al = al"
  by (induction al) auto

lemma modifyOrbit_id:
  "(\<And>go. map_of (groupOrbits s) k = Some go \<Longrightarrow> f go = go) \<Longrightarrow> modifyOrbit k f s = s"
  by (simp add: modifyOrbit_def map_entry_id)

lemma modifyPlanet_id:
  assumes "\<And>p. lookupPlanet s k i = Some p \<Longrightarrow> f p = p"
  shows "modifyPlanet k i f s = s"
  unfolding modifyPlanet_def
proof (rule modifyOrbit_id)
  fix go assume go: "map_of (groupOrbits s) k = Some go"
  have "AList.map_entry i f (planets go) = planets go"
    using assms go by (intro map_entry_id) (simp add: lookupPlanet_def)
  then show "go\<lparr>planets := AList.map_entry i f (planets go)\<rparr> = go" by simp
qed

lemma setPlanetProps_id:
  "settledPlanet f c p \<Longrightarrow> setPlanetProps (f = Some (idC c)) c p = p"
  by (cases p) (auto simp: settledPlanet_def setPlanetProps_def Let_def)

lemma updateParticles_id:
  "lookupPlanet s k (idC c) = Some p \<Longrightarrow> settledPlanet f c p \<Longrightarrow> updateParticles k c s = s"
  by (simp add: updateParticles_def settledPlanet_def)

lemma reconcileContainer_id:
  assumes "lookupPlanet s (key g) (idC c) = Some p" and "settledPlanet (focusedPlanetId s) c p"
  shows "reconcileContainer g i c s = s"
proof -
  have "modifyPlanet (key g) (idC c) (setPlanetProps (focusedPlanetId s = Some (idC c)) c) s = s"
    using assms by (intro modifyPlanet_id) (simp add: setPlanetProps_id)
  then show ?thesis
    using assms by (simp add: reconcileContainer_def Let_def updateParticles_id)
qed

lemma reconcileContainers_id:
  "(\<And>c. c \<in> set cs \<Longrightarrow>
      \<exists>p. lookupPlanet s (key g) (idC c) = Some p \<and> settledPlanet (focusedPlanetId s) c p) \<Longrightarrow>
   reconcileContainers g i cs s = s"
proof (induction cs arbitrary: i)
  case Nil
  show ?case by simp
next
  case (Cons c cs)
  from Cons.prems [of c] obtain p where "lookupPlanet s (key g) (idC c) = Some p"
    "settledPlanet (focusedPlanetId s) c p" by auto
  then have "reconcileContainer g i c s = s" by (rule reconcileContainer_id)
  then show ?case using Cons by simp
qed

lemma reconcileGroup_id:
  assumes "settled s g"
  shows "reconcileGroup rand n i g s = s"
proof -
  from assms obtain go where go: "map_of (groupOrbits s) (key g) = Some go" "orbitGroup go = g"
    by (auto simp: settled_def ringGroup_def)
  have a: "modifyOrbit (key g) (\<lambda>go. go\<lparr>orbitGroup := g\<rparr>) s = s"
    using go by (intro modifyOrbit_id) auto
  have b: "removeStalePlanets g s = s"
    using assms by (intro removeStalePlanets_in_sync) (simp add: settled_def)
  have c: "reconcileContainers g 0 (containers g) s = s"
    using assms by (intro reconcileContainers_id) (simp add: settled_def)
  show ?thesis using go by (simp add: reconcileGroup_def Let_def a b c)
qed

lemma reconcileGroups_id:
  "(\<And>g. g \<in> set gs \<Longrightarrow> settled s g) \<Longrightarrow> reconcileGroups rand n i gs s = s"
  by (induction gs arbitrary: i) (simp_all add: reconcileGroup_id)

lemma removeStaleGroupOrbits_id:
  "ringKeys s \<subseteq> key ` set groups \<Longrightarrow> removeStaleGroupOrbits groups s = s"
  unfolding removeStaleGroupOrbits_eq
  by (rule foldl_same) (auto simp: staleStep_def)

lemma reconcile_id:
  assumes "ringKeys s \<subseteq> key ` set (groupContainers cs)"
    and "\<And>g. g \<in> set (groupContainers cs) \<Longrightarrow> settled s g"
  shows "reconcile rand cs s = s"
  using assms by (simp add: reconcile_def Let_def removeStaleGroupOrbits_id reconcileGroups_id)


lemma reconcile_settled:
  assumes m: "screen s = Some wh" and d: "distinct (map idC cs)"
    and f: "focusedPlanetId (reconcile rand cs s) = focusedPlanetId s
            \<or> focusedPlanetId s \<notin> Some ` idC ` set cs"
    and g: "g \<in> set (groupContainers cs)"
  shows "settled (reconcile rand cs s) g"
  unfolding settled_def
proof (intro conjI ballI)
  let ?s' = "reconcile rand cs s"
  show "ringGroup ?s' (key g) = Some g" using m g by (rule ringGroup_reconcile)
  show "planetKeys ?s' (key g) \<subseteq> idC ` set (containers g)"
    using reconcile_in_sync(2) [OF m g] by simp
  fix c assume c: "c \<in> set (containers g)"
  then have "idC c \<in> planetKeys ?s' (key g)"
    using reconcile_in_sync(2) [OF m g] by simp
  then obtain p where p: "lookupPlanet ?s' (key g) (idC c) = Some p"
    by (auto simp: planetKeys_iff)
  from reconcile_fresh(1) [OF m g] p
  have fr: "fresh (focusedPlanetId s) (focusedPlanetId ?s') (idC c) p"
    and cp: "container p \<in> set (containers g)"
    by (auto simp: freshOn_def)
  have sub: "set (containers g) \<subseteq> set cs"
    using g by (auto simp: groupContainers_members members_def)
  have "inj_on idC (set cs)" using d by (simp add: distinct_map)
  moreover have "idC (container p) = idC c" using fr by (simp add: fresh_def)
  ultimately have e: "container p = c" using c cp sub by (auto dest: inj_onD)
  have w: "focusedPlanetId ?s' \<noteq> Some (idC c) \<Longrightarrow> focusedPlanetId s \<noteq> Some (idC c)"
    using f c sub by auto
  have "settledPlanet (focusedPlanetId ?s') c p"
    using fr e w by (auto simp: fresh_def settledPlanet_def split: if_splits)
  with p show "\<exists>p. lookupPlanet ?s' (key g) (idC c) = Some p
                  \<and> settledPlanet (focusedPlanetId ?s') c p"
    by simp
qed

text \<open>
  What a second refresh with the same entity list leaves alone. In every state and for
  every list, the rings and their order, each ring's start angle, radius and display
  objects, the bodies of each ring and their order, each body's display objects and its
  angular position are the same after the second call as after the first, and so are the
  focused body, the selection store and the number of random numbers drawn. When moreover
  the ids of the list are distinct, and the first call has left the focus as it was or
  the focused body is not in the list, the second call leaves the whole state as it is.
\<close>

lemma reconcile_twice:
  "sceneCore (reconcile rand cs (reconcile rand cs s)) = sceneCore (reconcile rand cs s)
   \<and> focusedPlanetId (reconcile rand cs (reconcile rand cs s)) = focusedPlanetId (reconcile rand cs s)
   \<and> store (reconcile rand cs (reconcile rand cs s)) = store (reconcile rand cs s)
   \<and> randCount (reconcile rand cs (reconcile rand cs s)) = randCount (reconcile rand cs s)
   \<and> (distinct (map idC cs)
        \<and> (focusedPlanetId (reconcile rand cs s) = focusedPlanetId s
             \<or> focusedPlanetId s \<notin> Some ` idC ` set cs)
        \<longrightarrow> reconcile rand cs (reconcile rand cs s) = reconcile rand cs s)"
proof (cases "screen s")
  case None
  then show ?thesis by (simp add: reconcile_def)
next
  case (Some wh)
  have "sceneCore (reconcile rand cs (reconcile rand cs s)) = sceneCore (reconcile rand cs s)
   \<and> focusedPlanetId (reconcile rand cs (reconcile rand cs s)) = focusedPlanetId (reconcile rand cs s)
   \<and> store (reconcile rand cs (reconcile rand cs s)) = store (reconcile rand cs s)
   \<and> randCount (reconcile rand cs (reconcile rand cs s)) = randCount (reconcile rand cs s)"
    by (rule reconcile_in_sync_same) (simp_all add: reconcile_in_sync [OF Some])
  moreover have "reconcile rand cs (reconcile rand cs s) = reconcile rand cs s"
    if "distinct (map idC cs)"
      and "focusedPlanetId (reconcile rand cs s) = focusedPlanetId s
           \<or> focusedPlanetId s \<notin> Some ` idC ` set cs"
    using reconcile_settled [OF Some that]
    by (intro reconcile_id) (simp_all add: reconcile_in_sync(1) [OF Some])
  ultimately show ?thesis by blast
qed

text \<open>
  The pinned scene \<open>pinnedA\<close> and the feed \<open>[cA', cB]\<close>, in which the load of \<open>a\<close> has
  dropped: the ids are distinct and \<open>a\<close> stays focused, and a second refresh with the
  same feed leaves the state as it is.
\<close>

lemma reconcile_twice_example:
  "distinct (map idC [cA', cB])
   \<and> focusedPlanetId (reconcile exRand [cA', cB] pinnedA) = focusedPlanetId pinnedA
   \<and> reconcile exRand [cA', cB] (reconcile exRand [cA', cB] pinnedA)
       = reconcile exRand [cA', cB] pinnedA"
proof -
  have d: "distinct (map idC [cA', cB])" by simp
  have f: "focusedPlanetId (reconcile exRand [cA', cB] pinnedA) = focusedPlanetId pinnedA"
    by (simp add: refresh_pinned_focus) (simp add: pinnedA_def)
  show ?thesis
    using reconcile_twice [of exRand "[cA', cB]" pinnedA] d f by blast
qed

end
